theory Spec2Isabelle
  imports Main
begin

section \<open>Constants declared outside the sources\<close>

text \<open>
  The operation return values and \<open>SEDML_INT_MAX\<close> are declared in headers of the
  common directory, which are not among the sources. Their numeric values are not fixed
  here: every operation that returns one of them takes the table of constants as a
  parameter. \<open>LIBSBML_INVALID_OBJECT\<close> is the constant of the underlying toolkit that
  the list-related C functions return. Counts (\<open>unsigned int\<close> in the sources) are
  natural numbers: a count is only ever the number of elements of a collection, or
  \<open>SEDML_INT_MAX\<close>.
\<close>

record constants =
  LIBSEDML_OPERATION_SUCCESS :: int
  LIBSEDML_INVALID_ATTRIBUTE_VALUE :: int
  LIBSEDML_INVALID_OBJECT :: int
  LIBSBML_INVALID_OBJECT :: int
  SEDML_INT_MAX :: nat

section \<open>Data model\<close>

type_synonym addr = nat

text \<open>
  The expression tree of the MathML toolkit, which this library treats as an opaque owned
  value. Its well-formedness test \<open>isWellFormedASTNode\<close> belongs to that toolkit and is
  a parameter of \<open>setMath\<close>.
\<close>

datatype ASTNode = ASTNode string "ASTNode list"

text \<open>
  Modelled from the spec: the child classes SedVariable, SedParameter and SedCurve are not
  among the sources. An element node carries an optional identifier/name pair; the class
  of the child is kept as a tag.
\<close>

datatype ChildClass = SedVariable | SedParameter | SedCurve

record SedChild =
  childClass :: ChildClass
  mId :: string
  mName :: string

definition SedVariable_new :: SedChild where
  "SedVariable_new = \<lparr>childClass = SedVariable, mId = [], mName = []\<rparr>"

definition SedParameter_new :: SedChild where
  "SedParameter_new = \<lparr>childClass = SedParameter, mId = [], mName = []\<rparr>"

definition SedCurve_new :: SedChild where
  "SedCurve_new = \<lparr>childClass = SedCurve, mId = [], mName = []\<rparr>"

text \<open>SedNamespaces.h: the members \<open>mLevel\<close>, \<open>mVersion\<close> and \<open>mNamespaces\<close>
  (here the namespace URI that \<open>getURI\<close> returns).\<close>

record SedNamespaces =
  mLevel :: nat
  mVersion :: nat
  mNamespaces :: string

definition getURI :: "SedNamespaces \<Rightarrow> string" where
  "getURI ns = mNamespaces ns"

text \<open>
  Modelled from the spec: the superclasses SedChange and SedOutput are not among the
  sources. An element node has a level/version pair and a namespace; construction from
  (level, version) registers a fresh namespace object, construction from a namespace
  bundle adopts the bundle's namespace. The static \<open>getSedNamespaceURI\<close> of
  SedNamespaces is a parameter (\<open>uriOf\<close>).
\<close>

record SedBase =
  mSedNamespaces :: SedNamespaces
  mURI :: string

definition SedNamespaces_new :: "(nat \<Rightarrow> nat \<Rightarrow> string) \<Rightarrow> nat \<Rightarrow> nat \<Rightarrow> SedNamespaces" where
  "SedNamespaces_new uriOf level version =
     \<lparr>mLevel = level, mVersion = version, mNamespaces = uriOf level version\<rparr>"

definition SedBase_level_version :: "(nat \<Rightarrow> nat \<Rightarrow> string) \<Rightarrow> nat \<Rightarrow> nat \<Rightarrow> SedBase" where
  "SedBase_level_version uriOf level version =
     \<lparr>mSedNamespaces = SedNamespaces_new uriOf level version, mURI = []\<rparr>"


definition setSedNamespacesAndOwn :: "SedBase \<Rightarrow> SedNamespaces \<Rightarrow> SedBase" where
  "setSedNamespacesAndOwn b ns = b\<lparr>mSedNamespaces := ns, mURI := getURI ns\<rparr>"


text \<open>
  Modelled from the spec: the ordered child collection (SedListOf and its subclasses) is
  not among the sources. It is an insertion-ordered sequence of owned elements, held by
  pointer, with a non-owning link back to the owning node.
\<close>

record SedListOf =
  mItems :: "addr list"
  mParentSedObject :: "addr option"

record SedComputeChange =
  SedChange_part :: SedBase
  mVariable :: SedListOf
  mParameter :: SedListOf
  mMath :: "addr option"

record SedPlot2D =
  SedOutput_part :: SedBase
  mCurve :: SedListOf

section \<open>The store\<close>

text \<open>
  Objects live in a store; a pointer is an address or NULL (\<open>None\<close>). A cell that was
  deleted holds \<open>None\<close>. Addresses are indices, so an allocation always yields an
  address that was never in use. A cell holds an expression tree as a whole (the root
  owns its subtrees, and the library never holds a pointer into a tree), a child
  element, or an element with its member collections.
\<close>

datatype obj =
    Math ASTNode
  | Child SedChild
  | ComputeChange SedComputeChange
  | Plot2D SedPlot2D

type_synonym heap = "obj option list"

definition heap_lookup :: "heap \<Rightarrow> addr \<Rightarrow> obj option" where
  "heap_lookup h a = (if a < length h then h ! a else None)"

definition heap_alloc :: "heap \<Rightarrow> obj \<Rightarrow> addr \<times> heap" where
  "heap_alloc h v = (length h, h @ [Some v])"

definition heap_store :: "heap \<Rightarrow> addr \<Rightarrow> obj \<Rightarrow> heap" where
  "heap_store h a v = h[a := Some v]"

text \<open>\<open>delete p\<close>; deleting NULL does nothing.\<close>

definition heap_delete :: "heap \<Rightarrow> addr option \<Rightarrow> heap" where
  "heap_delete h p = (case p of None \<Rightarrow> h | Some a \<Rightarrow> h[a := None])"

text \<open>
  An operation either returns or throws. \<open>InvalidPointer\<close> stands for the undefined
  behaviour of C++: a pointer that does not point to a live object of its type is
  dereferenced, or a reference is bound to no object. \<open>SedConstructorException\<close> is the
  exception named in the \<open>throw\<close> statements of the copy constructors and assignment
  operators.
\<close>

datatype exn = SedConstructorException string | InvalidPointer

datatype 'a outcome = Returns 'a | Throws exn

section \<open>The ordered child collection\<close>

text \<open>
  Modelled from the spec: the operations of SedListOf, which is not among the sources. A
  new collection is empty and has no parent; \<open>size\<close> is the current count; \<open>get\<close>
  returns the stored pointer, or NULL when the index is out of range.
\<close>

definition SedListOf_new :: SedListOf where
  "SedListOf_new = \<lparr>mItems = [], mParentSedObject = None\<rparr>"

definition SedListOf_size :: "SedListOf \<Rightarrow> nat" where
  "SedListOf_size l = length (mItems l)"

definition SedListOf_get :: "SedListOf \<Rightarrow> nat \<Rightarrow> addr option" where
  "SedListOf_get l n = (if n < length (mItems l) then Some (mItems l ! n) else None)"

text \<open>Modelled from the spec: \<open>item->clone()\<close> of a child element (the child classes
  are not among the sources) gives a new cell with the same contents.\<close>

definition SedChild_clone :: "heap \<Rightarrow> addr \<Rightarrow> (addr \<times> heap) option" where
  "SedChild_clone h a =
     (case heap_lookup h a of
        Some (Child e) \<Rightarrow> Some (heap_alloc h (Child e))
      | _ \<Rightarrow> None)"

text \<open>Modelled from the spec: \<open>appendAndOwn(item)\<close> of SedListOf takes over the element
  the caller built: the pointer itself is stored at the end.\<close>

definition SedListOf_appendAndOwn :: "SedListOf \<Rightarrow> addr \<Rightarrow> SedListOf" where
  "SedListOf_appendAndOwn l a = l\<lparr>mItems := mItems l @ [a]\<rparr>"

text \<open>Modelled from the spec: \<open>append(item)\<close> of SedListOf, for a non-null item,
  copies the element and stores the copy at the end. (The callers in the sources test
  for NULL before they call it.)\<close>

definition SedListOf_append :: "heap \<Rightarrow> SedListOf \<Rightarrow> addr \<Rightarrow> (SedListOf \<times> heap) option" where
  "SedListOf_append h l item =
     (case SedChild_clone h item of
        None \<Rightarrow> None
      | Some (a, h') \<Rightarrow> Some (SedListOf_appendAndOwn l a, h'))"

fun clone_items :: "heap \<Rightarrow> addr list \<Rightarrow> (addr list \<times> heap) option" where
  "clone_items h [] = Some ([], h)"
| "clone_items h (a # as) =
     (case SedChild_clone h a of
        None \<Rightarrow> None
      | Some (a', h') \<Rightarrow>
          (case clone_items h' as of
             None \<Rightarrow> None
           | Some (bs, h'') \<Rightarrow> Some (a' # bs, h'')))"

text \<open>
  Modelled from the spec: the assignment operator of SedListOf. Every element of the
  right-hand side is copied, in order; the parent link is copied as it is (so it is
  stale until the owner calls \<open>connectToParent\<close>). What happens to the cells of the
  elements held before is not described; they are left alone.
\<close>

definition SedListOf_assign :: "heap \<Rightarrow> SedListOf \<Rightarrow> SedListOf \<Rightarrow> (SedListOf \<times> heap) option" where
  "SedListOf_assign h lhs rhs =
     (case clone_items h (mItems rhs) of
        None \<Rightarrow> None
      | Some (bs, h') \<Rightarrow> Some (\<lparr>mItems = bs, mParentSedObject = mParentSedObject rhs\<rparr>, h'))"

text \<open>Modelled from the spec: \<open>connectToParent(owner)\<close> of SedListOf records the link
  back to the owning node.\<close>

definition SedListOf_connectToParent :: "SedListOf \<Rightarrow> addr \<Rightarrow> SedListOf" where
  "SedListOf_connectToParent l parent = l\<lparr>mParentSedObject := Some parent\<rparr>"

section \<open>The expression tree in the store\<close>

text \<open>\<open>deepCopy\<close> of the MathML toolkit: a new cell with an equal tree.\<close>

definition ASTNode_deepCopy :: "heap \<Rightarrow> addr \<Rightarrow> (addr \<times> heap) option" where
  "ASTNode_deepCopy h a =
     (case heap_lookup h a of
        Some (Math t) \<Rightarrow> Some (heap_alloc h (Math t))
      | _ \<Rightarrow> None)"

text \<open>\<open>p != NULL ? p->deepCopy() : NULL\<close>\<close>

definition deepCopy_or_NULL :: "heap \<Rightarrow> addr option \<Rightarrow> (addr option \<times> heap) option" where
  "deepCopy_or_NULL h p =
     (case p of
        None \<Rightarrow> Some (None, h)
      | Some a \<Rightarrow>
          (case ASTNode_deepCopy h a of
             None \<Rightarrow> None
           | Some (a', h') \<Rightarrow> Some (Some a', h')))"

section \<open>SedComputeChange\<close>

text \<open>\<open>connectToChild\<close>: the superclass has no collections of its own here; both
  collections are linked to \<open>this\<close>.\<close>

definition SedComputeChange_connectToChild :: "addr \<Rightarrow> SedComputeChange \<Rightarrow> SedComputeChange" where
  "SedComputeChange_connectToChild this c =
     c\<lparr>mVariable := SedListOf_connectToParent (mVariable c) this,
       mParameter := SedListOf_connectToParent (mParameter c) this\<rparr>"

text \<open>The constructor from (level, version); the result is the address of the new object.
  The initialiser list builds the superclass part and the empty collections, the body
  sets the namespaces and connects the collections.\<close>

definition SedComputeChange_level_version ::
  "(nat \<Rightarrow> nat \<Rightarrow> string) \<Rightarrow> heap \<Rightarrow> nat \<Rightarrow> nat \<Rightarrow> addr outcome \<times> heap" where
  "SedComputeChange_level_version uriOf h level version =
     (let c = \<lparr>SedChange_part = SedBase_level_version uriOf level version,
               mVariable = SedListOf_new, mParameter = SedListOf_new, mMath = None\<rparr>
      in case heap_alloc h (ComputeChange c) of
           (this, h0) \<Rightarrow>
             (Returns this,
              heap_store h0 this (ComputeChange (SedComputeChange_connectToChild this
                (c\<lparr>SedChange_part := setSedNamespacesAndOwn (SedChange_part c)
                      (SedNamespaces_new uriOf level version)\<rparr>)))))"


text \<open>
  The copy constructor; the result is the address of the new object. The parameter is a
  reference, \<open>const SedComputeChange& orig\<close>; \<open>None\<close> stands for a reference bound to no
  object, which only undefined behaviour in the caller produces. The initialiser
  \<open>SedChange(orig)\<close> reads through the reference before the body runs, and the body's test
  \<open>&orig == NULL\<close> compares the address of a reference, which a compiler takes to be
  non-null: no defined execution reaches the \<open>throw\<close>, and the outcome for \<open>None\<close> is
  \<open>InvalidPointer\<close>. Otherwise the members are assigned from \<open>orig\<close> and the collections
  are connected. The copy constructor of the superclass (not among the sources) copies
  the superclass part.
\<close>

definition SedComputeChange_copy :: "heap \<Rightarrow> addr option \<Rightarrow> addr outcome \<times> heap" where
  "SedComputeChange_copy h orig =
     (case orig of
        None \<Rightarrow> (Throws InvalidPointer, h)
      | Some src \<Rightarrow>
          (case heap_lookup h src of
             Some (ComputeChange c) \<Rightarrow>
               (case heap_alloc h (ComputeChange
                       \<lparr>SedChange_part = SedChange_part c,
                        mVariable = SedListOf_new, mParameter = SedListOf_new, mMath = None\<rparr>) of
                  (this, h0) \<Rightarrow>
                    (case SedListOf_assign h0 SedListOf_new (mVariable c) of
                       None \<Rightarrow> (Throws InvalidPointer, h)
                     | Some (vs, h1) \<Rightarrow>
                         (case SedListOf_assign h1 SedListOf_new (mParameter c) of
                            None \<Rightarrow> (Throws InvalidPointer, h)
                          | Some (ps, h2) \<Rightarrow>
                              (case deepCopy_or_NULL h2 (mMath c) of
                                 None \<Rightarrow> (Throws InvalidPointer, h)
                               | Some (m, h3) \<Rightarrow>
                                   (Returns this,
                                    heap_store h3 this (ComputeChange
                                      (SedComputeChange_connectToChild this
                                        \<lparr>SedChange_part = SedChange_part c,
                                         mVariable = vs, mParameter = ps, mMath = m\<rparr>)))))))
           | _ \<Rightarrow> (Throws InvalidPointer, h)))"

text \<open>
  The assignment operator; it returns \<open>*this\<close>. The parameter is a reference again, and
  the test \<open>&rhs == NULL\<close> is the same comparison of the address of a reference: \<open>None\<close>
  gives \<open>InvalidPointer\<close>. The second test, \<open>&rhs != this\<close>, guards the whole body:
  assigning an object to itself executes nothing.
\<close>

definition SedComputeChange_assign :: "heap \<Rightarrow> addr \<Rightarrow> addr option \<Rightarrow> addr outcome \<times> heap" where
  "SedComputeChange_assign h this rhs =
     (case rhs of
        None \<Rightarrow> (Throws InvalidPointer, h)
      | Some src \<Rightarrow>
          if src \<noteq> this then
            (case heap_lookup h this of
               Some (ComputeChange t) \<Rightarrow>
                 (case heap_lookup h src of
                    Some (ComputeChange c) \<Rightarrow>
                      (case SedListOf_assign h (mVariable t) (mVariable c) of
                         None \<Rightarrow> (Throws InvalidPointer, h)
                       | Some (vs, h1) \<Rightarrow>
                           (case SedListOf_assign h1 (mParameter t) (mParameter c) of
                              None \<Rightarrow> (Throws InvalidPointer, h)
                            | Some (ps, h2) \<Rightarrow>
                                (case deepCopy_or_NULL h2 (mMath c) of
                                   None \<Rightarrow> (Throws InvalidPointer, h)
                                 | Some (m, h3) \<Rightarrow>
                                     (Returns this,
                                      heap_store h3 this (ComputeChange
                                        (SedComputeChange_connectToChild this
                                          \<lparr>SedChange_part = SedChange_part c,
                                           mVariable = vs, mParameter = ps, mMath = m\<rparr>))))))
                  | _ \<Rightarrow> (Throws InvalidPointer, h))
             | _ \<Rightarrow> (Throws InvalidPointer, h))
          else (Returns this, h))"

text \<open>\<open>clone\<close>: \<open>new SedComputeChange(*this)\<close>.\<close>

definition SedComputeChange_clone :: "heap \<Rightarrow> addr \<Rightarrow> addr outcome \<times> heap" where
  "SedComputeChange_clone h this = SedComputeChange_copy h (Some this)"

text \<open>\<open>getMath\<close>, \<open>isSetMath\<close>\<close>

definition SedComputeChange_getMath :: "heap \<Rightarrow> addr \<Rightarrow> addr option outcome" where
  "SedComputeChange_getMath h this =
     (case heap_lookup h this of
        Some (ComputeChange c) \<Rightarrow> Returns (mMath c)
      | _ \<Rightarrow> Throws InvalidPointer)"

definition SedComputeChange_isSetMath :: "heap \<Rightarrow> addr \<Rightarrow> bool outcome" where
  "SedComputeChange_isSetMath h this =
     (case heap_lookup h this of
        Some (ComputeChange c) \<Rightarrow> Returns (mMath c \<noteq> None)
      | _ \<Rightarrow> Throws InvalidPointer)"

text \<open>\<open>setMath\<close>: the four branches of the source, in its order.\<close>

definition SedComputeChange_setMath ::
  "(ASTNode \<Rightarrow> bool) \<Rightarrow> constants \<Rightarrow> heap \<Rightarrow> addr \<Rightarrow> addr option \<Rightarrow> int outcome \<times> heap" where
  "SedComputeChange_setMath isWellFormedASTNode K h this math =
     (case heap_lookup h this of
        Some (ComputeChange c) \<Rightarrow>
          if mMath c = math then (Returns (LIBSEDML_OPERATION_SUCCESS K), h)
          else
            (case math of
               None \<Rightarrow>
                 (Returns (LIBSEDML_OPERATION_SUCCESS K),
                  heap_store (heap_delete h (mMath c)) this (ComputeChange (c\<lparr>mMath := None\<rparr>)))
             | Some m \<Rightarrow>
                 (case heap_lookup h m of
                    Some (Math t) \<Rightarrow>
                      if \<not> isWellFormedASTNode t then (Returns (LIBSEDML_INVALID_OBJECT K), h)
                      else
                        (case deepCopy_or_NULL (heap_delete h (mMath c)) math of
                           None \<Rightarrow> (Throws InvalidPointer, h)
                         | Some (m', h') \<Rightarrow>
                             (Returns (LIBSEDML_OPERATION_SUCCESS K),
                              heap_store h' this (ComputeChange (c\<lparr>mMath := m'\<rparr>))))
                  | _ \<Rightarrow> (Throws InvalidPointer, h)))
      | _ \<Rightarrow> (Throws InvalidPointer, h))"

definition SedComputeChange_unsetMath :: "constants \<Rightarrow> heap \<Rightarrow> addr \<Rightarrow> int outcome \<times> heap" where
  "SedComputeChange_unsetMath K h this =
     (case heap_lookup h this of
        Some (ComputeChange c) \<Rightarrow>
          (Returns (LIBSEDML_OPERATION_SUCCESS K),
           heap_store (heap_delete h (mMath c)) this (ComputeChange (c\<lparr>mMath := None\<rparr>)))
      | _ \<Rightarrow> (Throws InvalidPointer, h))"

text \<open>The variables.\<close>

definition SedComputeChange_getVariable :: "heap \<Rightarrow> addr \<Rightarrow> nat \<Rightarrow> addr option outcome" where
  "SedComputeChange_getVariable h this n =
     (case heap_lookup h this of
        Some (ComputeChange c) \<Rightarrow> Returns (SedListOf_get (mVariable c) n)
      | _ \<Rightarrow> Throws InvalidPointer)"

definition SedComputeChange_addVariable ::
  "constants \<Rightarrow> heap \<Rightarrow> addr \<Rightarrow> addr option \<Rightarrow> int outcome \<times> heap" where
  "SedComputeChange_addVariable K h this sv =
     (case sv of
        None \<Rightarrow> (Returns (LIBSEDML_INVALID_ATTRIBUTE_VALUE K), h)
      | Some item \<Rightarrow>
          (case heap_lookup h this of
             Some (ComputeChange c) \<Rightarrow>
               (case SedListOf_append h (mVariable c) item of
                  None \<Rightarrow> (Throws InvalidPointer, h)
                | Some (l, h') \<Rightarrow>
                    (Returns (LIBSEDML_OPERATION_SUCCESS K),
                     heap_store h' this (ComputeChange (c\<lparr>mVariable := l\<rparr>))))
           | _ \<Rightarrow> (Throws InvalidPointer, h)))"

definition SedComputeChange_getNumVariables :: "heap \<Rightarrow> addr \<Rightarrow> nat outcome" where
  "SedComputeChange_getNumVariables h this =
     (case heap_lookup h this of
        Some (ComputeChange c) \<Rightarrow> Returns (SedListOf_size (mVariable c))
      | _ \<Rightarrow> Throws InvalidPointer)"

text \<open>\<open>createVariable\<close>: \<open>new SedVariable()\<close> does not return NULL, so the element is
  always handed to \<open>appendAndOwn\<close>; the pointer returned is the one stored.\<close>

definition SedComputeChange_createVariable :: "heap \<Rightarrow> addr \<Rightarrow> addr option outcome \<times> heap" where
  "SedComputeChange_createVariable h this =
     (case heap_alloc h (Child SedVariable_new) of
        (temp, h') \<Rightarrow>
          (case heap_lookup h' this of
             Some (ComputeChange c) \<Rightarrow>
               (Returns (Some temp),
                heap_store h' this
                  (ComputeChange (c\<lparr>mVariable := SedListOf_appendAndOwn (mVariable c) temp\<rparr>)))
           | _ \<Rightarrow> (Throws InvalidPointer, h)))"

text \<open>The parameters.\<close>

definition SedComputeChange_getParameter :: "heap \<Rightarrow> addr \<Rightarrow> nat \<Rightarrow> addr option outcome" where
  "SedComputeChange_getParameter h this n =
     (case heap_lookup h this of
        Some (ComputeChange c) \<Rightarrow> Returns (SedListOf_get (mParameter c) n)
      | _ \<Rightarrow> Throws InvalidPointer)"

definition SedComputeChange_addParameter ::
  "constants \<Rightarrow> heap \<Rightarrow> addr \<Rightarrow> addr option \<Rightarrow> int outcome \<times> heap" where
  "SedComputeChange_addParameter K h this sp =
     (case sp of
        None \<Rightarrow> (Returns (LIBSEDML_INVALID_ATTRIBUTE_VALUE K), h)
      | Some item \<Rightarrow>
          (case heap_lookup h this of
             Some (ComputeChange c) \<Rightarrow>
               (case SedListOf_append h (mParameter c) item of
                  None \<Rightarrow> (Throws InvalidPointer, h)
                | Some (l, h') \<Rightarrow>
                    (Returns (LIBSEDML_OPERATION_SUCCESS K),
                     heap_store h' this (ComputeChange (c\<lparr>mParameter := l\<rparr>))))
           | _ \<Rightarrow> (Throws InvalidPointer, h)))"

definition SedComputeChange_getNumParameters :: "heap \<Rightarrow> addr \<Rightarrow> nat outcome" where
  "SedComputeChange_getNumParameters h this =
     (case heap_lookup h this of
        Some (ComputeChange c) \<Rightarrow> Returns (SedListOf_size (mParameter c))
      | _ \<Rightarrow> Throws InvalidPointer)"

definition SedComputeChange_createParameter :: "heap \<Rightarrow> addr \<Rightarrow> addr option outcome \<times> heap" where
  "SedComputeChange_createParameter h this =
     (case heap_alloc h (Child SedParameter_new) of
        (temp, h') \<Rightarrow>
          (case heap_lookup h' this of
             Some (ComputeChange c) \<Rightarrow>
               (Returns (Some temp),
                heap_store h' this
                  (ComputeChange (c\<lparr>mParameter := SedListOf_appendAndOwn (mParameter c) temp\<rparr>)))
           | _ \<Rightarrow> (Throws InvalidPointer, h)))"

text \<open>Modelled from the spec: retrieval and removal in the collection (SedListOf is not
  among the sources). Lookup by identifier is a linear scan that returns the first match;
  removal detaches the element, hands it to the caller and compacts the sequence; both
  give NULL when nothing is found.\<close>

fun find_by_id :: "heap \<Rightarrow> string \<Rightarrow> addr list \<Rightarrow> nat option" where
  "find_by_id h sid [] = None"
| "find_by_id h sid (a # as) =
     (case heap_lookup h a of
        Some (Child e) \<Rightarrow>
          if mId e = sid then Some 0 else map_option Suc (find_by_id h sid as)
      | _ \<Rightarrow> map_option Suc (find_by_id h sid as))"

definition SedListOf_get_sid :: "heap \<Rightarrow> SedListOf \<Rightarrow> string \<Rightarrow> addr option" where
  "SedListOf_get_sid h l sid =
     (case find_by_id h sid (mItems l) of
        None \<Rightarrow> None
      | Some n \<Rightarrow> SedListOf_get l n)"

definition SedListOf_remove :: "SedListOf \<Rightarrow> nat \<Rightarrow> addr option \<times> SedListOf" where
  "SedListOf_remove l n =
     (if n < length (mItems l)
      then (Some (mItems l ! n), l\<lparr>mItems := take n (mItems l) @ drop (Suc n) (mItems l)\<rparr>)
      else (None, l))"

definition SedListOf_remove_sid :: "heap \<Rightarrow> SedListOf \<Rightarrow> string \<Rightarrow> addr option \<times> SedListOf" where
  "SedListOf_remove_sid h l sid =
     (case find_by_id h sid (mItems l) of
        None \<Rightarrow> (None, l)
      | Some n \<Rightarrow> SedListOf_remove l n)"

text \<open>Modelled from the spec: the destructor of SedListOf destroys the elements the
  collection owns.\<close>

fun delete_items :: "heap \<Rightarrow> addr list \<Rightarrow> heap" where
  "delete_items h [] = h"
| "delete_items h (a # as) = delete_items (heap_delete h (Some a)) as"

text \<open>A collection is a member of its owner; \<open>&mVariable\<close> is written as the owner's
  address tagged with the member.\<close>

datatype member_ptr = mVariable_of addr | mParameter_of addr | mCurve_of addr

definition SedComputeChange_getListOfVariables :: "addr \<Rightarrow> member_ptr" where
  "SedComputeChange_getListOfVariables this = mVariable_of this"

definition SedComputeChange_getListOfParameters :: "addr \<Rightarrow> member_ptr" where
  "SedComputeChange_getListOfParameters this = mParameter_of this"

definition SedComputeChange_getVariable_sid :: "heap \<Rightarrow> addr \<Rightarrow> string \<Rightarrow> addr option outcome" where
  "SedComputeChange_getVariable_sid h this sid =
     (case heap_lookup h this of
        Some (ComputeChange c) \<Rightarrow> Returns (SedListOf_get_sid h (mVariable c) sid)
      | _ \<Rightarrow> Throws InvalidPointer)"

definition SedComputeChange_removeVariable :: "heap \<Rightarrow> addr \<Rightarrow> nat \<Rightarrow> addr option outcome \<times> heap" where
  "SedComputeChange_removeVariable h this n =
     (case heap_lookup h this of
        Some (ComputeChange c) \<Rightarrow>
          (case SedListOf_remove (mVariable c) n of
             (r, l) \<Rightarrow> (Returns r, heap_store h this (ComputeChange (c\<lparr>mVariable := l\<rparr>))))
      | _ \<Rightarrow> (Throws InvalidPointer, h))"

definition SedComputeChange_removeVariable_sid ::
  "heap \<Rightarrow> addr \<Rightarrow> string \<Rightarrow> addr option outcome \<times> heap" where
  "SedComputeChange_removeVariable_sid h this sid =
     (case heap_lookup h this of
        Some (ComputeChange c) \<Rightarrow>
          (case SedListOf_remove_sid h (mVariable c) sid of
             (r, l) \<Rightarrow> (Returns r, heap_store h this (ComputeChange (c\<lparr>mVariable := l\<rparr>))))
      | _ \<Rightarrow> (Throws InvalidPointer, h))"

definition SedComputeChange_getParameter_sid :: "heap \<Rightarrow> addr \<Rightarrow> string \<Rightarrow> addr option outcome" where
  "SedComputeChange_getParameter_sid h this sid =
     (case heap_lookup h this of
        Some (ComputeChange c) \<Rightarrow> Returns (SedListOf_get_sid h (mParameter c) sid)
      | _ \<Rightarrow> Throws InvalidPointer)"

definition SedComputeChange_removeParameter :: "heap \<Rightarrow> addr \<Rightarrow> nat \<Rightarrow> addr option outcome \<times> heap" where
  "SedComputeChange_removeParameter h this n =
     (case heap_lookup h this of
        Some (ComputeChange c) \<Rightarrow>
          (case SedListOf_remove (mParameter c) n of
             (r, l) \<Rightarrow> (Returns r, heap_store h this (ComputeChange (c\<lparr>mParameter := l\<rparr>))))
      | _ \<Rightarrow> (Throws InvalidPointer, h))"

definition SedComputeChange_removeParameter_sid ::
  "heap \<Rightarrow> addr \<Rightarrow> string \<Rightarrow> addr option outcome \<times> heap" where
  "SedComputeChange_removeParameter_sid h this sid =
     (case heap_lookup h this of
        Some (ComputeChange c) \<Rightarrow>
          (case SedListOf_remove_sid h (mParameter c) sid of
             (r, l) \<Rightarrow> (Returns r, heap_store h this (ComputeChange (c\<lparr>mParameter := l\<rparr>))))
      | _ \<Rightarrow> (Throws InvalidPointer, h))"

text \<open>\<open>hasRequiredAttributes\<close> and \<open>hasRequiredElements\<close> return what the superclass
  says; the superclass predicates are parameters.\<close>

definition SedComputeChange_hasRequiredAttributes ::
  "(SedBase \<Rightarrow> bool) \<Rightarrow> heap \<Rightarrow> addr \<Rightarrow> bool outcome" where
  "SedComputeChange_hasRequiredAttributes SedChange_hasRequiredAttributes h this =
     (case heap_lookup h this of
        Some (ComputeChange c) \<Rightarrow> Returns (SedChange_hasRequiredAttributes (SedChange_part c))
      | _ \<Rightarrow> Throws InvalidPointer)"

definition SedComputeChange_hasRequiredElements ::
  "(SedBase \<Rightarrow> bool) \<Rightarrow> heap \<Rightarrow> addr \<Rightarrow> bool outcome" where
  "SedComputeChange_hasRequiredElements SedChange_hasRequiredElements h this =
     (case heap_lookup h this of
        Some (ComputeChange c) \<Rightarrow> Returns (SedChange_hasRequiredElements (SedChange_part c))
      | _ \<Rightarrow> Throws InvalidPointer)"

text \<open>The destructor has an empty body: the member collections destroy their elements,
  the expression tree is not deleted.\<close>

definition SedComputeChange_destroy :: "heap \<Rightarrow> addr \<Rightarrow> unit outcome \<times> heap" where
  "SedComputeChange_destroy h this =
     (case heap_lookup h this of
        Some (ComputeChange c) \<Rightarrow>
          (Returns (),
           heap_delete (delete_items (delete_items h (mItems (mParameter c))) (mItems (mVariable c)))
             (Some this))
      | _ \<Rightarrow> (Throws InvalidPointer, h))"

section \<open>Writing\<close>

text \<open>
  The output stream of the XML toolkit is the sequence of what has been written to it.
  What the superclass writes is one event, carrying the superclass part; the wrapper
  element of a collection is a start event, the children in order, and an end event.
\<close>

datatype xml_event =
    SuperclassElements SedBase
  | StartElement string
  | ChildElement SedChild
  | EndElement string
  | MathML ASTNode

fun write_items :: "heap \<Rightarrow> addr list \<Rightarrow> xml_event list option" where
  "write_items h [] = Some []"
| "write_items h (a # as) =
     (case heap_lookup h a of
        Some (Child e) \<Rightarrow>
          (case write_items h as of
             None \<Rightarrow> None
           | Some evs \<Rightarrow> Some (ChildElement e # evs))
      | _ \<Rightarrow> None)"

text \<open>Modelled from the spec: \<open>write(stream)\<close> of the collection (SedListOf is not among
  the sources) serializes the wrapper element followed by each contained element, in
  insertion order. The wrapper's tag is the name of the collection.\<close>

definition SedListOf_write ::
  "string \<Rightarrow> heap \<Rightarrow> SedListOf \<Rightarrow> xml_event list \<Rightarrow> xml_event list option" where
  "SedListOf_write name h l stream =
     (case write_items h (mItems l) of
        None \<Rightarrow> None
      | Some evs \<Rightarrow> Some (stream @ [StartElement name] @ evs @ [EndElement name]))"

text \<open>\<open>writeMathML(getMath(), stream, NULL)\<close> of the MathML toolkit.\<close>

definition writeMathML :: "heap \<Rightarrow> addr option \<Rightarrow> xml_event list \<Rightarrow> xml_event list option" where
  "writeMathML h math stream =
     (case math of
        None \<Rightarrow> Some stream
      | Some m \<Rightarrow>
          (case heap_lookup h m of
             Some (Math t) \<Rightarrow> Some (stream @ [MathML t])
           | _ \<Rightarrow> None))"

definition SedComputeChange_writeElements ::
  "heap \<Rightarrow> addr \<Rightarrow> xml_event list \<Rightarrow> xml_event list outcome" where
  "SedComputeChange_writeElements h this stream =
     (case heap_lookup h this of
        Some (ComputeChange c) \<Rightarrow>
          (let s0 = stream @ [SuperclassElements (SedChange_part c)] in
           case (if SedListOf_size (mVariable c) > 0
                 then SedListOf_write ''listOfVariables'' h (mVariable c) s0 else Some s0) of
             None \<Rightarrow> Throws InvalidPointer
           | Some s1 \<Rightarrow>
               (case (if SedListOf_size (mParameter c) > 0
                      then SedListOf_write ''listOfParameters'' h (mParameter c) s1 else Some s1) of
                  None \<Rightarrow> Throws InvalidPointer
                | Some s2 \<Rightarrow>
                    (case (if mMath c \<noteq> None then writeMathML h (mMath c) s2 else Some s2) of
                       None \<Rightarrow> Throws InvalidPointer
                     | Some s3 \<Rightarrow> Returns s3)))
      | _ \<Rightarrow> Throws InvalidPointer)"

section \<open>Reading\<close>

text \<open>
  The input stream of the XML toolkit is the sequence of tokens still to be read;
  \<open>peek\<close> looks at the next one without consuming it and gives a token with an empty
  name at the end of the input.
\<close>

record XMLToken =
  tokenName :: string
  tokenPrefix :: string

definition peek :: "XMLToken list \<Rightarrow> XMLToken" where
  "peek stream = (case stream of [] \<Rightarrow> \<lparr>tokenName = [], tokenPrefix = []\<rparr> | t # _ \<Rightarrow> t)"

text \<open>
  \<open>readOtherXML\<close>. The functions \<open>checkMathMLNamespace\<close> and \<open>readMathML\<close> of the
  toolkit and the \<open>readOtherXML\<close> of the superclass (not among the sources) are
  parameters; each of the last two takes the stream and returns what is left of it.
  The result is the flag \<open>read\<close> and the stream.
\<close>

definition SedComputeChange_readOtherXML ::
  "(XMLToken \<Rightarrow> string) \<Rightarrow> (XMLToken list \<Rightarrow> string \<Rightarrow> ASTNode option \<times> XMLToken list) \<Rightarrow>
   (SedBase \<Rightarrow> XMLToken list \<Rightarrow> bool \<times> SedBase \<times> XMLToken list) \<Rightarrow>
   heap \<Rightarrow> addr \<Rightarrow> XMLToken list \<Rightarrow> (bool \<times> XMLToken list) outcome \<times> heap" where
  "SedComputeChange_readOtherXML checkMathMLNamespace readMathML SedChange_readOtherXML h this stream =
     (case heap_lookup h this of
        Some (ComputeChange c) \<Rightarrow>
          (let name = tokenName (peek stream) in
           case (if name = ''math''
                 then (let elem = peek stream;
                           prefix = checkMathMLNamespace elem;
                           h1 = heap_delete h (mMath c)
                       in case readMathML stream prefix of
                            (None, stream') \<Rightarrow> (True, stream', c\<lparr>mMath := None\<rparr>, h1)
                          | (Some t, stream') \<Rightarrow>
                              (case heap_alloc h1 (Math t) of
                                 (m, h2) \<Rightarrow> (True, stream', c\<lparr>mMath := Some m\<rparr>, h2)))
                 else (False, stream, c, h)) of
             (read, stream1, c1, h3) \<Rightarrow>
               (case SedChange_readOtherXML (SedChange_part c1) stream1 of
                  (super_read, b, stream2) \<Rightarrow>
                    (Returns (if super_read then True else read, stream2),
                     heap_store h3 this (ComputeChange (c1\<lparr>SedChange_part := b\<rparr>)))))
      | _ \<Rightarrow> (Throws InvalidPointer, h))"

section \<open>The C functions of SedComputeChange\<close>

text \<open>Each function tests the handle first; \<open>static_cast<int>\<close> of a bool is 1 or 0.\<close>

definition int_of_bool :: "bool \<Rightarrow> int" where
  "int_of_bool b = (if b then 1 else 0)"

definition SedComputeChange_create ::
  "(nat \<Rightarrow> nat \<Rightarrow> string) \<Rightarrow> heap \<Rightarrow> nat \<Rightarrow> nat \<Rightarrow> addr outcome \<times> heap" where
  "SedComputeChange_create uriOf h level version =
     SedComputeChange_level_version uriOf h level version"

definition SedComputeChange_free :: "heap \<Rightarrow> addr option \<Rightarrow> unit outcome \<times> heap" where
  "SedComputeChange_free h scc =
     (case scc of Some this \<Rightarrow> SedComputeChange_destroy h this | None \<Rightarrow> (Returns (), h))"

definition SedComputeChange_clone_C :: "heap \<Rightarrow> addr option \<Rightarrow> addr option outcome \<times> heap" where
  "SedComputeChange_clone_C h scc =
     (case scc of
        Some this \<Rightarrow> map_prod (map_outcome Some) id (SedComputeChange_clone h this)
      | None \<Rightarrow> (Returns None, h))"

definition SedComputeChange_getMath_C :: "heap \<Rightarrow> addr option \<Rightarrow> addr option outcome" where
  "SedComputeChange_getMath_C h scc =
     (case scc of None \<Rightarrow> Returns None | Some this \<Rightarrow> SedComputeChange_getMath h this)"

definition SedComputeChange_isSetMath_C :: "heap \<Rightarrow> addr option \<Rightarrow> int outcome" where
  "SedComputeChange_isSetMath_C h scc =
     (case scc of
        Some this \<Rightarrow> map_outcome int_of_bool (SedComputeChange_isSetMath h this)
      | None \<Rightarrow> Returns 0)"

definition SedComputeChange_setMath_C ::
  "(ASTNode \<Rightarrow> bool) \<Rightarrow> constants \<Rightarrow> heap \<Rightarrow> addr option \<Rightarrow> addr option \<Rightarrow> int outcome \<times> heap" where
  "SedComputeChange_setMath_C isWellFormedASTNode K h scc math =
     (case scc of
        Some this \<Rightarrow> SedComputeChange_setMath isWellFormedASTNode K h this math
      | None \<Rightarrow> (Returns (LIBSEDML_INVALID_OBJECT K), h))"

definition SedComputeChange_unsetMath_C :: "constants \<Rightarrow> heap \<Rightarrow> addr option \<Rightarrow> int outcome \<times> heap" where
  "SedComputeChange_unsetMath_C K h scc =
     (case scc of
        Some this \<Rightarrow> SedComputeChange_unsetMath K h this
      | None \<Rightarrow> (Returns (LIBSEDML_INVALID_OBJECT K), h))"

definition SedComputeChange_addVariable_C ::
  "constants \<Rightarrow> heap \<Rightarrow> addr option \<Rightarrow> addr option \<Rightarrow> int outcome \<times> heap" where
  "SedComputeChange_addVariable_C K h scc sv =
     (case scc of
        Some this \<Rightarrow> SedComputeChange_addVariable K h this sv
      | None \<Rightarrow> (Returns (LIBSBML_INVALID_OBJECT K), h))"

definition SedComputeChange_createVariable_C :: "heap \<Rightarrow> addr option \<Rightarrow> addr option outcome \<times> heap" where
  "SedComputeChange_createVariable_C h scc =
     (case scc of
        Some this \<Rightarrow> SedComputeChange_createVariable h this
      | None \<Rightarrow> (Returns None, h))"

definition SedComputeChange_getSedListOfVariables :: "addr option \<Rightarrow> member_ptr option" where
  "SedComputeChange_getSedListOfVariables scc =
     (case scc of
        Some this \<Rightarrow> Some (SedComputeChange_getListOfVariables this)
      | None \<Rightarrow> None)"

definition SedComputeChange_getVariable_C :: "heap \<Rightarrow> addr option \<Rightarrow> nat \<Rightarrow> addr option outcome" where
  "SedComputeChange_getVariable_C h scc n =
     (case scc of
        Some this \<Rightarrow> SedComputeChange_getVariable h this n
      | None \<Rightarrow> Returns None)"

definition SedComputeChange_getVariableById :: "heap \<Rightarrow> addr option \<Rightarrow> string \<Rightarrow> addr option outcome" where
  "SedComputeChange_getVariableById h scc sid =
     (case scc of
        Some this \<Rightarrow> SedComputeChange_getVariable_sid h this sid
      | None \<Rightarrow> Returns None)"

definition SedComputeChange_getNumVariables_C :: "constants \<Rightarrow> heap \<Rightarrow> addr option \<Rightarrow> nat outcome" where
  "SedComputeChange_getNumVariables_C K h scc =
     (case scc of
        Some this \<Rightarrow> SedComputeChange_getNumVariables h this
      | None \<Rightarrow> Returns (SEDML_INT_MAX K))"

definition SedComputeChange_removeVariable_C ::
  "heap \<Rightarrow> addr option \<Rightarrow> nat \<Rightarrow> addr option outcome \<times> heap" where
  "SedComputeChange_removeVariable_C h scc n =
     (case scc of
        Some this \<Rightarrow> SedComputeChange_removeVariable h this n
      | None \<Rightarrow> (Returns None, h))"

definition SedComputeChange_removeVariableById ::
  "heap \<Rightarrow> addr option \<Rightarrow> string \<Rightarrow> addr option outcome \<times> heap" where
  "SedComputeChange_removeVariableById h scc sid =
     (case scc of
        Some this \<Rightarrow> SedComputeChange_removeVariable_sid h this sid
      | None \<Rightarrow> (Returns None, h))"

definition SedComputeChange_addParameter_C ::
  "constants \<Rightarrow> heap \<Rightarrow> addr option \<Rightarrow> addr option \<Rightarrow> int outcome \<times> heap" where
  "SedComputeChange_addParameter_C K h scc sp =
     (case scc of
        Some this \<Rightarrow> SedComputeChange_addParameter K h this sp
      | None \<Rightarrow> (Returns (LIBSBML_INVALID_OBJECT K), h))"

definition SedComputeChange_createParameter_C :: "heap \<Rightarrow> addr option \<Rightarrow> addr option outcome \<times> heap" where
  "SedComputeChange_createParameter_C h scc =
     (case scc of
        Some this \<Rightarrow> SedComputeChange_createParameter h this
      | None \<Rightarrow> (Returns None, h))"

definition SedComputeChange_getSedListOfParameters :: "addr option \<Rightarrow> member_ptr option" where
  "SedComputeChange_getSedListOfParameters scc =
     (case scc of
        Some this \<Rightarrow> Some (SedComputeChange_getListOfParameters this)
      | None \<Rightarrow> None)"

definition SedComputeChange_getParameter_C :: "heap \<Rightarrow> addr option \<Rightarrow> nat \<Rightarrow> addr option outcome" where
  "SedComputeChange_getParameter_C h scc n =
     (case scc of
        Some this \<Rightarrow> SedComputeChange_getParameter h this n
      | None \<Rightarrow> Returns None)"

definition SedComputeChange_getParameterById :: "heap \<Rightarrow> addr option \<Rightarrow> string \<Rightarrow> addr option outcome" where
  "SedComputeChange_getParameterById h scc sid =
     (case scc of
        Some this \<Rightarrow> SedComputeChange_getParameter_sid h this sid
      | None \<Rightarrow> Returns None)"

definition SedComputeChange_getNumParameters_C :: "constants \<Rightarrow> heap \<Rightarrow> addr option \<Rightarrow> nat outcome" where
  "SedComputeChange_getNumParameters_C K h scc =
     (case scc of
        Some this \<Rightarrow> SedComputeChange_getNumParameters h this
      | None \<Rightarrow> Returns (SEDML_INT_MAX K))"

definition SedComputeChange_removeParameter_C ::
  "heap \<Rightarrow> addr option \<Rightarrow> nat \<Rightarrow> addr option outcome \<times> heap" where
  "SedComputeChange_removeParameter_C h scc n =
     (case scc of
        Some this \<Rightarrow> SedComputeChange_removeParameter h this n
      | None \<Rightarrow> (Returns None, h))"

definition SedComputeChange_removeParameterById ::
  "heap \<Rightarrow> addr option \<Rightarrow> string \<Rightarrow> addr option outcome \<times> heap" where
  "SedComputeChange_removeParameterById h scc sid =
     (case scc of
        Some this \<Rightarrow> SedComputeChange_removeParameter_sid h this sid
      | None \<Rightarrow> (Returns None, h))"

definition SedComputeChange_hasRequiredAttributes_C ::
  "(SedBase \<Rightarrow> bool) \<Rightarrow> heap \<Rightarrow> addr option \<Rightarrow> int outcome" where
  "SedComputeChange_hasRequiredAttributes_C SedChange_hasRequiredAttributes h scc =
     (case scc of
        Some this \<Rightarrow>
          map_outcome int_of_bool
            (SedComputeChange_hasRequiredAttributes SedChange_hasRequiredAttributes h this)
      | None \<Rightarrow> Returns 0)"

definition SedComputeChange_hasRequiredElements_C ::
  "(SedBase \<Rightarrow> bool) \<Rightarrow> heap \<Rightarrow> addr option \<Rightarrow> int outcome" where
  "SedComputeChange_hasRequiredElements_C SedChange_hasRequiredElements h scc =
     (case scc of
        Some this \<Rightarrow>
          map_outcome int_of_bool
            (SedComputeChange_hasRequiredElements SedChange_hasRequiredElements h this)
      | None \<Rightarrow> Returns 0)"

section \<open>SedPlot2D\<close>

definition SedPlot2D_connectToChild :: "addr \<Rightarrow> SedPlot2D \<Rightarrow> SedPlot2D" where
  "SedPlot2D_connectToChild this p =
     p\<lparr>mCurve := SedListOf_connectToParent (mCurve p) this\<rparr>"

definition SedPlot2D_level_version ::
  "(nat \<Rightarrow> nat \<Rightarrow> string) \<Rightarrow> heap \<Rightarrow> nat \<Rightarrow> nat \<Rightarrow> addr outcome \<times> heap" where
  "SedPlot2D_level_version uriOf h level version =
     (let p = \<lparr>SedOutput_part = SedBase_level_version uriOf level version,
               mCurve = SedListOf_new\<rparr>
      in case heap_alloc h (Plot2D p) of
           (this, h0) \<Rightarrow>
             (Returns this,
              heap_store h0 this (Plot2D (SedPlot2D_connectToChild this
                (p\<lparr>SedOutput_part := setSedNamespacesAndOwn (SedOutput_part p)
                      (SedNamespaces_new uriOf level version)\<rparr>)))))"


text \<open>The copy constructor and the assignment operator, as for SedComputeChange: a
  reference bound to no object gives \<open>InvalidPointer\<close>, and assigning an object to itself
  executes nothing.\<close>

definition SedPlot2D_copy :: "heap \<Rightarrow> addr option \<Rightarrow> addr outcome \<times> heap" where
  "SedPlot2D_copy h orig =
     (case orig of
        None \<Rightarrow> (Throws InvalidPointer, h)
      | Some src \<Rightarrow>
          (case heap_lookup h src of
             Some (Plot2D p) \<Rightarrow>
               (case heap_alloc h (Plot2D
                       \<lparr>SedOutput_part = SedOutput_part p, mCurve = SedListOf_new\<rparr>) of
                  (this, h0) \<Rightarrow>
                    (case SedListOf_assign h0 SedListOf_new (mCurve p) of
                       None \<Rightarrow> (Throws InvalidPointer, h)
                     | Some (cs, h1) \<Rightarrow>
                         (Returns this,
                          heap_store h1 this (Plot2D
                            (SedPlot2D_connectToChild this
                              \<lparr>SedOutput_part = SedOutput_part p, mCurve = cs\<rparr>)))))
           | _ \<Rightarrow> (Throws InvalidPointer, h)))"

definition SedPlot2D_assign :: "heap \<Rightarrow> addr \<Rightarrow> addr option \<Rightarrow> addr outcome \<times> heap" where
  "SedPlot2D_assign h this rhs =
     (case rhs of
        None \<Rightarrow> (Throws InvalidPointer, h)
      | Some src \<Rightarrow>
          if src \<noteq> this then
            (case heap_lookup h this of
               Some (Plot2D t) \<Rightarrow>
                 (case heap_lookup h src of
                    Some (Plot2D p) \<Rightarrow>
                      (case SedListOf_assign h (mCurve t) (mCurve p) of
                         None \<Rightarrow> (Throws InvalidPointer, h)
                       | Some (cs, h1) \<Rightarrow>
                           (Returns this,
                            heap_store h1 this (Plot2D
                              (SedPlot2D_connectToChild this
                                \<lparr>SedOutput_part = SedOutput_part p, mCurve = cs\<rparr>))))
                  | _ \<Rightarrow> (Throws InvalidPointer, h))
             | _ \<Rightarrow> (Throws InvalidPointer, h))
          else (Returns this, h))"

definition SedPlot2D_clone :: "heap \<Rightarrow> addr \<Rightarrow> addr outcome \<times> heap" where
  "SedPlot2D_clone h this = SedPlot2D_copy h (Some this)"

definition SedPlot2D_getListOfCurves :: "addr \<Rightarrow> member_ptr" where
  "SedPlot2D_getListOfCurves this = mCurve_of this"

definition SedPlot2D_removeCurve :: "heap \<Rightarrow> addr \<Rightarrow> nat \<Rightarrow> addr option outcome \<times> heap" where
  "SedPlot2D_removeCurve h this n =
     (case heap_lookup h this of
        Some (Plot2D p) \<Rightarrow>
          (case SedListOf_remove (mCurve p) n of
             (r, l) \<Rightarrow> (Returns r, heap_store h this (Plot2D (p\<lparr>mCurve := l\<rparr>))))
      | _ \<Rightarrow> (Throws InvalidPointer, h))"

definition SedPlot2D_removeCurve_sid :: "heap \<Rightarrow> addr \<Rightarrow> string \<Rightarrow> addr option outcome \<times> heap" where
  "SedPlot2D_removeCurve_sid h this sid =
     (case heap_lookup h this of
        Some (Plot2D p) \<Rightarrow>
          (case SedListOf_remove_sid h (mCurve p) sid of
             (r, l) \<Rightarrow> (Returns r, heap_store h this (Plot2D (p\<lparr>mCurve := l\<rparr>))))
      | _ \<Rightarrow> (Throws InvalidPointer, h))"

definition SedPlot2D_getCurve :: "heap \<Rightarrow> addr \<Rightarrow> nat \<Rightarrow> addr option outcome" where
  "SedPlot2D_getCurve h this n =
     (case heap_lookup h this of
        Some (Plot2D p) \<Rightarrow> Returns (SedListOf_get (mCurve p) n)
      | _ \<Rightarrow> Throws InvalidPointer)"

definition SedPlot2D_getCurve_sid :: "heap \<Rightarrow> addr \<Rightarrow> string \<Rightarrow> addr option outcome" where
  "SedPlot2D_getCurve_sid h this sid =
     (case heap_lookup h this of
        Some (Plot2D p) \<Rightarrow> Returns (SedListOf_get_sid h (mCurve p) sid)
      | _ \<Rightarrow> Throws InvalidPointer)"

definition SedPlot2D_addCurve ::
  "constants \<Rightarrow> heap \<Rightarrow> addr \<Rightarrow> addr option \<Rightarrow> int outcome \<times> heap" where
  "SedPlot2D_addCurve K h this sc =
     (case sc of
        None \<Rightarrow> (Returns (LIBSEDML_INVALID_ATTRIBUTE_VALUE K), h)
      | Some item \<Rightarrow>
          (case heap_lookup h this of
             Some (Plot2D p) \<Rightarrow>
               (case SedListOf_append h (mCurve p) item of
                  None \<Rightarrow> (Throws InvalidPointer, h)
                | Some (l, h') \<Rightarrow>
                    (Returns (LIBSEDML_OPERATION_SUCCESS K),
                     heap_store h' this (Plot2D (p\<lparr>mCurve := l\<rparr>))))
           | _ \<Rightarrow> (Throws InvalidPointer, h)))"

definition SedPlot2D_getNumCurves :: "heap \<Rightarrow> addr \<Rightarrow> nat outcome" where
  "SedPlot2D_getNumCurves h this =
     (case heap_lookup h this of
        Some (Plot2D p) \<Rightarrow> Returns (SedListOf_size (mCurve p))
      | _ \<Rightarrow> Throws InvalidPointer)"

definition SedPlot2D_createCurve :: "heap \<Rightarrow> addr \<Rightarrow> addr option outcome \<times> heap" where
  "SedPlot2D_createCurve h this =
     (case heap_alloc h (Child SedCurve_new) of
        (temp, h') \<Rightarrow>
          (case heap_lookup h' this of
             Some (Plot2D p) \<Rightarrow>
               (Returns (Some temp),
                heap_store h' this
                  (Plot2D (p\<lparr>mCurve := SedListOf_appendAndOwn (mCurve p) temp\<rparr>)))
           | _ \<Rightarrow> (Throws InvalidPointer, h)))"

definition SedPlot2D_hasRequiredAttributes ::
  "(SedBase \<Rightarrow> bool) \<Rightarrow> heap \<Rightarrow> addr \<Rightarrow> bool outcome" where
  "SedPlot2D_hasRequiredAttributes SedOutput_hasRequiredAttributes h this =
     (case heap_lookup h this of
        Some (Plot2D p) \<Rightarrow> Returns (SedOutput_hasRequiredAttributes (SedOutput_part p))
      | _ \<Rightarrow> Throws InvalidPointer)"

definition SedPlot2D_hasRequiredElements ::
  "(SedBase \<Rightarrow> bool) \<Rightarrow> heap \<Rightarrow> addr \<Rightarrow> bool outcome" where
  "SedPlot2D_hasRequiredElements SedOutput_hasRequiredElements h this =
     (case heap_lookup h this of
        Some (Plot2D p) \<Rightarrow> Returns (SedOutput_hasRequiredElements (SedOutput_part p))
      | _ \<Rightarrow> Throws InvalidPointer)"

definition SedPlot2D_destroy :: "heap \<Rightarrow> addr \<Rightarrow> unit outcome \<times> heap" where
  "SedPlot2D_destroy h this =
     (case heap_lookup h this of
        Some (Plot2D p) \<Rightarrow>
          (Returns (), heap_delete (delete_items h (mItems (mCurve p))) (Some this))
      | _ \<Rightarrow> (Throws InvalidPointer, h))"

definition SedPlot2D_writeElements ::
  "heap \<Rightarrow> addr \<Rightarrow> xml_event list \<Rightarrow> xml_event list outcome" where
  "SedPlot2D_writeElements h this stream =
     (case heap_lookup h this of
        Some (Plot2D p) \<Rightarrow>
          (let s0 = stream @ [SuperclassElements (SedOutput_part p)] in
           case (if SedListOf_size (mCurve p) > 0
                 then SedListOf_write ''listOfCurves'' h (mCurve p) s0 else Some s0) of
             None \<Rightarrow> Throws InvalidPointer
           | Some s1 \<Rightarrow> Returns s1)
      | _ \<Rightarrow> Throws InvalidPointer)"

subsection \<open>The C functions of SedPlot2D\<close>

definition SedPlot2D_create ::
  "(nat \<Rightarrow> nat \<Rightarrow> string) \<Rightarrow> heap \<Rightarrow> nat \<Rightarrow> nat \<Rightarrow> addr outcome \<times> heap" where
  "SedPlot2D_create uriOf h level version = SedPlot2D_level_version uriOf h level version"

definition SedPlot2D_free :: "heap \<Rightarrow> addr option \<Rightarrow> unit outcome \<times> heap" where
  "SedPlot2D_free h spd =
     (case spd of Some this \<Rightarrow> SedPlot2D_destroy h this | None \<Rightarrow> (Returns (), h))"

definition SedPlot2D_clone_C :: "heap \<Rightarrow> addr option \<Rightarrow> addr option outcome \<times> heap" where
  "SedPlot2D_clone_C h spd =
     (case spd of
        Some this \<Rightarrow> map_prod (map_outcome Some) id (SedPlot2D_clone h this)
      | None \<Rightarrow> (Returns None, h))"

definition SedPlot2D_addCurve_C ::
  "constants \<Rightarrow> heap \<Rightarrow> addr option \<Rightarrow> addr option \<Rightarrow> int outcome \<times> heap" where
  "SedPlot2D_addCurve_C K h spd sc =
     (case spd of
        Some this \<Rightarrow> SedPlot2D_addCurve K h this sc
      | None \<Rightarrow> (Returns (LIBSBML_INVALID_OBJECT K), h))"

definition SedPlot2D_createCurve_C :: "heap \<Rightarrow> addr option \<Rightarrow> addr option outcome \<times> heap" where
  "SedPlot2D_createCurve_C h spd =
     (case spd of
        Some this \<Rightarrow> SedPlot2D_createCurve h this
      | None \<Rightarrow> (Returns None, h))"

definition SedPlot2D_getSedListOfCurves :: "addr option \<Rightarrow> member_ptr option" where
  "SedPlot2D_getSedListOfCurves spd =
     (case spd of
        Some this \<Rightarrow> Some (SedPlot2D_getListOfCurves this)
      | None \<Rightarrow> None)"

definition SedPlot2D_getCurve_C :: "heap \<Rightarrow> addr option \<Rightarrow> nat \<Rightarrow> addr option outcome" where
  "SedPlot2D_getCurve_C h spd n =
     (case spd of
        Some this \<Rightarrow> SedPlot2D_getCurve h this n
      | None \<Rightarrow> Returns None)"

definition SedPlot2D_getCurveById :: "heap \<Rightarrow> addr option \<Rightarrow> string \<Rightarrow> addr option outcome" where
  "SedPlot2D_getCurveById h spd sid =
     (case spd of
        Some this \<Rightarrow> SedPlot2D_getCurve_sid h this sid
      | None \<Rightarrow> Returns None)"

definition SedPlot2D_getNumCurves_C :: "constants \<Rightarrow> heap \<Rightarrow> addr option \<Rightarrow> nat outcome" where
  "SedPlot2D_getNumCurves_C K h spd =
     (case spd of
        Some this \<Rightarrow> SedPlot2D_getNumCurves h this
      | None \<Rightarrow> Returns (SEDML_INT_MAX K))"

definition SedPlot2D_removeCurve_C :: "heap \<Rightarrow> addr option \<Rightarrow> nat \<Rightarrow> addr option outcome \<times> heap" where
  "SedPlot2D_removeCurve_C h spd n =
     (case spd of
        Some this \<Rightarrow> SedPlot2D_removeCurve h this n
      | None \<Rightarrow> (Returns None, h))"

definition SedPlot2D_removeCurveById ::
  "heap \<Rightarrow> addr option \<Rightarrow> string \<Rightarrow> addr option outcome \<times> heap" where
  "SedPlot2D_removeCurveById h spd sid =
     (case spd of
        Some this \<Rightarrow> SedPlot2D_removeCurve_sid h this sid
      | None \<Rightarrow> (Returns None, h))"

definition SedPlot2D_hasRequiredAttributes_C ::
  "(SedBase \<Rightarrow> bool) \<Rightarrow> heap \<Rightarrow> addr option \<Rightarrow> int outcome" where
  "SedPlot2D_hasRequiredAttributes_C SedOutput_hasRequiredAttributes h spd =
     (case spd of
        Some this \<Rightarrow>
          map_outcome int_of_bool
            (SedPlot2D_hasRequiredAttributes SedOutput_hasRequiredAttributes h this)
      | None \<Rightarrow> Returns 0)"

definition SedPlot2D_hasRequiredElements_C ::
  "(SedBase \<Rightarrow> bool) \<Rightarrow> heap \<Rightarrow> addr option \<Rightarrow> int outcome" where
  "SedPlot2D_hasRequiredElements_C SedOutput_hasRequiredElements h spd =
     (case spd of
        Some this \<Rightarrow>
          map_outcome int_of_bool
            (SedPlot2D_hasRequiredElements SedOutput_hasRequiredElements h this)
      | None \<Rightarrow> Returns 0)"

section \<open>SedError.h: the error codes\<close>

text \<open>
  The enumeration \<open>SedErrorCode_t\<close>: every enumerator with the value the header gives
  it, and the list of all enumerators in the order of their declaration.
\<close>

named_theorems SedErrorCode_defs

definition UnknownError :: int where [SedErrorCode_defs]: "UnknownError = 10000"
definition NotUTF8 :: int where [SedErrorCode_defs]: "NotUTF8 = 10101"
definition UnrecognizedElement :: int where [SedErrorCode_defs]: "UnrecognizedElement = 10102"
definition NotSchemaConformant :: int where [SedErrorCode_defs]: "NotSchemaConformant = 10103"
definition L3NotSchemaConformant :: int where [SedErrorCode_defs]: "L3NotSchemaConformant = 10104"
definition InvalidMathElement :: int where [SedErrorCode_defs]: "InvalidMathElement = 10201"
definition DisallowedMathMLSymbol :: int where [SedErrorCode_defs]: "DisallowedMathMLSymbol = 10202"
definition DisallowedMathMLEncodingUse :: int where [SedErrorCode_defs]: "DisallowedMathMLEncodingUse = 10203"
definition DisallowedDefinitionURLUse :: int where [SedErrorCode_defs]: "DisallowedDefinitionURLUse = 10204"
definition BadCsymbolDefinitionURLValue :: int where [SedErrorCode_defs]: "BadCsymbolDefinitionURLValue = 10205"
definition DisallowedMathTypeAttributeUse :: int where [SedErrorCode_defs]: "DisallowedMathTypeAttributeUse = 10206"
definition DisallowedMathTypeAttributeValue :: int where [SedErrorCode_defs]: "DisallowedMathTypeAttributeValue = 10207"
definition LambdaOnlyAllowedInFunctionDef :: int where [SedErrorCode_defs]: "LambdaOnlyAllowedInFunctionDef = 10208"
definition BooleanOpsNeedBooleanArgs :: int where [SedErrorCode_defs]: "BooleanOpsNeedBooleanArgs = 10209"
definition NumericOpsNeedNumericArgs :: int where [SedErrorCode_defs]: "NumericOpsNeedNumericArgs = 10210"
definition ArgsToEqNeedSameType :: int where [SedErrorCode_defs]: "ArgsToEqNeedSameType = 10211"
definition PiecewiseNeedsConsistentTypes :: int where [SedErrorCode_defs]: "PiecewiseNeedsConsistentTypes = 10212"
definition PieceNeedsBoolean :: int where [SedErrorCode_defs]: "PieceNeedsBoolean = 10213"
definition ApplyCiMustBeUserFunction :: int where [SedErrorCode_defs]: "ApplyCiMustBeUserFunction = 10214"
definition ApplyCiMustBeModelComponent :: int where [SedErrorCode_defs]: "ApplyCiMustBeModelComponent = 10215"
definition KineticLawParametersAreLocalOnly :: int where [SedErrorCode_defs]: "KineticLawParametersAreLocalOnly = 10216"
definition MathResultMustBeNumeric :: int where [SedErrorCode_defs]: "MathResultMustBeNumeric = 10217"
definition OpsNeedCorrectNumberOfArgs :: int where [SedErrorCode_defs]: "OpsNeedCorrectNumberOfArgs = 10218"
definition InvalidNoArgsPassedToFunctionDef :: int where [SedErrorCode_defs]: "InvalidNoArgsPassedToFunctionDef = 10219"
definition DisallowedMathUnitsUse :: int where [SedErrorCode_defs]: "DisallowedMathUnitsUse = 10220"
definition InvalidUnitsValue :: int where [SedErrorCode_defs]: "InvalidUnitsValue = 10221"
definition DuplicateComponentId :: int where [SedErrorCode_defs]: "DuplicateComponentId = 10301"
definition DuplicateUnitDefinitionId :: int where [SedErrorCode_defs]: "DuplicateUnitDefinitionId = 10302"
definition DuplicateLocalParameterId :: int where [SedErrorCode_defs]: "DuplicateLocalParameterId = 10303"
definition MultipleAssignmentOrRateRules :: int where [SedErrorCode_defs]: "MultipleAssignmentOrRateRules = 10304"
definition MultipleEventAssignmentsForId :: int where [SedErrorCode_defs]: "MultipleEventAssignmentsForId = 10305"
definition EventAndAssignmentRuleForId :: int where [SedErrorCode_defs]: "EventAndAssignmentRuleForId = 10306"
definition DuplicateMetaId :: int where [SedErrorCode_defs]: "DuplicateMetaId = 10307"
definition InvalidSBOTermSyntax :: int where [SedErrorCode_defs]: "InvalidSBOTermSyntax = 10308"
definition InvalidMetaidSyntax :: int where [SedErrorCode_defs]: "InvalidMetaidSyntax = 10309"
definition InvalidIdSyntax :: int where [SedErrorCode_defs]: "InvalidIdSyntax = 10310"
definition InvalidUnitIdSyntax :: int where [SedErrorCode_defs]: "InvalidUnitIdSyntax = 10311"
definition InvalidNameSyntax :: int where [SedErrorCode_defs]: "InvalidNameSyntax = 10312"
definition MissingAnnotationNamespace :: int where [SedErrorCode_defs]: "MissingAnnotationNamespace = 10401"
definition DuplicateAnnotationNamespaces :: int where [SedErrorCode_defs]: "DuplicateAnnotationNamespaces = 10402"
definition SedNamespaceInAnnotation :: int where [SedErrorCode_defs]: "SedNamespaceInAnnotation = 10403"
definition MultipleAnnotations :: int where [SedErrorCode_defs]: "MultipleAnnotations = 10404"
definition InconsistentArgUnits :: int where [SedErrorCode_defs]: "InconsistentArgUnits = 10501"
definition InconsistentKineticLawUnitsL3 :: int where [SedErrorCode_defs]: "InconsistentKineticLawUnitsL3 = 10503"
definition AssignRuleCompartmentMismatch :: int where [SedErrorCode_defs]: "AssignRuleCompartmentMismatch = 10511"
definition AssignRuleSpeciesMismatch :: int where [SedErrorCode_defs]: "AssignRuleSpeciesMismatch = 10512"
definition AssignRuleParameterMismatch :: int where [SedErrorCode_defs]: "AssignRuleParameterMismatch = 10513"
definition AssignRuleStoichiometryMismatch :: int where [SedErrorCode_defs]: "AssignRuleStoichiometryMismatch = 10514"
definition InitAssignCompartmenMismatch :: int where [SedErrorCode_defs]: "InitAssignCompartmenMismatch = 10521"
definition InitAssignSpeciesMismatch :: int where [SedErrorCode_defs]: "InitAssignSpeciesMismatch = 10522"
definition InitAssignParameterMismatch :: int where [SedErrorCode_defs]: "InitAssignParameterMismatch = 10523"
definition InitAssignStoichiometryMismatch :: int where [SedErrorCode_defs]: "InitAssignStoichiometryMismatch = 10524"
definition RateRuleCompartmentMismatch :: int where [SedErrorCode_defs]: "RateRuleCompartmentMismatch = 10531"
definition RateRuleSpeciesMismatch :: int where [SedErrorCode_defs]: "RateRuleSpeciesMismatch = 10532"
definition RateRuleParameterMismatch :: int where [SedErrorCode_defs]: "RateRuleParameterMismatch = 10533"
definition RateRuleStoichiometryMismatch :: int where [SedErrorCode_defs]: "RateRuleStoichiometryMismatch = 10534"
definition KineticLawNotSubstancePerTime :: int where [SedErrorCode_defs]: "KineticLawNotSubstancePerTime = 10541"
definition SpeciesInvalidExtentUnits :: int where [SedErrorCode_defs]: "SpeciesInvalidExtentUnits = 10542"
definition DelayUnitsNotTime :: int where [SedErrorCode_defs]: "DelayUnitsNotTime = 10551"
definition EventAssignCompartmentMismatch :: int where [SedErrorCode_defs]: "EventAssignCompartmentMismatch = 10561"
definition EventAssignSpeciesMismatch :: int where [SedErrorCode_defs]: "EventAssignSpeciesMismatch = 10562"
definition EventAssignParameterMismatch :: int where [SedErrorCode_defs]: "EventAssignParameterMismatch = 10563"
definition EventAssignStoichiometryMismatch :: int where [SedErrorCode_defs]: "EventAssignStoichiometryMismatch = 10564"
definition PriorityUnitsNotDimensionless :: int where [SedErrorCode_defs]: "PriorityUnitsNotDimensionless = 10565"
definition UpperUnitBound :: int where [SedErrorCode_defs]: "UpperUnitBound = 10599"
definition OverdeterminedSystem :: int where [SedErrorCode_defs]: "OverdeterminedSystem = 10601"
definition InvalidModelSBOTerm :: int where [SedErrorCode_defs]: "InvalidModelSBOTerm = 10701"
definition InvalidFunctionDefSBOTerm :: int where [SedErrorCode_defs]: "InvalidFunctionDefSBOTerm = 10702"
definition InvalidParameterSBOTerm :: int where [SedErrorCode_defs]: "InvalidParameterSBOTerm = 10703"
definition InvalidInitAssignSBOTerm :: int where [SedErrorCode_defs]: "InvalidInitAssignSBOTerm = 10704"
definition InvalidRuleSBOTerm :: int where [SedErrorCode_defs]: "InvalidRuleSBOTerm = 10705"
definition InvalidConstraintSBOTerm :: int where [SedErrorCode_defs]: "InvalidConstraintSBOTerm = 10706"
definition InvalidReactionSBOTerm :: int where [SedErrorCode_defs]: "InvalidReactionSBOTerm = 10707"
definition InvalidSpeciesReferenceSBOTerm :: int where [SedErrorCode_defs]: "InvalidSpeciesReferenceSBOTerm = 10708"
definition InvalidKineticLawSBOTerm :: int where [SedErrorCode_defs]: "InvalidKineticLawSBOTerm = 10709"
definition InvalidEventSBOTerm :: int where [SedErrorCode_defs]: "InvalidEventSBOTerm = 10710"
definition InvalidEventAssignmentSBOTerm :: int where [SedErrorCode_defs]: "InvalidEventAssignmentSBOTerm = 10711"
definition InvalidCompartmentSBOTerm :: int where [SedErrorCode_defs]: "InvalidCompartmentSBOTerm = 10712"
definition InvalidSpeciesSBOTerm :: int where [SedErrorCode_defs]: "InvalidSpeciesSBOTerm = 10713"
definition InvalidCompartmentTypeSBOTerm :: int where [SedErrorCode_defs]: "InvalidCompartmentTypeSBOTerm = 10714"
definition InvalidSpeciesTypeSBOTerm :: int where [SedErrorCode_defs]: "InvalidSpeciesTypeSBOTerm = 10715"
definition InvalidTriggerSBOTerm :: int where [SedErrorCode_defs]: "InvalidTriggerSBOTerm = 10716"
definition InvalidDelaySBOTerm :: int where [SedErrorCode_defs]: "InvalidDelaySBOTerm = 10717"
definition NotesNotInXHTMLNamespace :: int where [SedErrorCode_defs]: "NotesNotInXHTMLNamespace = 10801"
definition NotesContainsXMLDecl :: int where [SedErrorCode_defs]: "NotesContainsXMLDecl = 10802"
definition NotesContainsDOCTYPE :: int where [SedErrorCode_defs]: "NotesContainsDOCTYPE = 10803"
definition InvalidNotesContent :: int where [SedErrorCode_defs]: "InvalidNotesContent = 10804"
definition OnlyOneNotesElementAllowed :: int where [SedErrorCode_defs]: "OnlyOneNotesElementAllowed = 10805"
definition InvalidNamespaceOnSed :: int where [SedErrorCode_defs]: "InvalidNamespaceOnSed = 20101"
definition MissingOrInconsistentLevel :: int where [SedErrorCode_defs]: "MissingOrInconsistentLevel = 20102"
definition MissingOrInconsistentVersion :: int where [SedErrorCode_defs]: "MissingOrInconsistentVersion = 20103"
definition PackageNSMustMatch :: int where [SedErrorCode_defs]: "PackageNSMustMatch = 20104"
definition LevelPositiveInteger :: int where [SedErrorCode_defs]: "LevelPositiveInteger = 20105"
definition VersionPositiveInteger :: int where [SedErrorCode_defs]: "VersionPositiveInteger = 20106"
definition AllowedAttributesOnSed :: int where [SedErrorCode_defs]: "AllowedAttributesOnSed = 20108"
definition L3PackageOnLowerSed :: int where [SedErrorCode_defs]: "L3PackageOnLowerSed = 20109"
definition MissingModel :: int where [SedErrorCode_defs]: "MissingModel = 20201"
definition IncorrectOrderInModel :: int where [SedErrorCode_defs]: "IncorrectOrderInModel = 20202"
definition EmptyListElement :: int where [SedErrorCode_defs]: "EmptyListElement = 20203"
definition NeedCompartmentIfHaveSpecies :: int where [SedErrorCode_defs]: "NeedCompartmentIfHaveSpecies = 20204"
definition OneOfEachListOf :: int where [SedErrorCode_defs]: "OneOfEachListOf = 20205"
definition OnlyFuncDefsInListOfFuncDefs :: int where [SedErrorCode_defs]: "OnlyFuncDefsInListOfFuncDefs = 20206"
definition OnlyUnitDefsInListOfUnitDefs :: int where [SedErrorCode_defs]: "OnlyUnitDefsInListOfUnitDefs = 20207"
definition OnlyCompartmentsInListOfCompartments :: int where [SedErrorCode_defs]: "OnlyCompartmentsInListOfCompartments = 20208"
definition OnlySpeciesInListOfSpecies :: int where [SedErrorCode_defs]: "OnlySpeciesInListOfSpecies = 20209"
definition OnlyParametersInListOfParameters :: int where [SedErrorCode_defs]: "OnlyParametersInListOfParameters = 20210"
definition OnlyInitAssignsInListOfInitAssigns :: int where [SedErrorCode_defs]: "OnlyInitAssignsInListOfInitAssigns = 20211"
definition OnlyRulesInListOfRules :: int where [SedErrorCode_defs]: "OnlyRulesInListOfRules = 20212"
definition OnlyConstraintsInListOfConstraints :: int where [SedErrorCode_defs]: "OnlyConstraintsInListOfConstraints = 20213"
definition OnlyReactionsInListOfReactions :: int where [SedErrorCode_defs]: "OnlyReactionsInListOfReactions = 20214"
definition OnlyEventsInListOfEvents :: int where [SedErrorCode_defs]: "OnlyEventsInListOfEvents = 20215"
definition L3ConversionFactorOnModel :: int where [SedErrorCode_defs]: "L3ConversionFactorOnModel = 20216"
definition L3TimeUnitsOnModel :: int where [SedErrorCode_defs]: "L3TimeUnitsOnModel = 20217"
definition L3VolumeUnitsOnModel :: int where [SedErrorCode_defs]: "L3VolumeUnitsOnModel = 20218"
definition L3AreaUnitsOnModel :: int where [SedErrorCode_defs]: "L3AreaUnitsOnModel = 20219"
definition L3LengthUnitsOnModel :: int where [SedErrorCode_defs]: "L3LengthUnitsOnModel = 20220"
definition L3ExtentUnitsOnModel :: int where [SedErrorCode_defs]: "L3ExtentUnitsOnModel = 20221"
definition AllowedAttributesOnModel :: int where [SedErrorCode_defs]: "AllowedAttributesOnModel = 20222"
definition AllowedAttributesOnListOfFuncs :: int where [SedErrorCode_defs]: "AllowedAttributesOnListOfFuncs = 20223"
definition AllowedAttributesOnListOfUnitDefs :: int where [SedErrorCode_defs]: "AllowedAttributesOnListOfUnitDefs = 20224"
definition AllowedAttributesOnListOfComps :: int where [SedErrorCode_defs]: "AllowedAttributesOnListOfComps = 20225"
definition AllowedAttributesOnListOfSpecies :: int where [SedErrorCode_defs]: "AllowedAttributesOnListOfSpecies = 20226"
definition AllowedAttributesOnListOfParams :: int where [SedErrorCode_defs]: "AllowedAttributesOnListOfParams = 20227"
definition AllowedAttributesOnListOfInitAssign :: int where [SedErrorCode_defs]: "AllowedAttributesOnListOfInitAssign = 20228"
definition AllowedAttributesOnListOfRules :: int where [SedErrorCode_defs]: "AllowedAttributesOnListOfRules = 20229"
definition AllowedAttributesOnListOfConstraints :: int where [SedErrorCode_defs]: "AllowedAttributesOnListOfConstraints = 20230"
definition AllowedAttributesOnListOfReactions :: int where [SedErrorCode_defs]: "AllowedAttributesOnListOfReactions = 20231"
definition AllowedAttributesOnListOfEvents :: int where [SedErrorCode_defs]: "AllowedAttributesOnListOfEvents = 20232"
definition FunctionDefMathNotLambda :: int where [SedErrorCode_defs]: "FunctionDefMathNotLambda = 20301"
definition InvalidApplyCiInLambda :: int where [SedErrorCode_defs]: "InvalidApplyCiInLambda = 20302"
definition RecursiveFunctionDefinition :: int where [SedErrorCode_defs]: "RecursiveFunctionDefinition = 20303"
definition InvalidCiInLambda :: int where [SedErrorCode_defs]: "InvalidCiInLambda = 20304"
definition InvalidFunctionDefReturnType :: int where [SedErrorCode_defs]: "InvalidFunctionDefReturnType = 20305"
definition OneMathElementPerFunc :: int where [SedErrorCode_defs]: "OneMathElementPerFunc = 20306"
definition AllowedAttributesOnFunc :: int where [SedErrorCode_defs]: "AllowedAttributesOnFunc = 20307"
definition InvalidUnitDefId :: int where [SedErrorCode_defs]: "InvalidUnitDefId = 20401"
definition InvalidSubstanceRedefinition :: int where [SedErrorCode_defs]: "InvalidSubstanceRedefinition = 20402"
definition InvalidLengthRedefinition :: int where [SedErrorCode_defs]: "InvalidLengthRedefinition = 20403"
definition InvalidAreaRedefinition :: int where [SedErrorCode_defs]: "InvalidAreaRedefinition = 20404"
definition InvalidTimeRedefinition :: int where [SedErrorCode_defs]: "InvalidTimeRedefinition = 20405"
definition InvalidVolumeRedefinition :: int where [SedErrorCode_defs]: "InvalidVolumeRedefinition = 20406"
definition VolumeLitreDefExponentNotOne :: int where [SedErrorCode_defs]: "VolumeLitreDefExponentNotOne = 20407"
definition VolumeMetreDefExponentNot3 :: int where [SedErrorCode_defs]: "VolumeMetreDefExponentNot3 = 20408"
definition EmptyListOfUnits :: int where [SedErrorCode_defs]: "EmptyListOfUnits = 20409"
definition InvalidUnitKind :: int where [SedErrorCode_defs]: "InvalidUnitKind = 20410"
definition OffsetNoLongerValid :: int where [SedErrorCode_defs]: "OffsetNoLongerValid = 20411"
definition CelsiusNoLongerValid :: int where [SedErrorCode_defs]: "CelsiusNoLongerValid = 20412"
definition EmptyUnitListElement :: int where [SedErrorCode_defs]: "EmptyUnitListElement = 20413"
definition OneListOfUnitsPerUnitDef :: int where [SedErrorCode_defs]: "OneListOfUnitsPerUnitDef = 20414"
definition OnlyUnitsInListOfUnits :: int where [SedErrorCode_defs]: "OnlyUnitsInListOfUnits = 20415"
definition AllowedAttributesOnUnitDefinition :: int where [SedErrorCode_defs]: "AllowedAttributesOnUnitDefinition = 20419"
definition AllowedAttributesOnListOfUnits :: int where [SedErrorCode_defs]: "AllowedAttributesOnListOfUnits = 20420"
definition AllowedAttributesOnUnit :: int where [SedErrorCode_defs]: "AllowedAttributesOnUnit = 20421"
definition ZeroDimensionalCompartmentSize :: int where [SedErrorCode_defs]: "ZeroDimensionalCompartmentSize = 20501"
definition ZeroDimensionalCompartmentUnits :: int where [SedErrorCode_defs]: "ZeroDimensionalCompartmentUnits = 20502"
definition ZeroDimensionalCompartmentConst :: int where [SedErrorCode_defs]: "ZeroDimensionalCompartmentConst = 20503"
definition UndefinedOutsideCompartment :: int where [SedErrorCode_defs]: "UndefinedOutsideCompartment = 20504"
definition RecursiveCompartmentContainment :: int where [SedErrorCode_defs]: "RecursiveCompartmentContainment = 20505"
definition ZeroDCompartmentContainment :: int where [SedErrorCode_defs]: "ZeroDCompartmentContainment = 20506"
definition Invalid1DCompartmentUnits :: int where [SedErrorCode_defs]: "Invalid1DCompartmentUnits = 20507"
definition Invalid2DCompartmentUnits :: int where [SedErrorCode_defs]: "Invalid2DCompartmentUnits = 20508"
definition Invalid3DCompartmentUnits :: int where [SedErrorCode_defs]: "Invalid3DCompartmentUnits = 20509"
definition InvalidCompartmentTypeRef :: int where [SedErrorCode_defs]: "InvalidCompartmentTypeRef = 20510"
definition OneDimensionalCompartmentUnits :: int where [SedErrorCode_defs]: "OneDimensionalCompartmentUnits = 20511"
definition TwoDimensionalCompartmentUnits :: int where [SedErrorCode_defs]: "TwoDimensionalCompartmentUnits = 20512"
definition ThreeDimensionalCompartmentUnits :: int where [SedErrorCode_defs]: "ThreeDimensionalCompartmentUnits = 20513"
definition AllowedAttributesOnCompartment :: int where [SedErrorCode_defs]: "AllowedAttributesOnCompartment = 20517"
definition NoUnitsOnCompartment :: int where [SedErrorCode_defs]: "NoUnitsOnCompartment = 20518"
definition InvalidSpeciesCompartmentRef :: int where [SedErrorCode_defs]: "InvalidSpeciesCompartmentRef = 20601"
definition HasOnlySubsNoSpatialUnits :: int where [SedErrorCode_defs]: "HasOnlySubsNoSpatialUnits = 20602"
definition NoSpatialUnitsInZeroD :: int where [SedErrorCode_defs]: "NoSpatialUnitsInZeroD = 20603"
definition NoConcentrationInZeroD :: int where [SedErrorCode_defs]: "NoConcentrationInZeroD = 20604"
definition SpatialUnitsInOneD :: int where [SedErrorCode_defs]: "SpatialUnitsInOneD = 20605"
definition SpatialUnitsInTwoD :: int where [SedErrorCode_defs]: "SpatialUnitsInTwoD = 20606"
definition SpatialUnitsInThreeD :: int where [SedErrorCode_defs]: "SpatialUnitsInThreeD = 20607"
definition InvalidSpeciesSusbstanceUnits :: int where [SedErrorCode_defs]: "InvalidSpeciesSusbstanceUnits = 20608"
definition BothAmountAndConcentrationSet :: int where [SedErrorCode_defs]: "BothAmountAndConcentrationSet = 20609"
definition NonBoundarySpeciesAssignedAndUsed :: int where [SedErrorCode_defs]: "NonBoundarySpeciesAssignedAndUsed = 20610"
definition NonConstantSpeciesUsed :: int where [SedErrorCode_defs]: "NonConstantSpeciesUsed = 20611"
definition InvalidSpeciesTypeRef :: int where [SedErrorCode_defs]: "InvalidSpeciesTypeRef = 20612"
definition MultSpeciesSameTypeInCompartment :: int where [SedErrorCode_defs]: "MultSpeciesSameTypeInCompartment = 20613"
definition MissingSpeciesCompartment :: int where [SedErrorCode_defs]: "MissingSpeciesCompartment = 20614"
definition SpatialSizeUnitsRemoved :: int where [SedErrorCode_defs]: "SpatialSizeUnitsRemoved = 20615"
definition SubstanceUnitsOnSpecies :: int where [SedErrorCode_defs]: "SubstanceUnitsOnSpecies = 20616"
definition ConversionFactorOnSpecies :: int where [SedErrorCode_defs]: "ConversionFactorOnSpecies = 20617"
definition AllowedAttributesOnSpecies :: int where [SedErrorCode_defs]: "AllowedAttributesOnSpecies = 20623"
definition InvalidParameterUnits :: int where [SedErrorCode_defs]: "InvalidParameterUnits = 20701"
definition ParameterUnits :: int where [SedErrorCode_defs]: "ParameterUnits = 20702"
definition ConversionFactorMustConstant :: int where [SedErrorCode_defs]: "ConversionFactorMustConstant = 20705"
definition AllowedAttributesOnParameter :: int where [SedErrorCode_defs]: "AllowedAttributesOnParameter = 20706"
definition InvalidInitAssignSymbol :: int where [SedErrorCode_defs]: "InvalidInitAssignSymbol = 20801"
definition MultipleInitAssignments :: int where [SedErrorCode_defs]: "MultipleInitAssignments = 20802"
definition InitAssignmentAndRuleForSameId :: int where [SedErrorCode_defs]: "InitAssignmentAndRuleForSameId = 20803"
definition OneMathElementPerInitialAssign :: int where [SedErrorCode_defs]: "OneMathElementPerInitialAssign = 20804"
definition AllowedAttributesOnInitialAssign :: int where [SedErrorCode_defs]: "AllowedAttributesOnInitialAssign = 20805"
definition InvalidAssignRuleVariable :: int where [SedErrorCode_defs]: "InvalidAssignRuleVariable = 20901"
definition InvalidRateRuleVariable :: int where [SedErrorCode_defs]: "InvalidRateRuleVariable = 20902"
definition AssignmentToConstantEntity :: int where [SedErrorCode_defs]: "AssignmentToConstantEntity = 20903"
definition RateRuleForConstantEntity :: int where [SedErrorCode_defs]: "RateRuleForConstantEntity = 20904"
definition RepeatedRule10304 :: int where [SedErrorCode_defs]: "RepeatedRule10304 = 20905"
definition CircularRuleDependency :: int where [SedErrorCode_defs]: "CircularRuleDependency = 20906"
definition OneMathElementPerRule :: int where [SedErrorCode_defs]: "OneMathElementPerRule = 20907"
definition AllowedAttributesOnAssignRule :: int where [SedErrorCode_defs]: "AllowedAttributesOnAssignRule = 20908"
definition AllowedAttributesOnRateRule :: int where [SedErrorCode_defs]: "AllowedAttributesOnRateRule = 20909"
definition AllowedAttributesOnAlgRule :: int where [SedErrorCode_defs]: "AllowedAttributesOnAlgRule = 20910"
definition ConstraintMathNotBoolean :: int where [SedErrorCode_defs]: "ConstraintMathNotBoolean = 21001"
definition IncorrectOrderInConstraint :: int where [SedErrorCode_defs]: "IncorrectOrderInConstraint = 21002"
definition ConstraintNotInXHTMLNamespace :: int where [SedErrorCode_defs]: "ConstraintNotInXHTMLNamespace = 21003"
definition ConstraintContainsXMLDecl :: int where [SedErrorCode_defs]: "ConstraintContainsXMLDecl = 21004"
definition ConstraintContainsDOCTYPE :: int where [SedErrorCode_defs]: "ConstraintContainsDOCTYPE = 21005"
definition InvalidConstraintContent :: int where [SedErrorCode_defs]: "InvalidConstraintContent = 21006"
definition OneMathElementPerConstraint :: int where [SedErrorCode_defs]: "OneMathElementPerConstraint = 21007"
definition OneMessageElementPerConstraint :: int where [SedErrorCode_defs]: "OneMessageElementPerConstraint = 21008"
definition AllowedAttributesOnConstraint :: int where [SedErrorCode_defs]: "AllowedAttributesOnConstraint = 21009"
definition NoReactantsOrProducts :: int where [SedErrorCode_defs]: "NoReactantsOrProducts = 21101"
definition IncorrectOrderInReaction :: int where [SedErrorCode_defs]: "IncorrectOrderInReaction = 21102"
definition EmptyListInReaction :: int where [SedErrorCode_defs]: "EmptyListInReaction = 21103"
definition InvalidReactantsProductsList :: int where [SedErrorCode_defs]: "InvalidReactantsProductsList = 21104"
definition InvalidModifiersList :: int where [SedErrorCode_defs]: "InvalidModifiersList = 21105"
definition OneSubElementPerReaction :: int where [SedErrorCode_defs]: "OneSubElementPerReaction = 21106"
definition CompartmentOnReaction :: int where [SedErrorCode_defs]: "CompartmentOnReaction = 21107"
definition AllowedAttributesOnReaction :: int where [SedErrorCode_defs]: "AllowedAttributesOnReaction = 21110"
definition InvalidSpeciesReference :: int where [SedErrorCode_defs]: "InvalidSpeciesReference = 21111"
definition RepeatedRule20611 :: int where [SedErrorCode_defs]: "RepeatedRule20611 = 21112"
definition BothStoichiometryAndMath :: int where [SedErrorCode_defs]: "BothStoichiometryAndMath = 21113"
definition AllowedAttributesOnSpeciesReference :: int where [SedErrorCode_defs]: "AllowedAttributesOnSpeciesReference = 21116"
definition AllowedAttributesOnModifier :: int where [SedErrorCode_defs]: "AllowedAttributesOnModifier = 21117"
definition UndeclaredSpeciesRef :: int where [SedErrorCode_defs]: "UndeclaredSpeciesRef = 21121"
definition IncorrectOrderInKineticLaw :: int where [SedErrorCode_defs]: "IncorrectOrderInKineticLaw = 21122"
definition EmptyListInKineticLaw :: int where [SedErrorCode_defs]: "EmptyListInKineticLaw = 21123"
definition NonConstantLocalParameter :: int where [SedErrorCode_defs]: "NonConstantLocalParameter = 21124"
definition SubsUnitsNoLongerValid :: int where [SedErrorCode_defs]: "SubsUnitsNoLongerValid = 21125"
definition TimeUnitsNoLongerValid :: int where [SedErrorCode_defs]: "TimeUnitsNoLongerValid = 21126"
definition OneListOfPerKineticLaw :: int where [SedErrorCode_defs]: "OneListOfPerKineticLaw = 21127"
definition OnlyLocalParamsInListOfLocalParams :: int where [SedErrorCode_defs]: "OnlyLocalParamsInListOfLocalParams = 21128"
definition AllowedAttributesOnListOfLocalParam :: int where [SedErrorCode_defs]: "AllowedAttributesOnListOfLocalParam = 21129"
definition OneMathPerKineticLaw :: int where [SedErrorCode_defs]: "OneMathPerKineticLaw = 21130"
definition UndeclaredSpeciesInStoichMath :: int where [SedErrorCode_defs]: "UndeclaredSpeciesInStoichMath = 21131"
definition AllowedAttributesOnKineticLaw :: int where [SedErrorCode_defs]: "AllowedAttributesOnKineticLaw = 21132"
definition AllowedAttributesOnListOfSpeciesRef :: int where [SedErrorCode_defs]: "AllowedAttributesOnListOfSpeciesRef = 21150"
definition AllowedAttributesOnListOfMods :: int where [SedErrorCode_defs]: "AllowedAttributesOnListOfMods = 21151"
definition AllowedAttributesOnLocalParameter :: int where [SedErrorCode_defs]: "AllowedAttributesOnLocalParameter = 21172"
definition MissingTriggerInEvent :: int where [SedErrorCode_defs]: "MissingTriggerInEvent = 21201"
definition TriggerMathNotBoolean :: int where [SedErrorCode_defs]: "TriggerMathNotBoolean = 21202"
definition MissingEventAssignment :: int where [SedErrorCode_defs]: "MissingEventAssignment = 21203"
definition TimeUnitsEvent :: int where [SedErrorCode_defs]: "TimeUnitsEvent = 21204"
definition IncorrectOrderInEvent :: int where [SedErrorCode_defs]: "IncorrectOrderInEvent = 21205"
definition ValuesFromTriggerTimeNeedDelay :: int where [SedErrorCode_defs]: "ValuesFromTriggerTimeNeedDelay = 21206"
definition DelayNeedsValuesFromTriggerTime :: int where [SedErrorCode_defs]: "DelayNeedsValuesFromTriggerTime = 21207"
definition OneMathPerTrigger :: int where [SedErrorCode_defs]: "OneMathPerTrigger = 21209"
definition OneMathPerDelay :: int where [SedErrorCode_defs]: "OneMathPerDelay = 21210"
definition InvalidEventAssignmentVariable :: int where [SedErrorCode_defs]: "InvalidEventAssignmentVariable = 21211"
definition EventAssignmentForConstantEntity :: int where [SedErrorCode_defs]: "EventAssignmentForConstantEntity = 21212"
definition OneMathPerEventAssignment :: int where [SedErrorCode_defs]: "OneMathPerEventAssignment = 21213"
definition AllowedAttributesOnEventAssignment :: int where [SedErrorCode_defs]: "AllowedAttributesOnEventAssignment = 21214"
definition OnlyOneDelayPerEvent :: int where [SedErrorCode_defs]: "OnlyOneDelayPerEvent = 21221"
definition OneListOfEventAssignmentsPerEvent :: int where [SedErrorCode_defs]: "OneListOfEventAssignmentsPerEvent = 21222"
definition OnlyEventAssignInListOfEventAssign :: int where [SedErrorCode_defs]: "OnlyEventAssignInListOfEventAssign = 21223"
definition AllowedAttributesOnListOfEventAssign :: int where [SedErrorCode_defs]: "AllowedAttributesOnListOfEventAssign = 21224"
definition AllowedAttributesOnEvent :: int where [SedErrorCode_defs]: "AllowedAttributesOnEvent = 21225"
definition AllowedAttributesOnTrigger :: int where [SedErrorCode_defs]: "AllowedAttributesOnTrigger = 21226"
definition AllowedAttributesOnDelay :: int where [SedErrorCode_defs]: "AllowedAttributesOnDelay = 21227"
definition PersistentNotBoolean :: int where [SedErrorCode_defs]: "PersistentNotBoolean = 21228"
definition InitialValueNotBoolean :: int where [SedErrorCode_defs]: "InitialValueNotBoolean = 21229"
definition OnlyOnePriorityPerEvent :: int where [SedErrorCode_defs]: "OnlyOnePriorityPerEvent = 21230"
definition OneMathPerPriority :: int where [SedErrorCode_defs]: "OneMathPerPriority = 21231"
definition AllowedAttributesOnPriority :: int where [SedErrorCode_defs]: "AllowedAttributesOnPriority = 21232"
definition GeneralWarningNotSpecified :: int where [SedErrorCode_defs]: "GeneralWarningNotSpecified = 29999"
definition CompartmentShouldHaveSize :: int where [SedErrorCode_defs]: "CompartmentShouldHaveSize = 80501"
definition SpeciesShouldHaveValue :: int where [SedErrorCode_defs]: "SpeciesShouldHaveValue = 80601"
definition ParameterShouldHaveUnits :: int where [SedErrorCode_defs]: "ParameterShouldHaveUnits = 80701"
definition LocalParameterShadowsId :: int where [SedErrorCode_defs]: "LocalParameterShadowsId = 81121"
definition LibSedAdditionalCodesLowerBound :: int where [SedErrorCode_defs]: "LibSedAdditionalCodesLowerBound = 90000"
definition CannotConvertToL1V1 :: int where [SedErrorCode_defs]: "CannotConvertToL1V1 = 90001"
definition NoEventsInL1 :: int where [SedErrorCode_defs]: "NoEventsInL1 = 91001"
definition NoFunctionDefinitionsInL1 :: int where [SedErrorCode_defs]: "NoFunctionDefinitionsInL1 = 91002"
definition NoConstraintsInL1 :: int where [SedErrorCode_defs]: "NoConstraintsInL1 = 91003"
definition NoInitialAssignmentsInL1 :: int where [SedErrorCode_defs]: "NoInitialAssignmentsInL1 = 91004"
definition NoSpeciesTypesInL1 :: int where [SedErrorCode_defs]: "NoSpeciesTypesInL1 = 91005"
definition NoCompartmentTypeInL1 :: int where [SedErrorCode_defs]: "NoCompartmentTypeInL1 = 91006"
definition NoNon3DCompartmentsInL1 :: int where [SedErrorCode_defs]: "NoNon3DCompartmentsInL1 = 91007"
definition NoFancyStoichiometryMathInL1 :: int where [SedErrorCode_defs]: "NoFancyStoichiometryMathInL1 = 91008"
definition NoNonIntegerStoichiometryInL1 :: int where [SedErrorCode_defs]: "NoNonIntegerStoichiometryInL1 = 91009"
definition NoUnitMultipliersOrOffsetsInL1 :: int where [SedErrorCode_defs]: "NoUnitMultipliersOrOffsetsInL1 = 91010"
definition SpeciesCompartmentRequiredInL1 :: int where [SedErrorCode_defs]: "SpeciesCompartmentRequiredInL1 = 91011"
definition NoSpeciesSpatialSizeUnitsInL1 :: int where [SedErrorCode_defs]: "NoSpeciesSpatialSizeUnitsInL1 = 91012"
definition NoSBOTermsInL1 :: int where [SedErrorCode_defs]: "NoSBOTermsInL1 = 91013"
definition StrictUnitsRequiredInL1 :: int where [SedErrorCode_defs]: "StrictUnitsRequiredInL1 = 91014"
definition ConversionFactorNotInL1 :: int where [SedErrorCode_defs]: "ConversionFactorNotInL1 = 91015"
definition CompartmentNotOnL1Reaction :: int where [SedErrorCode_defs]: "CompartmentNotOnL1Reaction = 91016"
definition ExtentUnitsNotSubstance :: int where [SedErrorCode_defs]: "ExtentUnitsNotSubstance = 91017"
definition GlobalUnitsNotDeclared :: int where [SedErrorCode_defs]: "GlobalUnitsNotDeclared = 91018"
definition HasOnlySubstanceUnitsNotinL1 :: int where [SedErrorCode_defs]: "HasOnlySubstanceUnitsNotinL1 = 91019"
definition AvogadroNotSupported :: int where [SedErrorCode_defs]: "AvogadroNotSupported = 91020"
definition NoConstraintsInL2v1 :: int where [SedErrorCode_defs]: "NoConstraintsInL2v1 = 92001"
definition NoInitialAssignmentsInL2v1 :: int where [SedErrorCode_defs]: "NoInitialAssignmentsInL2v1 = 92002"
definition NoSpeciesTypeInL2v1 :: int where [SedErrorCode_defs]: "NoSpeciesTypeInL2v1 = 92003"
definition NoCompartmentTypeInL2v1 :: int where [SedErrorCode_defs]: "NoCompartmentTypeInL2v1 = 92004"
definition NoSBOTermsInL2v1 :: int where [SedErrorCode_defs]: "NoSBOTermsInL2v1 = 92005"
definition NoIdOnSpeciesReferenceInL2v1 :: int where [SedErrorCode_defs]: "NoIdOnSpeciesReferenceInL2v1 = 92006"
definition NoDelayedEventAssignmentInL2v1 :: int where [SedErrorCode_defs]: "NoDelayedEventAssignmentInL2v1 = 92007"
definition StrictUnitsRequiredInL2v1 :: int where [SedErrorCode_defs]: "StrictUnitsRequiredInL2v1 = 92008"
definition IntegerSpatialDimensions :: int where [SedErrorCode_defs]: "IntegerSpatialDimensions = 92009"
definition StoichiometryMathNotYetSupported :: int where [SedErrorCode_defs]: "StoichiometryMathNotYetSupported = 92010"
definition PriorityLostFromL3 :: int where [SedErrorCode_defs]: "PriorityLostFromL3 = 92011"
definition NonPersistentNotSupported :: int where [SedErrorCode_defs]: "NonPersistentNotSupported = 92012"
definition InitialValueFalseEventNotSupported :: int where [SedErrorCode_defs]: "InitialValueFalseEventNotSupported = 92013"
definition SBOTermNotUniversalInL2v2 :: int where [SedErrorCode_defs]: "SBOTermNotUniversalInL2v2 = 93001"
definition NoUnitOffsetInL2v2 :: int where [SedErrorCode_defs]: "NoUnitOffsetInL2v2 = 93002"
definition NoKineticLawTimeUnitsInL2v2 :: int where [SedErrorCode_defs]: "NoKineticLawTimeUnitsInL2v2 = 93003"
definition NoKineticLawSubstanceUnitsInL2v2 :: int where [SedErrorCode_defs]: "NoKineticLawSubstanceUnitsInL2v2 = 93004"
definition NoDelayedEventAssignmentInL2v2 :: int where [SedErrorCode_defs]: "NoDelayedEventAssignmentInL2v2 = 93005"
definition ModelSBOBranchChangedBeyondL2v2 :: int where [SedErrorCode_defs]: "ModelSBOBranchChangedBeyondL2v2 = 93006"
definition StrictUnitsRequiredInL2v2 :: int where [SedErrorCode_defs]: "StrictUnitsRequiredInL2v2 = 93007"
definition StrictSBORequiredInL2v2 :: int where [SedErrorCode_defs]: "StrictSBORequiredInL2v2 = 93008"
definition DuplicateAnnotationInvalidInL2v2 :: int where [SedErrorCode_defs]: "DuplicateAnnotationInvalidInL2v2 = 93009"
definition NoUnitOffsetInL2v3 :: int where [SedErrorCode_defs]: "NoUnitOffsetInL2v3 = 94001"
definition NoKineticLawTimeUnitsInL2v3 :: int where [SedErrorCode_defs]: "NoKineticLawTimeUnitsInL2v3 = 94002"
definition NoKineticLawSubstanceUnitsInL2v3 :: int where [SedErrorCode_defs]: "NoKineticLawSubstanceUnitsInL2v3 = 94003"
definition NoSpeciesSpatialSizeUnitsInL2v3 :: int where [SedErrorCode_defs]: "NoSpeciesSpatialSizeUnitsInL2v3 = 94004"
definition NoEventTimeUnitsInL2v3 :: int where [SedErrorCode_defs]: "NoEventTimeUnitsInL2v3 = 94005"
definition NoDelayedEventAssignmentInL2v3 :: int where [SedErrorCode_defs]: "NoDelayedEventAssignmentInL2v3 = 94006"
definition ModelSBOBranchChangedBeyondL2v3 :: int where [SedErrorCode_defs]: "ModelSBOBranchChangedBeyondL2v3 = 94007"
definition StrictUnitsRequiredInL2v3 :: int where [SedErrorCode_defs]: "StrictUnitsRequiredInL2v3 = 94008"
definition StrictSBORequiredInL2v3 :: int where [SedErrorCode_defs]: "StrictSBORequiredInL2v3 = 94009"
definition DuplicateAnnotationInvalidInL2v3 :: int where [SedErrorCode_defs]: "DuplicateAnnotationInvalidInL2v3 = 94010"
definition NoUnitOffsetInL2v4 :: int where [SedErrorCode_defs]: "NoUnitOffsetInL2v4 = 95001"
definition NoKineticLawTimeUnitsInL2v4 :: int where [SedErrorCode_defs]: "NoKineticLawTimeUnitsInL2v4 = 95002"
definition NoKineticLawSubstanceUnitsInL2v4 :: int where [SedErrorCode_defs]: "NoKineticLawSubstanceUnitsInL2v4 = 95003"
definition NoSpeciesSpatialSizeUnitsInL2v4 :: int where [SedErrorCode_defs]: "NoSpeciesSpatialSizeUnitsInL2v4 = 95004"
definition NoEventTimeUnitsInL2v4 :: int where [SedErrorCode_defs]: "NoEventTimeUnitsInL2v4 = 95005"
definition ModelSBOBranchChangedInL2v4 :: int where [SedErrorCode_defs]: "ModelSBOBranchChangedInL2v4 = 95006"
definition DuplicateAnnotationInvalidInL2v4 :: int where [SedErrorCode_defs]: "DuplicateAnnotationInvalidInL2v4 = 95007"
definition NoSpeciesTypeInL3v1 :: int where [SedErrorCode_defs]: "NoSpeciesTypeInL3v1 = 96001"
definition NoCompartmentTypeInL3v1 :: int where [SedErrorCode_defs]: "NoCompartmentTypeInL3v1 = 96002"
definition NoUnitOffsetInL3v1 :: int where [SedErrorCode_defs]: "NoUnitOffsetInL3v1 = 96003"
definition NoKineticLawTimeUnitsInL3v1 :: int where [SedErrorCode_defs]: "NoKineticLawTimeUnitsInL3v1 = 96004"
definition NoKineticLawSubstanceUnitsInL3v1 :: int where [SedErrorCode_defs]: "NoKineticLawSubstanceUnitsInL3v1 = 96005"
definition NoSpeciesSpatialSizeUnitsInL3v1 :: int where [SedErrorCode_defs]: "NoSpeciesSpatialSizeUnitsInL3v1 = 96006"
definition NoEventTimeUnitsInL3v1 :: int where [SedErrorCode_defs]: "NoEventTimeUnitsInL3v1 = 96007"
definition ModelSBOBranchChangedInL3v1 :: int where [SedErrorCode_defs]: "ModelSBOBranchChangedInL3v1 = 96008"
definition DuplicateAnnotationInvalidInL3v1 :: int where [SedErrorCode_defs]: "DuplicateAnnotationInvalidInL3v1 = 96009"
definition NoCompartmentOutsideInL3v1 :: int where [SedErrorCode_defs]: "NoCompartmentOutsideInL3v1 = 96010"
definition NoStoichiometryMathInL3v1 :: int where [SedErrorCode_defs]: "NoStoichiometryMathInL3v1 = 96011"
definition InvalidSedLevelVersion :: int where [SedErrorCode_defs]: "InvalidSedLevelVersion = 99101"
definition AnnotationNotesNotAllowedLevel1 :: int where [SedErrorCode_defs]: "AnnotationNotesNotAllowedLevel1 = 99104"
definition InvalidRuleOrdering :: int where [SedErrorCode_defs]: "InvalidRuleOrdering = 99106"
definition RequiredPackagePresent :: int where [SedErrorCode_defs]: "RequiredPackagePresent = 99107"
definition UnrequiredPackagePresent :: int where [SedErrorCode_defs]: "UnrequiredPackagePresent = 99108"
definition PackageRequiredShouldBeFalse :: int where [SedErrorCode_defs]: "PackageRequiredShouldBeFalse = 99109"
definition SubsUnitsAllowedInKL :: int where [SedErrorCode_defs]: "SubsUnitsAllowedInKL = 99127"
definition TimeUnitsAllowedInKL :: int where [SedErrorCode_defs]: "TimeUnitsAllowedInKL = 99128"
definition FormulaInLevel1KL :: int where [SedErrorCode_defs]: "FormulaInLevel1KL = 99129"
definition L3SubstanceUnitsOnModel :: int where [SedErrorCode_defs]: "L3SubstanceUnitsOnModel = 99130"
definition TimeUnitsRemoved :: int where [SedErrorCode_defs]: "TimeUnitsRemoved = 99206"
definition BadMathML :: int where [SedErrorCode_defs]: "BadMathML = 99219"
definition FailedMathMLReadOfDouble :: int where [SedErrorCode_defs]: "FailedMathMLReadOfDouble = 99220"
definition FailedMathMLReadOfInteger :: int where [SedErrorCode_defs]: "FailedMathMLReadOfInteger = 99221"
definition FailedMathMLReadOfExponential :: int where [SedErrorCode_defs]: "FailedMathMLReadOfExponential = 99222"
definition FailedMathMLReadOfRational :: int where [SedErrorCode_defs]: "FailedMathMLReadOfRational = 99223"
definition BadMathMLNodeType :: int where [SedErrorCode_defs]: "BadMathMLNodeType = 99224"
definition NoTimeSymbolInFunctionDef :: int where [SedErrorCode_defs]: "NoTimeSymbolInFunctionDef = 99301"
definition NoBodyInFunctionDef :: int where [SedErrorCode_defs]: "NoBodyInFunctionDef = 99302"
definition DanglingUnitSIdRef :: int where [SedErrorCode_defs]: "DanglingUnitSIdRef = 99303"
definition RDFMissingAboutTag :: int where [SedErrorCode_defs]: "RDFMissingAboutTag = 99401"
definition RDFEmptyAboutTag :: int where [SedErrorCode_defs]: "RDFEmptyAboutTag = 99402"
definition RDFAboutTagNotMetaid :: int where [SedErrorCode_defs]: "RDFAboutTagNotMetaid = 99403"
definition RDFNotCompleteModelHistory :: int where [SedErrorCode_defs]: "RDFNotCompleteModelHistory = 99404"
definition RDFNotModelHistory :: int where [SedErrorCode_defs]: "RDFNotModelHistory = 99405"
definition AnnotationNotElement :: int where [SedErrorCode_defs]: "AnnotationNotElement = 99406"
definition InconsistentArgUnitsWarnings :: int where [SedErrorCode_defs]: "InconsistentArgUnitsWarnings = 99502"
definition InconsistentPowerUnitsWarnings :: int where [SedErrorCode_defs]: "InconsistentPowerUnitsWarnings = 99503"
definition InconsistentExponUnitsWarnings :: int where [SedErrorCode_defs]: "InconsistentExponUnitsWarnings = 99504"
definition UndeclaredUnits :: int where [SedErrorCode_defs]: "UndeclaredUnits = 99505"
definition UndeclaredTimeUnitsL3 :: int where [SedErrorCode_defs]: "UndeclaredTimeUnitsL3 = 99506"
definition UndeclaredExtentUnitsL3 :: int where [SedErrorCode_defs]: "UndeclaredExtentUnitsL3 = 99507"
definition UndeclaredObjectUnitsL3 :: int where [SedErrorCode_defs]: "UndeclaredObjectUnitsL3 = 99508"
definition UnrecognisedSBOTerm :: int where [SedErrorCode_defs]: "UnrecognisedSBOTerm = 99701"
definition ObseleteSBOTerm :: int where [SedErrorCode_defs]: "ObseleteSBOTerm = 99702"
definition IncorrectCompartmentSpatialDimensions :: int where [SedErrorCode_defs]: "IncorrectCompartmentSpatialDimensions = 99901"
definition CompartmentTypeNotValidAttribute :: int where [SedErrorCode_defs]: "CompartmentTypeNotValidAttribute = 99902"
definition ConstantNotValidAttribute :: int where [SedErrorCode_defs]: "ConstantNotValidAttribute = 99903"
definition MetaIdNotValidAttribute :: int where [SedErrorCode_defs]: "MetaIdNotValidAttribute = 99904"
definition SBOTermNotValidAttributeBeforeL2V3 :: int where [SedErrorCode_defs]: "SBOTermNotValidAttributeBeforeL2V3 = 99905"
definition InvalidL1CompartmentUnits :: int where [SedErrorCode_defs]: "InvalidL1CompartmentUnits = 99906"
definition L1V1CompartmentVolumeReqd :: int where [SedErrorCode_defs]: "L1V1CompartmentVolumeReqd = 99907"
definition CompartmentTypeNotValidComponent :: int where [SedErrorCode_defs]: "CompartmentTypeNotValidComponent = 99908"
definition ConstraintNotValidComponent :: int where [SedErrorCode_defs]: "ConstraintNotValidComponent = 99909"
definition EventNotValidComponent :: int where [SedErrorCode_defs]: "EventNotValidComponent = 99910"
definition SBOTermNotValidAttributeBeforeL2V2 :: int where [SedErrorCode_defs]: "SBOTermNotValidAttributeBeforeL2V2 = 99911"
definition FuncDefNotValidComponent :: int where [SedErrorCode_defs]: "FuncDefNotValidComponent = 99912"
definition InitialAssignNotValidComponent :: int where [SedErrorCode_defs]: "InitialAssignNotValidComponent = 99913"
definition VariableNotValidAttribute :: int where [SedErrorCode_defs]: "VariableNotValidAttribute = 99914"
definition UnitsNotValidAttribute :: int where [SedErrorCode_defs]: "UnitsNotValidAttribute = 99915"
definition ConstantSpeciesNotValidAttribute :: int where [SedErrorCode_defs]: "ConstantSpeciesNotValidAttribute = 99916"
definition SpatialSizeUnitsNotValidAttribute :: int where [SedErrorCode_defs]: "SpatialSizeUnitsNotValidAttribute = 99917"
definition SpeciesTypeNotValidAttribute :: int where [SedErrorCode_defs]: "SpeciesTypeNotValidAttribute = 99918"
definition HasOnlySubsUnitsNotValidAttribute :: int where [SedErrorCode_defs]: "HasOnlySubsUnitsNotValidAttribute = 99919"
definition IdNotValidAttribute :: int where [SedErrorCode_defs]: "IdNotValidAttribute = 99920"
definition NameNotValidAttribute :: int where [SedErrorCode_defs]: "NameNotValidAttribute = 99921"
definition SpeciesTypeNotValidComponent :: int where [SedErrorCode_defs]: "SpeciesTypeNotValidComponent = 99922"
definition StoichiometryMathNotValidComponent :: int where [SedErrorCode_defs]: "StoichiometryMathNotValidComponent = 99923"
definition MultiplierNotValidAttribute :: int where [SedErrorCode_defs]: "MultiplierNotValidAttribute = 99924"
definition OffsetNotValidAttribute :: int where [SedErrorCode_defs]: "OffsetNotValidAttribute = 99925"
definition L3SpatialDimensionsUnset :: int where [SedErrorCode_defs]: "L3SpatialDimensionsUnset = 99926"
definition UnknownCoreAttribute :: int where [SedErrorCode_defs]: "UnknownCoreAttribute = 99994"
definition UnknownPackageAttribute :: int where [SedErrorCode_defs]: "UnknownPackageAttribute = 99995"
definition PackageConversionNotSupported :: int where [SedErrorCode_defs]: "PackageConversionNotSupported = 99996"
definition InvalidTargetLevelVersion :: int where [SedErrorCode_defs]: "InvalidTargetLevelVersion = 99997"
definition L3NotSupported :: int where [SedErrorCode_defs]: "L3NotSupported = 99998"
definition SedCodesUpperBound :: int where [SedErrorCode_defs]: "SedCodesUpperBound = 99999"

definition SedErrorCode_t :: "int list" where
  "SedErrorCode_t =
    [UnknownError, NotUTF8, UnrecognizedElement, NotSchemaConformant, L3NotSchemaConformant,
     InvalidMathElement, DisallowedMathMLSymbol, DisallowedMathMLEncodingUse,
     DisallowedDefinitionURLUse, BadCsymbolDefinitionURLValue, DisallowedMathTypeAttributeUse,
     DisallowedMathTypeAttributeValue, LambdaOnlyAllowedInFunctionDef,
     BooleanOpsNeedBooleanArgs, NumericOpsNeedNumericArgs, ArgsToEqNeedSameType,
     PiecewiseNeedsConsistentTypes, PieceNeedsBoolean, ApplyCiMustBeUserFunction,
     ApplyCiMustBeModelComponent, KineticLawParametersAreLocalOnly, MathResultMustBeNumeric,
     OpsNeedCorrectNumberOfArgs, InvalidNoArgsPassedToFunctionDef, DisallowedMathUnitsUse,
     InvalidUnitsValue, DuplicateComponentId, DuplicateUnitDefinitionId,
     DuplicateLocalParameterId, MultipleAssignmentOrRateRules, MultipleEventAssignmentsForId,
     EventAndAssignmentRuleForId, DuplicateMetaId, InvalidSBOTermSyntax, InvalidMetaidSyntax,
     InvalidIdSyntax, InvalidUnitIdSyntax, InvalidNameSyntax, MissingAnnotationNamespace,
     DuplicateAnnotationNamespaces, SedNamespaceInAnnotation, MultipleAnnotations,
     InconsistentArgUnits, InconsistentKineticLawUnitsL3, AssignRuleCompartmentMismatch,
     AssignRuleSpeciesMismatch, AssignRuleParameterMismatch, AssignRuleStoichiometryMismatch,
     InitAssignCompartmenMismatch, InitAssignSpeciesMismatch, InitAssignParameterMismatch,
     InitAssignStoichiometryMismatch, RateRuleCompartmentMismatch, RateRuleSpeciesMismatch,
     RateRuleParameterMismatch, RateRuleStoichiometryMismatch, KineticLawNotSubstancePerTime,
     SpeciesInvalidExtentUnits, DelayUnitsNotTime, EventAssignCompartmentMismatch,
     EventAssignSpeciesMismatch, EventAssignParameterMismatch,
     EventAssignStoichiometryMismatch, PriorityUnitsNotDimensionless, UpperUnitBound,
     OverdeterminedSystem, InvalidModelSBOTerm, InvalidFunctionDefSBOTerm,
     InvalidParameterSBOTerm, InvalidInitAssignSBOTerm, InvalidRuleSBOTerm,
     InvalidConstraintSBOTerm, InvalidReactionSBOTerm, InvalidSpeciesReferenceSBOTerm,
     InvalidKineticLawSBOTerm, InvalidEventSBOTerm, InvalidEventAssignmentSBOTerm,
     InvalidCompartmentSBOTerm, InvalidSpeciesSBOTerm, InvalidCompartmentTypeSBOTerm,
     InvalidSpeciesTypeSBOTerm, InvalidTriggerSBOTerm, InvalidDelaySBOTerm,
     NotesNotInXHTMLNamespace, NotesContainsXMLDecl, NotesContainsDOCTYPE,
     InvalidNotesContent, OnlyOneNotesElementAllowed, InvalidNamespaceOnSed,
     MissingOrInconsistentLevel, MissingOrInconsistentVersion, PackageNSMustMatch,
     LevelPositiveInteger, VersionPositiveInteger, AllowedAttributesOnSed,
     L3PackageOnLowerSed, MissingModel, IncorrectOrderInModel, EmptyListElement,
     NeedCompartmentIfHaveSpecies, OneOfEachListOf, OnlyFuncDefsInListOfFuncDefs,
     OnlyUnitDefsInListOfUnitDefs, OnlyCompartmentsInListOfCompartments,
     OnlySpeciesInListOfSpecies, OnlyParametersInListOfParameters,
     OnlyInitAssignsInListOfInitAssigns, OnlyRulesInListOfRules,
     OnlyConstraintsInListOfConstraints, OnlyReactionsInListOfReactions,
     OnlyEventsInListOfEvents, L3ConversionFactorOnModel, L3TimeUnitsOnModel,
     L3VolumeUnitsOnModel, L3AreaUnitsOnModel, L3LengthUnitsOnModel, L3ExtentUnitsOnModel,
     AllowedAttributesOnModel, AllowedAttributesOnListOfFuncs,
     AllowedAttributesOnListOfUnitDefs, AllowedAttributesOnListOfComps,
     AllowedAttributesOnListOfSpecies, AllowedAttributesOnListOfParams,
     AllowedAttributesOnListOfInitAssign, AllowedAttributesOnListOfRules,
     AllowedAttributesOnListOfConstraints, AllowedAttributesOnListOfReactions,
     AllowedAttributesOnListOfEvents, FunctionDefMathNotLambda, InvalidApplyCiInLambda,
     RecursiveFunctionDefinition, InvalidCiInLambda, InvalidFunctionDefReturnType,
     OneMathElementPerFunc, AllowedAttributesOnFunc, InvalidUnitDefId,
     InvalidSubstanceRedefinition, InvalidLengthRedefinition, InvalidAreaRedefinition,
     InvalidTimeRedefinition, InvalidVolumeRedefinition, VolumeLitreDefExponentNotOne,
     VolumeMetreDefExponentNot3, EmptyListOfUnits, InvalidUnitKind, OffsetNoLongerValid,
     CelsiusNoLongerValid, EmptyUnitListElement, OneListOfUnitsPerUnitDef,
     OnlyUnitsInListOfUnits, AllowedAttributesOnUnitDefinition,
     AllowedAttributesOnListOfUnits, AllowedAttributesOnUnit, ZeroDimensionalCompartmentSize,
     ZeroDimensionalCompartmentUnits, ZeroDimensionalCompartmentConst,
     UndefinedOutsideCompartment, RecursiveCompartmentContainment,
     ZeroDCompartmentContainment, Invalid1DCompartmentUnits, Invalid2DCompartmentUnits,
     Invalid3DCompartmentUnits, InvalidCompartmentTypeRef, OneDimensionalCompartmentUnits,
     TwoDimensionalCompartmentUnits, ThreeDimensionalCompartmentUnits,
     AllowedAttributesOnCompartment, NoUnitsOnCompartment, InvalidSpeciesCompartmentRef,
     HasOnlySubsNoSpatialUnits, NoSpatialUnitsInZeroD, NoConcentrationInZeroD,
     SpatialUnitsInOneD, SpatialUnitsInTwoD, SpatialUnitsInThreeD,
     InvalidSpeciesSusbstanceUnits, BothAmountAndConcentrationSet,
     NonBoundarySpeciesAssignedAndUsed, NonConstantSpeciesUsed, InvalidSpeciesTypeRef,
     MultSpeciesSameTypeInCompartment, MissingSpeciesCompartment, SpatialSizeUnitsRemoved,
     SubstanceUnitsOnSpecies, ConversionFactorOnSpecies, AllowedAttributesOnSpecies,
     InvalidParameterUnits, ParameterUnits, ConversionFactorMustConstant,
     AllowedAttributesOnParameter, InvalidInitAssignSymbol, MultipleInitAssignments,
     InitAssignmentAndRuleForSameId, OneMathElementPerInitialAssign,
     AllowedAttributesOnInitialAssign, InvalidAssignRuleVariable, InvalidRateRuleVariable,
     AssignmentToConstantEntity, RateRuleForConstantEntity, RepeatedRule10304,
     CircularRuleDependency, OneMathElementPerRule, AllowedAttributesOnAssignRule,
     AllowedAttributesOnRateRule, AllowedAttributesOnAlgRule, ConstraintMathNotBoolean,
     IncorrectOrderInConstraint, ConstraintNotInXHTMLNamespace, ConstraintContainsXMLDecl,
     ConstraintContainsDOCTYPE, InvalidConstraintContent, OneMathElementPerConstraint,
     OneMessageElementPerConstraint, AllowedAttributesOnConstraint, NoReactantsOrProducts,
     IncorrectOrderInReaction, EmptyListInReaction, InvalidReactantsProductsList,
     InvalidModifiersList, OneSubElementPerReaction, CompartmentOnReaction,
     AllowedAttributesOnReaction, InvalidSpeciesReference, RepeatedRule20611,
     BothStoichiometryAndMath, AllowedAttributesOnSpeciesReference,
     AllowedAttributesOnModifier, UndeclaredSpeciesRef, IncorrectOrderInKineticLaw,
     EmptyListInKineticLaw, NonConstantLocalParameter, SubsUnitsNoLongerValid,
     TimeUnitsNoLongerValid, OneListOfPerKineticLaw, OnlyLocalParamsInListOfLocalParams,
     AllowedAttributesOnListOfLocalParam, OneMathPerKineticLaw, UndeclaredSpeciesInStoichMath,
     AllowedAttributesOnKineticLaw, AllowedAttributesOnListOfSpeciesRef,
     AllowedAttributesOnListOfMods, AllowedAttributesOnLocalParameter, MissingTriggerInEvent,
     TriggerMathNotBoolean, MissingEventAssignment, TimeUnitsEvent, IncorrectOrderInEvent,
     ValuesFromTriggerTimeNeedDelay, DelayNeedsValuesFromTriggerTime, OneMathPerTrigger,
     OneMathPerDelay, InvalidEventAssignmentVariable, EventAssignmentForConstantEntity,
     OneMathPerEventAssignment, AllowedAttributesOnEventAssignment, OnlyOneDelayPerEvent,
     OneListOfEventAssignmentsPerEvent, OnlyEventAssignInListOfEventAssign,
     AllowedAttributesOnListOfEventAssign, AllowedAttributesOnEvent,
     AllowedAttributesOnTrigger, AllowedAttributesOnDelay, PersistentNotBoolean,
     InitialValueNotBoolean, OnlyOnePriorityPerEvent, OneMathPerPriority,
     AllowedAttributesOnPriority, GeneralWarningNotSpecified, CompartmentShouldHaveSize,
     SpeciesShouldHaveValue, ParameterShouldHaveUnits, LocalParameterShadowsId,
     LibSedAdditionalCodesLowerBound, CannotConvertToL1V1, NoEventsInL1,
     NoFunctionDefinitionsInL1, NoConstraintsInL1, NoInitialAssignmentsInL1,
     NoSpeciesTypesInL1, NoCompartmentTypeInL1, NoNon3DCompartmentsInL1,
     NoFancyStoichiometryMathInL1, NoNonIntegerStoichiometryInL1,
     NoUnitMultipliersOrOffsetsInL1, SpeciesCompartmentRequiredInL1,
     NoSpeciesSpatialSizeUnitsInL1, NoSBOTermsInL1, StrictUnitsRequiredInL1,
     ConversionFactorNotInL1, CompartmentNotOnL1Reaction, ExtentUnitsNotSubstance,
     GlobalUnitsNotDeclared, HasOnlySubstanceUnitsNotinL1, AvogadroNotSupported,
     NoConstraintsInL2v1, NoInitialAssignmentsInL2v1, NoSpeciesTypeInL2v1,
     NoCompartmentTypeInL2v1, NoSBOTermsInL2v1, NoIdOnSpeciesReferenceInL2v1,
     NoDelayedEventAssignmentInL2v1, StrictUnitsRequiredInL2v1, IntegerSpatialDimensions,
     StoichiometryMathNotYetSupported, PriorityLostFromL3, NonPersistentNotSupported,
     InitialValueFalseEventNotSupported, SBOTermNotUniversalInL2v2, NoUnitOffsetInL2v2,
     NoKineticLawTimeUnitsInL2v2, NoKineticLawSubstanceUnitsInL2v2,
     NoDelayedEventAssignmentInL2v2, ModelSBOBranchChangedBeyondL2v2,
     StrictUnitsRequiredInL2v2, StrictSBORequiredInL2v2, DuplicateAnnotationInvalidInL2v2,
     NoUnitOffsetInL2v3, NoKineticLawTimeUnitsInL2v3, NoKineticLawSubstanceUnitsInL2v3,
     NoSpeciesSpatialSizeUnitsInL2v3, NoEventTimeUnitsInL2v3, NoDelayedEventAssignmentInL2v3,
     ModelSBOBranchChangedBeyondL2v3, StrictUnitsRequiredInL2v3, StrictSBORequiredInL2v3,
     DuplicateAnnotationInvalidInL2v3, NoUnitOffsetInL2v4, NoKineticLawTimeUnitsInL2v4,
     NoKineticLawSubstanceUnitsInL2v4, NoSpeciesSpatialSizeUnitsInL2v4,
     NoEventTimeUnitsInL2v4, ModelSBOBranchChangedInL2v4, DuplicateAnnotationInvalidInL2v4,
     NoSpeciesTypeInL3v1, NoCompartmentTypeInL3v1, NoUnitOffsetInL3v1,
     NoKineticLawTimeUnitsInL3v1, NoKineticLawSubstanceUnitsInL3v1,
     NoSpeciesSpatialSizeUnitsInL3v1, NoEventTimeUnitsInL3v1, ModelSBOBranchChangedInL3v1,
     DuplicateAnnotationInvalidInL3v1, NoCompartmentOutsideInL3v1, NoStoichiometryMathInL3v1,
     InvalidSedLevelVersion, AnnotationNotesNotAllowedLevel1, InvalidRuleOrdering,
     RequiredPackagePresent, UnrequiredPackagePresent, PackageRequiredShouldBeFalse,
     SubsUnitsAllowedInKL, TimeUnitsAllowedInKL, FormulaInLevel1KL, L3SubstanceUnitsOnModel,
     TimeUnitsRemoved, BadMathML, FailedMathMLReadOfDouble, FailedMathMLReadOfInteger,
     FailedMathMLReadOfExponential, FailedMathMLReadOfRational, BadMathMLNodeType,
     NoTimeSymbolInFunctionDef, NoBodyInFunctionDef, DanglingUnitSIdRef, RDFMissingAboutTag,
     RDFEmptyAboutTag, RDFAboutTagNotMetaid, RDFNotCompleteModelHistory, RDFNotModelHistory,
     AnnotationNotElement, InconsistentArgUnitsWarnings, InconsistentPowerUnitsWarnings,
     InconsistentExponUnitsWarnings, UndeclaredUnits, UndeclaredTimeUnitsL3,
     UndeclaredExtentUnitsL3, UndeclaredObjectUnitsL3, UnrecognisedSBOTerm, ObseleteSBOTerm,
     IncorrectCompartmentSpatialDimensions, CompartmentTypeNotValidAttribute,
     ConstantNotValidAttribute, MetaIdNotValidAttribute, SBOTermNotValidAttributeBeforeL2V3,
     InvalidL1CompartmentUnits, L1V1CompartmentVolumeReqd, CompartmentTypeNotValidComponent,
     ConstraintNotValidComponent, EventNotValidComponent, SBOTermNotValidAttributeBeforeL2V2,
     FuncDefNotValidComponent, InitialAssignNotValidComponent, VariableNotValidAttribute,
     UnitsNotValidAttribute, ConstantSpeciesNotValidAttribute,
     SpatialSizeUnitsNotValidAttribute, SpeciesTypeNotValidAttribute,
     HasOnlySubsUnitsNotValidAttribute, IdNotValidAttribute, NameNotValidAttribute,
     SpeciesTypeNotValidComponent, StoichiometryMathNotValidComponent,
     MultiplierNotValidAttribute, OffsetNotValidAttribute, L3SpatialDimensionsUnset,
     UnknownCoreAttribute, UnknownPackageAttribute, PackageConversionNotSupported,
     InvalidTargetLevelVersion, L3NotSupported, SedCodesUpperBound]"

text \<open>The header's comment on the enumeration: the codes of the XML layer are below
  9999.\<close>

definition XML_layer_bound :: int where
  "XML_layer_bound = 9999"

text \<open>The enumerators declared before \<open>LibSedAdditionalCodesLowerBound\<close>, and those from
  it on.\<close>

definition schema_layer_codes :: "int list" where
  "schema_layer_codes = takeWhile (\<lambda>c. c \<noteq> LibSedAdditionalCodesLowerBound) SedErrorCode_t"

definition library_codes :: "int list" where
  "library_codes = dropWhile (\<lambda>c. c \<noteq> LibSedAdditionalCodesLowerBound) SedErrorCode_t"

section \<open>Observations used in the statements\<close>

text \<open>
  The children a collection holds, read through its pointers, in order; \<open>None\<close> when
  some pointer does not point to a child element.
\<close>

fun read_items :: "heap \<Rightarrow> addr list \<Rightarrow> SedChild list option" where
  "read_items h [] = Some []"
| "read_items h (a # as) =
     (case heap_lookup h a of
        Some (Child e) \<Rightarrow>
          (case read_items h as of
             None \<Rightarrow> None
           | Some es \<Rightarrow> Some (e # es))
      | _ \<Rightarrow> None)"

text \<open>The expression a pointer stands for: absent for NULL, the tree in the cell
  otherwise; \<open>None\<close> when the pointer does not point to a tree.\<close>

definition read_math :: "heap \<Rightarrow> addr option \<Rightarrow> ASTNode option option" where
  "read_math h p =
     (case p of
        None \<Rightarrow> Some None
      | Some m \<Rightarrow>
          (case heap_lookup h m of
             Some (Math t) \<Rightarrow> Some (Some t)
           | _ \<Rightarrow> None))"

text \<open>
  The structure of an element: its superclass part, the children of each collection in
  order, and its expression. An element is well-formed when it has a structure, that is,
  when all its pointers point to live objects of the right kind.
\<close>

definition SedComputeChange_structure ::
  "heap \<Rightarrow> addr \<Rightarrow> (SedBase \<times> SedChild list \<times> SedChild list \<times> ASTNode option) option" where
  "SedComputeChange_structure h a =
     (case heap_lookup h a of
        Some (ComputeChange c) \<Rightarrow>
          (case read_items h (mItems (mVariable c)) of
             None \<Rightarrow> None
           | Some vs \<Rightarrow>
               (case read_items h (mItems (mParameter c)) of
                  None \<Rightarrow> None
                | Some ps \<Rightarrow>
                    (case read_math h (mMath c) of
                       None \<Rightarrow> None
                     | Some m \<Rightarrow> Some (SedChange_part c, vs, ps, m))))
      | _ \<Rightarrow> None)"

definition SedPlot2D_structure :: "heap \<Rightarrow> addr \<Rightarrow> (SedBase \<times> SedChild list) option" where
  "SedPlot2D_structure h a =
     (case heap_lookup h a of
        Some (Plot2D p) \<Rightarrow>
          (case read_items h (mItems (mCurve p)) of
             None \<Rightarrow> None
           | Some cs \<Rightarrow> Some (SedOutput_part p, cs))
      | _ \<Rightarrow> None)"

text \<open>The cells an element owns: the elements of its collections and its expression.\<close>

definition owned :: "heap \<Rightarrow> addr \<Rightarrow> addr list" where
  "owned h a =
     (case heap_lookup h a of
        Some (ComputeChange c) \<Rightarrow>
          mItems (mVariable c) @ mItems (mParameter c) @
          (case mMath c of None \<Rightarrow> [] | Some m \<Rightarrow> [m])
      | Some (Plot2D p) \<Rightarrow> mItems (mCurve p)
      | _ \<Rightarrow> [])"

text \<open>
  What it means that the element at \<open>tgt\<close> in the store \<open>h'\<close> is a deep copy of the
  element at \<open>src\<close> in the store \<open>h\<close>: the source is well-formed and is still what it
  was, the target has the same structure, and every cell the target owns was not in use
  in \<open>h\<close>, so it is a copy made since, shared with nothing that existed.
\<close>

definition SedComputeChange_deep_copied :: "heap \<Rightarrow> addr \<Rightarrow> heap \<Rightarrow> addr \<Rightarrow> bool" where
  "SedComputeChange_deep_copied h src h' tgt =
     (SedComputeChange_structure h src \<noteq> None
      \<and> SedComputeChange_structure h' src = SedComputeChange_structure h src
      \<and> SedComputeChange_structure h' tgt = SedComputeChange_structure h src
      \<and> list_all (\<lambda>a. heap_lookup h a = None) (owned h' tgt))"

definition SedPlot2D_deep_copied :: "heap \<Rightarrow> addr \<Rightarrow> heap \<Rightarrow> addr \<Rightarrow> bool" where
  "SedPlot2D_deep_copied h src h' tgt =
     (SedPlot2D_structure h src \<noteq> None
      \<and> SedPlot2D_structure h' src = SedPlot2D_structure h src
      \<and> SedPlot2D_structure h' tgt = SedPlot2D_structure h src
      \<and> list_all (\<lambda>a. heap_lookup h a = None) (owned h' tgt))"

text \<open>The parent-link invariant of an element: each of its collections has the element
  itself as its parent.\<close>

definition parent_links_ok :: "heap \<Rightarrow> addr \<Rightarrow> bool" where
  "parent_links_ok h a =
     (case heap_lookup h a of
        Some (ComputeChange c) \<Rightarrow>
          mParentSedObject (mVariable c) = Some a \<and> mParentSedObject (mParameter c) = Some a
      | Some (Plot2D p) \<Rightarrow> mParentSedObject (mCurve p) = Some a
      | _ \<Rightarrow> False)"

section \<open>An example store\<close>

text \<open>
  Example values for the constants, an example well-formedness test, and a store with a
  SedComputeChange (one variable, one parameter, an expression), a SedPlot2D (one curve)
  and two expression trees of the caller, the second one not well-formed under the
  example test.
\<close>

definition example_constants :: constants where
  "example_constants =
     \<lparr>LIBSEDML_OPERATION_SUCCESS = 0, LIBSEDML_INVALID_ATTRIBUTE_VALUE = - 4,
      LIBSEDML_INVALID_OBJECT = - 5, LIBSBML_INVALID_OBJECT = - 5,
      SEDML_INT_MAX = 2147483647\<rparr>"

fun example_isWellFormed :: "ASTNode \<Rightarrow> bool" where
  "example_isWellFormed (ASTNode name args) =
     (if name = ''divide'' then length args = 2 else True)"

definition example_base :: SedBase where
  "example_base =
     \<lparr>mSedNamespaces = \<lparr>mLevel = 1, mVersion = 1, mNamespaces = ''http://sed-ml.org/''\<rparr>,
      mURI = ''http://sed-ml.org/''\<rparr>"

definition example_variable :: SedChild where
  "example_variable = \<lparr>childClass = SedVariable, mId = ''x'', mName = ''level''\<rparr>"

definition example_parameter :: SedChild where
  "example_parameter = \<lparr>childClass = SedParameter, mId = ''k'', mName = ''rate''\<rparr>"

definition example_curve :: SedChild where
  "example_curve = \<lparr>childClass = SedCurve, mId = ''c1'', mName = ''first''\<rparr>"

definition example_math :: ASTNode where
  "example_math = ASTNode ''times'' [ASTNode ''x'' [], ASTNode ''k'' []]"

definition example_bad_math :: ASTNode where
  "example_bad_math = ASTNode ''divide'' [ASTNode ''x'' []]"

definition example_change :: SedComputeChange where
  "example_change =
     \<lparr>SedChange_part = example_base,
      mVariable = \<lparr>mItems = [1], mParentSedObject = Some 0\<rparr>,
      mParameter = \<lparr>mItems = [2], mParentSedObject = Some 0\<rparr>,
      mMath = Some 3\<rparr>"

definition example_plot :: SedPlot2D where
  "example_plot =
     \<lparr>SedOutput_part = example_base,
      mCurve = \<lparr>mItems = [5], mParentSedObject = Some 4\<rparr>\<rparr>"

definition example_heap :: heap where
  "example_heap =
     [Some (ComputeChange example_change), Some (Child example_variable),
      Some (Child example_parameter), Some (Math example_math),
      Some (Plot2D example_plot), Some (Child example_curve),
      Some (Math example_math), Some (Math example_bad_math)]"

text \<open>Example stand-ins for the toolkit's \<open>readMathML\<close> (it consumes one token and
  yields the example tree) and for the superclass's \<open>readOtherXML\<close> (it recognizes and
  consumes an \<open>annotation\<close> token).\<close>

definition example_readMathML :: "XMLToken list \<Rightarrow> string \<Rightarrow> ASTNode option \<times> XMLToken list" where
  "example_readMathML stream prefix = (Some example_math, drop 1 stream)"

definition example_super_readOtherXML ::
  "SedBase \<Rightarrow> XMLToken list \<Rightarrow> bool \<times> SedBase \<times> XMLToken list" where
  "example_super_readOtherXML b stream =
     (if tokenName (peek stream) = ''annotation'' then (True, b, drop 1 stream)
      else (False, b, stream))"

definition example_stream :: "XMLToken list" where
  "example_stream =
     [\<lparr>tokenName = ''math'', tokenPrefix = []\<rparr>, \<lparr>tokenName = ''annotation'', tokenPrefix = []\<rparr>]"

text \<open>The example store with two more objects: a SedComputeChange and a SedPlot2D
  without children, as their constructors leave them.\<close>

definition example_empty_change :: SedComputeChange where
  "example_empty_change =
     \<lparr>SedChange_part = example_base,
      mVariable = \<lparr>mItems = [], mParentSedObject = Some 8\<rparr>,
      mParameter = \<lparr>mItems = [], mParentSedObject = Some 8\<rparr>,
      mMath = None\<rparr>"

definition example_empty_plot :: SedPlot2D where
  "example_empty_plot =
     \<lparr>SedOutput_part = example_base,
      mCurve = \<lparr>mItems = [], mParentSedObject = Some 9\<rparr>\<rparr>"

definition example_heap2 :: heap where
  "example_heap2 =
     example_heap @ [Some (ComputeChange example_empty_change), Some (Plot2D example_empty_plot)]"




section \<open>The stores that arise\<close>


text \<open>
  The parent links of one cell and of a whole store: every cell that holds a
  SedComputeChange or a SedPlot2D has collections whose parent is the address of the
  cell. \<open>links_except\<close> leaves one address out: while an object is being built or
  assigned to, its own links are not yet set.
\<close>

definition cell_ok :: "addr \<Rightarrow> obj option \<Rightarrow> bool" where
  "cell_ok a x =
     (case x of
        Some (ComputeChange c) \<Rightarrow>
          mParentSedObject (mVariable c) = Some a \<and> mParentSedObject (mParameter c) = Some a
      | Some (Plot2D p) \<Rightarrow> mParentSedObject (mCurve p) = Some a
      | _ \<Rightarrow> True)"


definition links_except :: "addr \<Rightarrow> heap \<Rightarrow> bool" where
  "links_except b h = (\<forall>a. a \<noteq> b \<longrightarrow> cell_ok a (heap_lookup h a))"



section \<open>The error codes lie in their bands\<close>

lemma codes_in_range: "list_all (\<lambda>c. 10000 \<le> c \<and> c \<le> 99999) SedErrorCode_t"
  by (simp add: SedErrorCode_t_def SedErrorCode_defs)

lemma codes_above_XML_layer: "list_all (\<lambda>c. XML_layer_bound < c) SedErrorCode_t"
  by (simp add: SedErrorCode_t_def SedErrorCode_defs XML_layer_bound_def)

lemma codes_first: "hd SedErrorCode_t = UnknownError"
  by (simp add: SedErrorCode_t_def)

lemma codes_last: "last SedErrorCode_t = SedCodesUpperBound"
  by (simp add: SedErrorCode_t_def)

lemma codes_between_first_and_last:
  "list_all (\<lambda>c. UnknownError \<le> c \<and> c \<le> SedCodesUpperBound) SedErrorCode_t"
  by (simp add: SedErrorCode_t_def SedErrorCode_defs)

lemma schema_codes_below: "list_all (\<lambda>c. c < 90000) schema_layer_codes"
  by (simp add: schema_layer_codes_def SedErrorCode_t_def SedErrorCode_defs)

lemma library_codes_above: "list_all (\<lambda>c. 90000 \<le> c) library_codes"
  by (simp add: library_codes_def SedErrorCode_t_def SedErrorCode_defs)

lemma library_codes_first: "hd library_codes = LibSedAdditionalCodesLowerBound"
  by (simp add: library_codes_def SedErrorCode_t_def SedErrorCode_defs)

lemma codes_split: "SedErrorCode_t = schema_layer_codes @ library_codes"
  by (simp add: schema_layer_codes_def library_codes_def)

text \<open>
  C9. Every enumerator of \<open>SedErrorCode_t\<close> is above the codes of the XML layer and
  between 10000 and 99999; \<open>UnknownError\<close> = 10000 is the first and the least of them,
  \<open>SedCodesUpperBound\<close> = 99999 the last and the greatest. The enumeration is cut in two
  at \<open>LibSedAdditionalCodesLowerBound\<close> = 90000: the 272 enumerators declared before it
  (the schema layer) are below 90000, and it and the 138 declared after it (the library's
  own) are at or above 90000.
\<close>

theorem SedErrorCode_t_bands:
  "list_all (\<lambda>c. 10000 \<le> c \<and> c \<le> 99999) SedErrorCode_t
   \<and> list_all (\<lambda>c. XML_layer_bound < c) SedErrorCode_t
   \<and> UnknownError = 10000 \<and> hd SedErrorCode_t = UnknownError
   \<and> SedCodesUpperBound = 99999 \<and> last SedErrorCode_t = SedCodesUpperBound
   \<and> list_all (\<lambda>c. UnknownError \<le> c \<and> c \<le> SedCodesUpperBound) SedErrorCode_t
   \<and> LibSedAdditionalCodesLowerBound = 90000
   \<and> SedErrorCode_t = schema_layer_codes @ library_codes
   \<and> hd library_codes = LibSedAdditionalCodesLowerBound
   \<and> list_all (\<lambda>c. c < 90000) schema_layer_codes
   \<and> list_all (\<lambda>c. 90000 \<le> c) library_codes"
  using codes_in_range codes_above_XML_layer codes_first codes_last
    codes_between_first_and_last schema_codes_below library_codes_above
    library_codes_first codes_split
  by (simp only: UnknownError_def SedCodesUpperBound_def
        LibSedAdditionalCodesLowerBound_def simp_thms)

section \<open>The C functions on a null handle\<close>

lemma SedComputeChange_math_C_null:
  "SedComputeChange_getMath_C h None = Returns None
   \<and> SedComputeChange_isSetMath_C h None = Returns 0
   \<and> SedComputeChange_setMath_C isWF K h None math = (Returns (LIBSEDML_INVALID_OBJECT K), h)
   \<and> SedComputeChange_unsetMath_C K h None = (Returns (LIBSEDML_INVALID_OBJECT K), h)"
  by (simp add: SedComputeChange_getMath_C_def SedComputeChange_isSetMath_C_def
        SedComputeChange_setMath_C_def SedComputeChange_unsetMath_C_def)

lemma SedComputeChange_variable_C_null:
  "SedComputeChange_addVariable_C K h None sv = (Returns (LIBSBML_INVALID_OBJECT K), h)
   \<and> SedComputeChange_createVariable_C h None = (Returns None, h)
   \<and> SedComputeChange_getSedListOfVariables None = None
   \<and> SedComputeChange_getVariable_C h None n = Returns None
   \<and> SedComputeChange_getVariableById h None sid = Returns None
   \<and> SedComputeChange_getNumVariables_C K h None = Returns (SEDML_INT_MAX K)
   \<and> SedComputeChange_removeVariable_C h None n = (Returns None, h)
   \<and> SedComputeChange_removeVariableById h None sid = (Returns None, h)"
  by (simp add: SedComputeChange_addVariable_C_def SedComputeChange_createVariable_C_def
        SedComputeChange_getSedListOfVariables_def SedComputeChange_getVariable_C_def
        SedComputeChange_getVariableById_def SedComputeChange_getNumVariables_C_def
        SedComputeChange_removeVariable_C_def SedComputeChange_removeVariableById_def)

lemma SedComputeChange_parameter_C_null:
  "SedComputeChange_addParameter_C K h None sp = (Returns (LIBSBML_INVALID_OBJECT K), h)
   \<and> SedComputeChange_createParameter_C h None = (Returns None, h)
   \<and> SedComputeChange_getSedListOfParameters None = None
   \<and> SedComputeChange_getParameter_C h None n = Returns None
   \<and> SedComputeChange_getParameterById h None sid = Returns None
   \<and> SedComputeChange_getNumParameters_C K h None = Returns (SEDML_INT_MAX K)
   \<and> SedComputeChange_removeParameter_C h None n = (Returns None, h)
   \<and> SedComputeChange_removeParameterById h None sid = (Returns None, h)"
  by (simp add: SedComputeChange_addParameter_C_def SedComputeChange_createParameter_C_def
        SedComputeChange_getSedListOfParameters_def SedComputeChange_getParameter_C_def
        SedComputeChange_getParameterById_def SedComputeChange_getNumParameters_C_def
        SedComputeChange_removeParameter_C_def SedComputeChange_removeParameterById_def)

lemma SedComputeChange_other_C_null:
  "SedComputeChange_free h None = (Returns (), h)
   \<and> SedComputeChange_clone_C h None = (Returns None, h)
   \<and> SedComputeChange_hasRequiredAttributes_C ra h None = Returns 0
   \<and> SedComputeChange_hasRequiredElements_C re h None = Returns 0"
  by (simp add: SedComputeChange_free_def SedComputeChange_clone_C_def
        SedComputeChange_hasRequiredAttributes_C_def SedComputeChange_hasRequiredElements_C_def)

lemma SedPlot2D_C_null:
  "SedPlot2D_free h None = (Returns (), h)
   \<and> SedPlot2D_clone_C h None = (Returns None, h)
   \<and> SedPlot2D_addCurve_C K h None sc = (Returns (LIBSBML_INVALID_OBJECT K), h)
   \<and> SedPlot2D_createCurve_C h None = (Returns None, h)
   \<and> SedPlot2D_getSedListOfCurves None = None
   \<and> SedPlot2D_getCurve_C h None n = Returns None
   \<and> SedPlot2D_getCurveById h None sid = Returns None
   \<and> SedPlot2D_getNumCurves_C K h None = Returns (SEDML_INT_MAX K)
   \<and> SedPlot2D_removeCurve_C h None n = (Returns None, h)
   \<and> SedPlot2D_removeCurveById h None sid = (Returns None, h)
   \<and> SedPlot2D_hasRequiredAttributes_C ra h None = Returns 0
   \<and> SedPlot2D_hasRequiredElements_C re h None = Returns 0"
  by (simp add: SedPlot2D_free_def SedPlot2D_clone_C_def SedPlot2D_addCurve_C_def
        SedPlot2D_createCurve_C_def SedPlot2D_getSedListOfCurves_def SedPlot2D_getCurve_C_def
        SedPlot2D_getCurveById_def SedPlot2D_getNumCurves_C_def SedPlot2D_removeCurve_C_def
        SedPlot2D_removeCurveById_def SedPlot2D_hasRequiredAttributes_C_def
        SedPlot2D_hasRequiredElements_C_def)

text \<open>
  C5. Every C function of SedComputeChange and SedPlot2D that takes a handle, called with
  a null handle, returns a value and leaves the store as it is; none throws. The count
  accessors return \<open>SEDML_INT_MAX\<close>; the functions with a result code return an
  invalid-object code (\<open>LIBSEDML_INVALID_OBJECT\<close> for \<open>setMath\<close> and \<open>unsetMath\<close>, the
  toolkit's \<open>LIBSBML_INVALID_OBJECT\<close> for the three \<open>add\<close> functions); the functions
  that return a pointer return NULL; the predicates return 0; \<open>free\<close> does nothing.
\<close>

theorem C_functions_null_handle:
  "SedComputeChange_getNumVariables_C K h None = Returns (SEDML_INT_MAX K)
   \<and> SedComputeChange_getNumParameters_C K h None = Returns (SEDML_INT_MAX K)
   \<and> SedPlot2D_getNumCurves_C K h None = Returns (SEDML_INT_MAX K)
   \<and> SedComputeChange_setMath_C isWF K h None math = (Returns (LIBSEDML_INVALID_OBJECT K), h)
   \<and> SedComputeChange_unsetMath_C K h None = (Returns (LIBSEDML_INVALID_OBJECT K), h)
   \<and> SedComputeChange_addVariable_C K h None sv = (Returns (LIBSBML_INVALID_OBJECT K), h)
   \<and> SedComputeChange_addParameter_C K h None sp = (Returns (LIBSBML_INVALID_OBJECT K), h)
   \<and> SedPlot2D_addCurve_C K h None sc = (Returns (LIBSBML_INVALID_OBJECT K), h)
   \<and> SedComputeChange_clone_C h None = (Returns None, h)
   \<and> SedComputeChange_getMath_C h None = Returns None
   \<and> SedComputeChange_createVariable_C h None = (Returns None, h)
   \<and> SedComputeChange_getSedListOfVariables None = None
   \<and> SedComputeChange_getVariable_C h None n = Returns None
   \<and> SedComputeChange_getVariableById h None sid = Returns None
   \<and> SedComputeChange_removeVariable_C h None n = (Returns None, h)
   \<and> SedComputeChange_removeVariableById h None sid = (Returns None, h)
   \<and> SedComputeChange_createParameter_C h None = (Returns None, h)
   \<and> SedComputeChange_getSedListOfParameters None = None
   \<and> SedComputeChange_getParameter_C h None n = Returns None
   \<and> SedComputeChange_getParameterById h None sid = Returns None
   \<and> SedComputeChange_removeParameter_C h None n = (Returns None, h)
   \<and> SedComputeChange_removeParameterById h None sid = (Returns None, h)
   \<and> SedPlot2D_clone_C h None = (Returns None, h)
   \<and> SedPlot2D_createCurve_C h None = (Returns None, h)
   \<and> SedPlot2D_getSedListOfCurves None = None
   \<and> SedPlot2D_getCurve_C h None n = Returns None
   \<and> SedPlot2D_getCurveById h None sid = Returns None
   \<and> SedPlot2D_removeCurve_C h None n = (Returns None, h)
   \<and> SedPlot2D_removeCurveById h None sid = (Returns None, h)
   \<and> SedComputeChange_isSetMath_C h None = Returns 0
   \<and> SedComputeChange_hasRequiredAttributes_C ra h None = Returns 0
   \<and> SedComputeChange_hasRequiredElements_C re h None = Returns 0
   \<and> SedPlot2D_hasRequiredAttributes_C ra' h None = Returns 0
   \<and> SedPlot2D_hasRequiredElements_C re' h None = Returns 0
   \<and> SedComputeChange_free h None = (Returns (), h)
   \<and> SedPlot2D_free h None = (Returns (), h)"
  using SedComputeChange_math_C_null [of h isWF K math]
    SedComputeChange_variable_C_null [of K h sv n sid]
    SedComputeChange_parameter_C_null [of K h sp n sid]
    SedComputeChange_other_C_null [of h ra re]
    SedPlot2D_C_null [of h K sc n sid ra' re']
  by (simp only: simp_thms)

section \<open>Facts about the store\<close>

lemma heap_lookup_lt: "heap_lookup h a = Some v \<Longrightarrow> a < length h"
  by (simp add: heap_lookup_def split: if_splits)

lemma heap_lookup_append: "a < length h \<Longrightarrow> heap_lookup (h @ xs) a = heap_lookup h a"
  by (simp add: heap_lookup_def nth_append)

lemma heap_lookup_append_Some:
  "heap_lookup h a = Some v \<Longrightarrow> heap_lookup (h @ xs) a = Some v"
  by (simp add: heap_lookup_def nth_append split: if_splits)

lemma heap_lookup_new: "heap_lookup (h @ [x]) (length h) = x"
  by (simp add: heap_lookup_def)

lemma heap_lookup_store_same: "a < length h \<Longrightarrow> heap_lookup (heap_store h a v) a = Some v"
  by (simp add: heap_lookup_def heap_store_def)

lemma heap_lookup_store_other: "a \<noteq> b \<Longrightarrow> heap_lookup (heap_store h a v) b = heap_lookup h b"
  by (simp add: heap_lookup_def heap_store_def)

lemma heap_lookup_beyond: "length h \<le> a \<Longrightarrow> heap_lookup h a = None"
  by (simp add: heap_lookup_def)

section \<open>Adding and creating children\<close>

lemma addVariable_nonnull:
  assumes "heap_lookup h this = Some (ComputeChange c)" and "heap_lookup h item = Some (Child e)"
  shows "SedComputeChange_addVariable K h this (Some item) =
           (Returns (LIBSEDML_OPERATION_SUCCESS K),
            heap_store (h @ [Some (Child e)]) this
              (ComputeChange (c\<lparr>mVariable := SedListOf_appendAndOwn (mVariable c) (length h)\<rparr>)))"
  using assms
  by (simp add: SedComputeChange_addVariable_def SedListOf_append_def SedChild_clone_def
        heap_alloc_def)

lemma addParameter_nonnull:
  assumes "heap_lookup h this = Some (ComputeChange c)" and "heap_lookup h item = Some (Child e)"
  shows "SedComputeChange_addParameter K h this (Some item) =
           (Returns (LIBSEDML_OPERATION_SUCCESS K),
            heap_store (h @ [Some (Child e)]) this
              (ComputeChange (c\<lparr>mParameter := SedListOf_appendAndOwn (mParameter c) (length h)\<rparr>)))"
  using assms
  by (simp add: SedComputeChange_addParameter_def SedListOf_append_def SedChild_clone_def
        heap_alloc_def)

lemma addCurve_nonnull:
  assumes "heap_lookup h this = Some (Plot2D p)" and "heap_lookup h item = Some (Child e)"
  shows "SedPlot2D_addCurve K h this (Some item) =
           (Returns (LIBSEDML_OPERATION_SUCCESS K),
            heap_store (h @ [Some (Child e)]) this
              (Plot2D (p\<lparr>mCurve := SedListOf_appendAndOwn (mCurve p) (length h)\<rparr>)))"
  using assms
  by (simp add: SedPlot2D_addCurve_def SedListOf_append_def SedChild_clone_def heap_alloc_def)

text \<open>What a store looks like after an element was put at the end of a collection of
  the object at \<open>this\<close>: the new cell holds the element, the object holds the new list,
  every other cell is as before.\<close>

lemma stored_at_end:
  assumes "heap_lookup h this = Some old"
  shows "heap_lookup (heap_store (h @ [Some x]) this new) this = Some new
         \<and> heap_lookup (heap_store (h @ [Some x]) this new) (length h) = Some x
         \<and> heap_lookup h (length h) = None
         \<and> (\<forall>a v. a \<noteq> this \<and> heap_lookup h a = Some v \<longrightarrow>
               heap_lookup (heap_store (h @ [Some x]) this new) a = Some v)"
proof -
  have lt: "this < length h" using assms by (rule heap_lookup_lt)
  then have ne: "this \<noteq> length h" by simp
  show ?thesis
    using lt ne
    by (simp add: heap_lookup_store_same heap_lookup_store_other heap_lookup_new
          heap_lookup_beyond heap_lookup_append_Some)
qed

lemma appendAndOwn_get:
  "SedListOf_size (SedListOf_appendAndOwn l a) = SedListOf_size l + 1
   \<and> SedListOf_get (SedListOf_appendAndOwn l a) (SedListOf_size l) = Some a
   \<and> (\<forall>n. n < SedListOf_size l \<longrightarrow> SedListOf_get (SedListOf_appendAndOwn l a) n = SedListOf_get l n)"
  by (simp add: SedListOf_size_def SedListOf_get_def SedListOf_appendAndOwn_def nth_append)

lemma addVariable_effect:
  assumes t: "heap_lookup h this = Some (ComputeChange c)" and i: "heap_lookup h item = Some (Child e)"
  shows "\<exists>h'. SedComputeChange_addVariable K h this (Some item) =
                 (Returns (LIBSEDML_OPERATION_SUCCESS K), h')
          \<and> SedComputeChange_getNumVariables h this = Returns (SedListOf_size (mVariable c))
          \<and> SedComputeChange_getNumVariables h' this = Returns (SedListOf_size (mVariable c) + 1)
          \<and> SedComputeChange_getVariable h' this (SedListOf_size (mVariable c)) = Returns (Some (length h))
          \<and> heap_lookup h (length h) = None
          \<and> heap_lookup h' (length h) = Some (Child e)
          \<and> heap_lookup h' item = Some (Child e)
          \<and> (\<forall>n. n < SedListOf_size (mVariable c) \<longrightarrow>
                SedComputeChange_getVariable h' this n = SedComputeChange_getVariable h this n)"
proof -
  have ni: "item \<noteq> this" using t i by auto
  show ?thesis
    using addVariable_nonnull [OF t i, of K] t i ni
      stored_at_end [OF t, of "Child e"
        "ComputeChange (c\<lparr>mVariable := SedListOf_appendAndOwn (mVariable c) (length h)\<rparr>)"]
      appendAndOwn_get [of "mVariable c" "length h"]
    by (simp add: SedComputeChange_getNumVariables_def SedComputeChange_getVariable_def)
qed

lemma addParameter_effect:
  assumes t: "heap_lookup h this = Some (ComputeChange c)" and i: "heap_lookup h item = Some (Child e)"
  shows "\<exists>h'. SedComputeChange_addParameter K h this (Some item) =
                 (Returns (LIBSEDML_OPERATION_SUCCESS K), h')
          \<and> SedComputeChange_getNumParameters h this = Returns (SedListOf_size (mParameter c))
          \<and> SedComputeChange_getNumParameters h' this = Returns (SedListOf_size (mParameter c) + 1)
          \<and> SedComputeChange_getParameter h' this (SedListOf_size (mParameter c)) = Returns (Some (length h))
          \<and> heap_lookup h (length h) = None
          \<and> heap_lookup h' (length h) = Some (Child e)
          \<and> heap_lookup h' item = Some (Child e)
          \<and> (\<forall>n. n < SedListOf_size (mParameter c) \<longrightarrow>
                SedComputeChange_getParameter h' this n = SedComputeChange_getParameter h this n)"
proof -
  have ni: "item \<noteq> this" using t i by auto
  show ?thesis
    using addParameter_nonnull [OF t i, of K] t i ni
      stored_at_end [OF t, of "Child e"
        "ComputeChange (c\<lparr>mParameter := SedListOf_appendAndOwn (mParameter c) (length h)\<rparr>)"]
      appendAndOwn_get [of "mParameter c" "length h"]
    by (simp add: SedComputeChange_getNumParameters_def SedComputeChange_getParameter_def)
qed

lemma addCurve_effect:
  assumes t: "heap_lookup h this = Some (Plot2D p)" and i: "heap_lookup h item = Some (Child e)"
  shows "\<exists>h'. SedPlot2D_addCurve K h this (Some item) =
                 (Returns (LIBSEDML_OPERATION_SUCCESS K), h')
          \<and> SedPlot2D_getNumCurves h this = Returns (SedListOf_size (mCurve p))
          \<and> SedPlot2D_getNumCurves h' this = Returns (SedListOf_size (mCurve p) + 1)
          \<and> SedPlot2D_getCurve h' this (SedListOf_size (mCurve p)) = Returns (Some (length h))
          \<and> heap_lookup h (length h) = None
          \<and> heap_lookup h' (length h) = Some (Child e)
          \<and> heap_lookup h' item = Some (Child e)
          \<and> (\<forall>n. n < SedListOf_size (mCurve p) \<longrightarrow>
                SedPlot2D_getCurve h' this n = SedPlot2D_getCurve h this n)"
proof -
  have ni: "item \<noteq> this" using t i by auto
  show ?thesis
    using addCurve_nonnull [OF t i, of K] t i ni
      stored_at_end [OF t, of "Child e"
        "Plot2D (p\<lparr>mCurve := SedListOf_appendAndOwn (mCurve p) (length h)\<rparr>)"]
      appendAndOwn_get [of "mCurve p" "length h"]
    by (simp add: SedPlot2D_getNumCurves_def SedPlot2D_getCurve_def)
qed


lemma createVariable_effect:
  assumes t: "heap_lookup h this = Some (ComputeChange c)"
  shows "\<exists>h'. SedComputeChange_createVariable h this = (Returns (Some (length h)), h')
          \<and> heap_lookup h (length h) = None
          \<and> heap_lookup h' (length h) = Some (Child SedVariable_new)
          \<and> SedComputeChange_getNumVariables h' this = Returns (SedListOf_size (mVariable c) + 1)
          \<and> SedComputeChange_getVariable h' this (SedListOf_size (mVariable c)) = Returns (Some (length h))
          \<and> (\<forall>n. n < SedListOf_size (mVariable c) \<longrightarrow>
                SedComputeChange_getVariable h' this n = SedComputeChange_getVariable h this n)"
proof -
  have c: "SedComputeChange_createVariable h this =
      (Returns (Some (length h)),
       heap_store (h @ [Some (Child SedVariable_new)]) this
         (ComputeChange (c\<lparr>mVariable := SedListOf_appendAndOwn (mVariable c) (length h)\<rparr>)))"
    using t by (simp add: SedComputeChange_createVariable_def heap_alloc_def heap_lookup_append_Some)
  show ?thesis
    using c t
      stored_at_end [OF t, of "Child SedVariable_new"
        "ComputeChange (c\<lparr>mVariable := SedListOf_appendAndOwn (mVariable c) (length h)\<rparr>)"]
      appendAndOwn_get [of "mVariable c" "length h"]
    by (simp add: SedComputeChange_getNumVariables_def SedComputeChange_getVariable_def)
qed

lemma createParameter_effect:
  assumes t: "heap_lookup h this = Some (ComputeChange c)"
  shows "\<exists>h'. SedComputeChange_createParameter h this = (Returns (Some (length h)), h')
          \<and> heap_lookup h (length h) = None
          \<and> heap_lookup h' (length h) = Some (Child SedParameter_new)
          \<and> SedComputeChange_getNumParameters h' this = Returns (SedListOf_size (mParameter c) + 1)
          \<and> SedComputeChange_getParameter h' this (SedListOf_size (mParameter c)) = Returns (Some (length h))
          \<and> (\<forall>n. n < SedListOf_size (mParameter c) \<longrightarrow>
                SedComputeChange_getParameter h' this n = SedComputeChange_getParameter h this n)"
proof -
  have c: "SedComputeChange_createParameter h this =
      (Returns (Some (length h)),
       heap_store (h @ [Some (Child SedParameter_new)]) this
         (ComputeChange (c\<lparr>mParameter := SedListOf_appendAndOwn (mParameter c) (length h)\<rparr>)))"
    using t by (simp add: SedComputeChange_createParameter_def heap_alloc_def heap_lookup_append_Some)
  show ?thesis
    using c t
      stored_at_end [OF t, of "Child SedParameter_new"
        "ComputeChange (c\<lparr>mParameter := SedListOf_appendAndOwn (mParameter c) (length h)\<rparr>)"]
      appendAndOwn_get [of "mParameter c" "length h"]
    by (simp add: SedComputeChange_getNumParameters_def SedComputeChange_getParameter_def)
qed

lemma createCurve_effect:
  assumes t: "heap_lookup h this = Some (Plot2D p)"
  shows "\<exists>h'. SedPlot2D_createCurve h this = (Returns (Some (length h)), h')
          \<and> heap_lookup h (length h) = None
          \<and> heap_lookup h' (length h) = Some (Child SedCurve_new)
          \<and> SedPlot2D_getNumCurves h' this = Returns (SedListOf_size (mCurve p) + 1)
          \<and> SedPlot2D_getCurve h' this (SedListOf_size (mCurve p)) = Returns (Some (length h))
          \<and> (\<forall>n. n < SedListOf_size (mCurve p) \<longrightarrow>
                SedPlot2D_getCurve h' this n = SedPlot2D_getCurve h this n)"
proof -
  have c: "SedPlot2D_createCurve h this =
      (Returns (Some (length h)),
       heap_store (h @ [Some (Child SedCurve_new)]) this
         (Plot2D (p\<lparr>mCurve := SedListOf_appendAndOwn (mCurve p) (length h)\<rparr>)))"
    using t by (simp add: SedPlot2D_createCurve_def heap_alloc_def heap_lookup_append_Some)
  show ?thesis
    using c t
      stored_at_end [OF t, of "Child SedCurve_new"
        "Plot2D (p\<lparr>mCurve := SedListOf_appendAndOwn (mCurve p) (length h)\<rparr>)"]
      appendAndOwn_get [of "mCurve p" "length h"]
    by (simp add: SedPlot2D_getNumCurves_def SedPlot2D_getCurve_def)
qed

text \<open>
  C2. Adding NULL returns \<open>LIBSEDML_INVALID_ATTRIBUTE_VALUE\<close> and changes nothing (so the
  size of the collection is as before). Adding a live element to a live object returns
  \<open>LIBSEDML_OPERATION_SUCCESS\<close>; the size grows by exactly one; the element at the last
  position is a new cell with the contents of the argument, which itself stays as it was;
  the elements at the earlier positions are the same as before. This holds for
  \<open>addVariable\<close> and \<open>addParameter\<close> of SedComputeChange and \<open>addCurve\<close> of SedPlot2D.
\<close>

theorem add_child_contract:
  "SedComputeChange_addVariable K h this None = (Returns (LIBSEDML_INVALID_ATTRIBUTE_VALUE K), h)
   \<and> SedComputeChange_addParameter K h this None = (Returns (LIBSEDML_INVALID_ATTRIBUTE_VALUE K), h)
   \<and> SedPlot2D_addCurve K h this None = (Returns (LIBSEDML_INVALID_ATTRIBUTE_VALUE K), h)
   \<and> (heap_lookup h this = Some (ComputeChange c) \<and> heap_lookup h item = Some (Child e) \<longrightarrow>
        (\<exists>h'. SedComputeChange_addVariable K h this (Some item) =
                 (Returns (LIBSEDML_OPERATION_SUCCESS K), h')
          \<and> SedComputeChange_getNumVariables h this = Returns (SedListOf_size (mVariable c))
          \<and> SedComputeChange_getNumVariables h' this = Returns (SedListOf_size (mVariable c) + 1)
          \<and> SedComputeChange_getVariable h' this (SedListOf_size (mVariable c)) = Returns (Some (length h))
          \<and> heap_lookup h (length h) = None
          \<and> heap_lookup h' (length h) = Some (Child e)
          \<and> heap_lookup h' item = Some (Child e)
          \<and> (\<forall>n. n < SedListOf_size (mVariable c) \<longrightarrow>
                SedComputeChange_getVariable h' this n = SedComputeChange_getVariable h this n)))
   \<and> (heap_lookup h this = Some (ComputeChange c) \<and> heap_lookup h item = Some (Child e) \<longrightarrow>
        (\<exists>h'. SedComputeChange_addParameter K h this (Some item) =
                 (Returns (LIBSEDML_OPERATION_SUCCESS K), h')
          \<and> SedComputeChange_getNumParameters h this = Returns (SedListOf_size (mParameter c))
          \<and> SedComputeChange_getNumParameters h' this = Returns (SedListOf_size (mParameter c) + 1)
          \<and> SedComputeChange_getParameter h' this (SedListOf_size (mParameter c)) = Returns (Some (length h))
          \<and> heap_lookup h (length h) = None
          \<and> heap_lookup h' (length h) = Some (Child e)
          \<and> heap_lookup h' item = Some (Child e)
          \<and> (\<forall>n. n < SedListOf_size (mParameter c) \<longrightarrow>
                SedComputeChange_getParameter h' this n = SedComputeChange_getParameter h this n)))
   \<and> (heap_lookup h this = Some (Plot2D p) \<and> heap_lookup h item = Some (Child e) \<longrightarrow>
        (\<exists>h'. SedPlot2D_addCurve K h this (Some item) =
                 (Returns (LIBSEDML_OPERATION_SUCCESS K), h')
          \<and> SedPlot2D_getNumCurves h this = Returns (SedListOf_size (mCurve p))
          \<and> SedPlot2D_getNumCurves h' this = Returns (SedListOf_size (mCurve p) + 1)
          \<and> SedPlot2D_getCurve h' this (SedListOf_size (mCurve p)) = Returns (Some (length h))
          \<and> heap_lookup h (length h) = None
          \<and> heap_lookup h' (length h) = Some (Child e)
          \<and> heap_lookup h' item = Some (Child e)
          \<and> (\<forall>n. n < SedListOf_size (mCurve p) \<longrightarrow>
                SedPlot2D_getCurve h' this n = SedPlot2D_getCurve h this n)))"
proof -
  have null: "SedComputeChange_addVariable K h this None = (Returns (LIBSEDML_INVALID_ATTRIBUTE_VALUE K), h)"
    "SedComputeChange_addParameter K h this None = (Returns (LIBSEDML_INVALID_ATTRIBUTE_VALUE K), h)"
    "SedPlot2D_addCurve K h this None = (Returns (LIBSEDML_INVALID_ATTRIBUTE_VALUE K), h)"
    by (simp_all add: SedComputeChange_addVariable_def SedComputeChange_addParameter_def
          SedPlot2D_addCurve_def)
  show ?thesis
    using null addVariable_effect [of h this c item e K] addParameter_effect [of h this c item e K]
      addCurve_effect [of h this p item e K]
    by blast
qed

lemma example_heap_lookup:
  "heap_lookup example_heap 0 = Some (ComputeChange example_change)"
  "heap_lookup example_heap 1 = Some (Child example_variable)"
  "heap_lookup example_heap (Suc 0) = Some (Child example_variable)"
  "heap_lookup example_heap 2 = Some (Child example_parameter)"
  "heap_lookup example_heap 3 = Some (Math example_math)"
  "heap_lookup example_heap 4 = Some (Plot2D example_plot)"
  "heap_lookup example_heap 5 = Some (Child example_curve)"
  "heap_lookup example_heap 6 = Some (Math example_math)"
  "heap_lookup example_heap 7 = Some (Math example_bad_math)"
  "length example_heap = 8"
  by (simp_all add: heap_lookup_def example_heap_def)

theorem add_child_contract_witness:
  "(\<exists>h'. SedComputeChange_addVariable example_constants example_heap 0 (Some 1) = (Returns 0, h')
       \<and> SedComputeChange_getNumVariables example_heap 0 = Returns 1
       \<and> SedComputeChange_getNumVariables h' 0 = Returns 2
       \<and> SedComputeChange_getVariable h' 0 1 = Returns (Some 8)
       \<and> heap_lookup h' 8 = Some (Child example_variable))
   \<and> (\<exists>h'. SedComputeChange_addParameter example_constants example_heap 0 (Some 2) = (Returns 0, h')
       \<and> SedComputeChange_getNumParameters h' 0 = Returns 2
       \<and> heap_lookup h' 8 = Some (Child example_parameter))
   \<and> (\<exists>h'. SedPlot2D_addCurve example_constants example_heap 4 (Some 5) = (Returns 0, h')
       \<and> SedPlot2D_getNumCurves h' 4 = Returns 2
       \<and> heap_lookup h' 8 = Some (Child example_curve))"
proof -
  have v: "heap_lookup example_heap 0 = Some (ComputeChange example_change)
           \<and> heap_lookup example_heap 1 = Some (Child example_variable)"
    and p: "heap_lookup example_heap 0 = Some (ComputeChange example_change)
           \<and> heap_lookup example_heap 2 = Some (Child example_parameter)"
    and c: "heap_lookup example_heap 4 = Some (Plot2D example_plot)
           \<and> heap_lookup example_heap 5 = Some (Child example_curve)"
    by (simp_all add: heap_lookup_def example_heap_def)
  have sz: "SedListOf_size (mVariable example_change) = 1"
    "SedListOf_size (mParameter example_change) = 1" "SedListOf_size (mCurve example_plot) = 1"
    "LIBSEDML_OPERATION_SUCCESS example_constants = 0" "length example_heap = 8"
    by (simp_all add: SedListOf_size_def example_change_def example_plot_def
          example_constants_def example_heap_def)
  note V = add_child_contract [of example_constants example_heap 0 example_change 1
      example_variable example_plot, THEN conjunct2, THEN conjunct2, THEN conjunct2,
      THEN conjunct1, THEN mp, OF v, unfolded sz one_add_one]
  note P = add_child_contract [of example_constants example_heap 0 example_change 2
      example_parameter example_plot, THEN conjunct2, THEN conjunct2, THEN conjunct2,
      THEN conjunct2, THEN conjunct1, THEN mp, OF p, unfolded sz one_add_one]
  note C = add_child_contract [of example_constants example_heap 4 example_change 5
      example_curve example_plot, THEN conjunct2, THEN conjunct2, THEN conjunct2,
      THEN conjunct2, THEN conjunct2, THEN mp, OF c, unfolded sz one_add_one]
  from V have 1: "\<exists>h'. SedComputeChange_addVariable example_constants example_heap 0 (Some 1) = (Returns 0, h')
       \<and> SedComputeChange_getNumVariables example_heap 0 = Returns 1
       \<and> SedComputeChange_getNumVariables h' 0 = Returns 2
       \<and> SedComputeChange_getVariable h' 0 1 = Returns (Some 8)
       \<and> heap_lookup h' 8 = Some (Child example_variable)"
    by blast
  from P have 2: "\<exists>h'. SedComputeChange_addParameter example_constants example_heap 0 (Some 2) = (Returns 0, h')
       \<and> SedComputeChange_getNumParameters h' 0 = Returns 2
       \<and> heap_lookup h' 8 = Some (Child example_parameter)"
    by blast
  from C have 3: "\<exists>h'. SedPlot2D_addCurve example_constants example_heap 4 (Some 5) = (Returns 0, h')
       \<and> SedPlot2D_getNumCurves h' 4 = Returns 2
       \<and> heap_lookup h' 8 = Some (Child example_curve)"
    by blast
  from 1 2 3 show ?thesis by (intro conjI)
qed

text \<open>
  C10. \<open>createVariable\<close>, \<open>createParameter\<close> and \<open>createCurve\<close> on a live object return
  a pointer to a cell that was not in use before and now holds a default-constructed
  child of the right class; the size of the collection grows by exactly one; the pointer
  at the last position of the collection is the pointer returned, and the earlier
  positions are as before. The \<open>add\<close> operations, in contrast, store a pointer
  different from their argument.
\<close>

theorem create_child_contract:
  "(heap_lookup h this = Some (ComputeChange c) \<longrightarrow>
      (\<exists>h'. SedComputeChange_createVariable h this = (Returns (Some (length h)), h')
          \<and> heap_lookup h (length h) = None
          \<and> heap_lookup h' (length h) = Some (Child SedVariable_new)
          \<and> SedComputeChange_getNumVariables h' this = Returns (SedListOf_size (mVariable c) + 1)
          \<and> SedComputeChange_getVariable h' this (SedListOf_size (mVariable c)) = Returns (Some (length h))
          \<and> (\<forall>n. n < SedListOf_size (mVariable c) \<longrightarrow>
                SedComputeChange_getVariable h' this n = SedComputeChange_getVariable h this n)))
   \<and> (heap_lookup h this = Some (ComputeChange c) \<longrightarrow>
      (\<exists>h'. SedComputeChange_createParameter h this = (Returns (Some (length h)), h')
          \<and> heap_lookup h (length h) = None
          \<and> heap_lookup h' (length h) = Some (Child SedParameter_new)
          \<and> SedComputeChange_getNumParameters h' this = Returns (SedListOf_size (mParameter c) + 1)
          \<and> SedComputeChange_getParameter h' this (SedListOf_size (mParameter c)) = Returns (Some (length h))
          \<and> (\<forall>n. n < SedListOf_size (mParameter c) \<longrightarrow>
                SedComputeChange_getParameter h' this n = SedComputeChange_getParameter h this n)))
   \<and> (heap_lookup h this = Some (Plot2D p) \<longrightarrow>
      (\<exists>h'. SedPlot2D_createCurve h this = (Returns (Some (length h)), h')
          \<and> heap_lookup h (length h) = None
          \<and> heap_lookup h' (length h) = Some (Child SedCurve_new)
          \<and> SedPlot2D_getNumCurves h' this = Returns (SedListOf_size (mCurve p) + 1)
          \<and> SedPlot2D_getCurve h' this (SedListOf_size (mCurve p)) = Returns (Some (length h))
          \<and> (\<forall>n. n < SedListOf_size (mCurve p) \<longrightarrow>
                SedPlot2D_getCurve h' this n = SedPlot2D_getCurve h this n)))
   \<and> (heap_lookup h this = Some (ComputeChange c) \<and> heap_lookup h item = Some (Child e) \<longrightarrow>
      (\<exists>h' a. SedComputeChange_addVariable K h this (Some item) =
                 (Returns (LIBSEDML_OPERATION_SUCCESS K), h')
          \<and> SedComputeChange_getVariable h' this (SedListOf_size (mVariable c)) = Returns (Some a)
          \<and> a \<noteq> item))
   \<and> (heap_lookup h this = Some (ComputeChange c) \<and> heap_lookup h item = Some (Child e) \<longrightarrow>
      (\<exists>h' a. SedComputeChange_addParameter K h this (Some item) =
                 (Returns (LIBSEDML_OPERATION_SUCCESS K), h')
          \<and> SedComputeChange_getParameter h' this (SedListOf_size (mParameter c)) = Returns (Some a)
          \<and> a \<noteq> item))
   \<and> (heap_lookup h this = Some (Plot2D p) \<and> heap_lookup h item = Some (Child e) \<longrightarrow>
      (\<exists>h' a. SedPlot2D_addCurve K h this (Some item) =
                 (Returns (LIBSEDML_OPERATION_SUCCESS K), h')
          \<and> SedPlot2D_getCurve h' this (SedListOf_size (mCurve p)) = Returns (Some a)
          \<and> a \<noteq> item))"
proof -
  have ne: "heap_lookup h item = Some (Child e) \<Longrightarrow> length h \<noteq> item"
    using heap_lookup_lt [of h item] by auto
  have av: "heap_lookup h this = Some (ComputeChange c) \<and> heap_lookup h item = Some (Child e) \<longrightarrow>
      (\<exists>h' a. SedComputeChange_addVariable K h this (Some item) =
                 (Returns (LIBSEDML_OPERATION_SUCCESS K), h')
          \<and> SedComputeChange_getVariable h' this (SedListOf_size (mVariable c)) = Returns (Some a)
          \<and> a \<noteq> item)"
    using addVariable_effect [of h this c item e K] ne by blast
  have ap: "heap_lookup h this = Some (ComputeChange c) \<and> heap_lookup h item = Some (Child e) \<longrightarrow>
      (\<exists>h' a. SedComputeChange_addParameter K h this (Some item) =
                 (Returns (LIBSEDML_OPERATION_SUCCESS K), h')
          \<and> SedComputeChange_getParameter h' this (SedListOf_size (mParameter c)) = Returns (Some a)
          \<and> a \<noteq> item)"
    using addParameter_effect [of h this c item e K] ne by blast
  have ac: "heap_lookup h this = Some (Plot2D p) \<and> heap_lookup h item = Some (Child e) \<longrightarrow>
      (\<exists>h' a. SedPlot2D_addCurve K h this (Some item) =
                 (Returns (LIBSEDML_OPERATION_SUCCESS K), h')
          \<and> SedPlot2D_getCurve h' this (SedListOf_size (mCurve p)) = Returns (Some a)
          \<and> a \<noteq> item)"
    using addCurve_effect [of h this p item e K] ne by blast
  note cv = createVariable_effect [of h this c, THEN impI [of "heap_lookup h this = Some (ComputeChange c)"]]
  note cp = createParameter_effect [of h this c, THEN impI [of "heap_lookup h this = Some (ComputeChange c)"]]
  note cc = createCurve_effect [of h this p, THEN impI [of "heap_lookup h this = Some (Plot2D p)"]]
  from cv cp cc av ap ac show ?thesis by (intro conjI)
qed

theorem create_child_contract_witness:
  "(\<exists>h'. SedComputeChange_createVariable example_heap 0 = (Returns (Some 8), h')
       \<and> heap_lookup example_heap 8 = None
       \<and> heap_lookup h' 8 = Some (Child SedVariable_new)
       \<and> SedComputeChange_getNumVariables h' 0 = Returns 2
       \<and> SedComputeChange_getVariable h' 0 1 = Returns (Some 8))
   \<and> (\<exists>h'. SedComputeChange_createParameter example_heap 0 = (Returns (Some 8), h')
       \<and> heap_lookup h' 8 = Some (Child SedParameter_new)
       \<and> SedComputeChange_getNumParameters h' 0 = Returns 2
       \<and> SedComputeChange_getParameter h' 0 1 = Returns (Some 8))
   \<and> (\<exists>h'. SedPlot2D_createCurve example_heap 4 = (Returns (Some 8), h')
       \<and> heap_lookup h' 8 = Some (Child SedCurve_new)
       \<and> SedPlot2D_getNumCurves h' 4 = Returns 2
       \<and> SedPlot2D_getCurve h' 4 1 = Returns (Some 8))
   \<and> (\<exists>h' a. SedComputeChange_addVariable example_constants example_heap 0 (Some 1) = (Returns 0, h')
       \<and> SedComputeChange_getVariable h' 0 1 = Returns (Some a) \<and> a \<noteq> 1)
   \<and> (\<exists>h' a. SedComputeChange_addParameter example_constants example_heap 0 (Some 2) = (Returns 0, h')
       \<and> SedComputeChange_getParameter h' 0 1 = Returns (Some a) \<and> a \<noteq> 2)
   \<and> (\<exists>h' a. SedPlot2D_addCurve example_constants example_heap 4 (Some 5) = (Returns 0, h')
       \<and> SedPlot2D_getCurve h' 4 1 = Returns (Some a) \<and> a \<noteq> 5)"
proof -
  have t: "heap_lookup example_heap 0 = Some (ComputeChange example_change)"
    and q: "heap_lookup example_heap 4 = Some (Plot2D example_plot)"
    and v: "heap_lookup example_heap 0 = Some (ComputeChange example_change)
           \<and> heap_lookup example_heap 1 = Some (Child example_variable)"
    and p: "heap_lookup example_heap 0 = Some (ComputeChange example_change)
           \<and> heap_lookup example_heap 2 = Some (Child example_parameter)"
    and c: "heap_lookup example_heap 4 = Some (Plot2D example_plot)
           \<and> heap_lookup example_heap 5 = Some (Child example_curve)"
    by (simp_all add: heap_lookup_def example_heap_def)
  have sz: "SedListOf_size (mVariable example_change) = 1"
    "SedListOf_size (mParameter example_change) = 1" "SedListOf_size (mCurve example_plot) = 1"
    "LIBSEDML_OPERATION_SUCCESS example_constants = 0" "length example_heap = 8"
    by (simp_all add: SedListOf_size_def example_change_def example_plot_def
          example_constants_def example_heap_def)
  note T = create_child_contract [of example_heap 0 example_change example_plot 1
      example_variable example_constants]
  note T2 = create_child_contract [of example_heap 0 example_change example_plot 2
      example_parameter example_constants]
  note T4 = create_child_contract [of example_heap 4 example_change example_plot 5
      example_curve example_constants]
  note A = T [THEN conjunct1, THEN mp, OF t, unfolded sz one_add_one]
  note B = T [THEN conjunct2, THEN conjunct1, THEN mp, OF t, unfolded sz one_add_one]
  note C = T4 [THEN conjunct2, THEN conjunct2, THEN conjunct1, THEN mp, OF q,
      unfolded sz one_add_one]
  note D = T [THEN conjunct2, THEN conjunct2, THEN conjunct2, THEN conjunct1, THEN mp,
      OF v, unfolded sz]
  note E = T2 [THEN conjunct2, THEN conjunct2, THEN conjunct2, THEN conjunct2,
      THEN conjunct1, THEN mp, OF p, unfolded sz]
  note F = T4 [THEN conjunct2, THEN conjunct2, THEN conjunct2, THEN conjunct2,
      THEN conjunct2, THEN mp, OF c, unfolded sz]
  from A have 1: "\<exists>h'. SedComputeChange_createVariable example_heap 0 = (Returns (Some 8), h')
       \<and> heap_lookup example_heap 8 = None
       \<and> heap_lookup h' 8 = Some (Child SedVariable_new)
       \<and> SedComputeChange_getNumVariables h' 0 = Returns 2
       \<and> SedComputeChange_getVariable h' 0 1 = Returns (Some 8)"
    by blast
  from B have 2: "\<exists>h'. SedComputeChange_createParameter example_heap 0 = (Returns (Some 8), h')
       \<and> heap_lookup h' 8 = Some (Child SedParameter_new)
       \<and> SedComputeChange_getNumParameters h' 0 = Returns 2
       \<and> SedComputeChange_getParameter h' 0 1 = Returns (Some 8)"
    by blast
  from C have 3: "\<exists>h'. SedPlot2D_createCurve example_heap 4 = (Returns (Some 8), h')
       \<and> heap_lookup h' 8 = Some (Child SedCurve_new)
       \<and> SedPlot2D_getNumCurves h' 4 = Returns 2
       \<and> SedPlot2D_getCurve h' 4 1 = Returns (Some 8)"
    by blast
  from 1 2 3 D E F show ?thesis by (intro conjI)
qed

section \<open>Setting the expression\<close>

text \<open>
  C3. On a live SedComputeChange, \<open>setMath\<close> with a pointer to a tree that is not
  well-formed, and that is not the pointer already stored, returns
  \<open>LIBSEDML_INVALID_OBJECT\<close> and leaves the whole store as it is; so \<open>isSetMath\<close>,
  \<open>getMath\<close> and the stored expression are the same before and after.
\<close>

theorem setMath_rejects_ill_formed:
  "heap_lookup h this = Some (ComputeChange c) \<and> heap_lookup h m = Some (Math t)
   \<and> \<not> isWellFormedASTNode t \<and> mMath c \<noteq> Some m \<longrightarrow>
     SedComputeChange_setMath isWellFormedASTNode K h this (Some m) =
       (Returns (LIBSEDML_INVALID_OBJECT K), h)
     \<and> SedComputeChange_isSetMath
          (snd (SedComputeChange_setMath isWellFormedASTNode K h this (Some m))) this =
        SedComputeChange_isSetMath h this
     \<and> SedComputeChange_getMath
          (snd (SedComputeChange_setMath isWellFormedASTNode K h this (Some m))) this =
        SedComputeChange_getMath h this
     \<and> read_math (snd (SedComputeChange_setMath isWellFormedASTNode K h this (Some m))) (mMath c) =
        read_math h (mMath c)"
  by (simp add: SedComputeChange_setMath_def)

theorem setMath_rejects_ill_formed_witness:
  "SedComputeChange_setMath example_isWellFormed example_constants example_heap 0 (Some 7) =
     (Returns (- 5), example_heap)
   \<and> SedComputeChange_getMath example_heap 0 = Returns (Some 3)
   \<and> SedComputeChange_getMath
        (snd (SedComputeChange_setMath example_isWellFormed example_constants example_heap 0 (Some 7))) 0 =
      Returns (Some 3)"
proof -
  have hyp: "heap_lookup example_heap 0 = Some (ComputeChange example_change)
      \<and> heap_lookup example_heap 7 = Some (Math example_bad_math)
      \<and> \<not> example_isWellFormed example_bad_math \<and> mMath example_change \<noteq> Some 7"
    by (simp add: heap_lookup_def example_heap_def example_bad_math_def example_change_def)
  have g: "SedComputeChange_getMath example_heap 0 = Returns (Some 3)"
    "LIBSEDML_INVALID_OBJECT example_constants = - 5"
    by (simp_all add: SedComputeChange_getMath_def heap_lookup_def example_heap_def
          example_change_def example_constants_def)
  note T = setMath_rejects_ill_formed [of example_heap 0 example_change 7 example_bad_math
      example_isWellFormed example_constants, THEN mp, OF hyp, unfolded g]
  from T g(1) show ?thesis by (intro conjI) (elim conjE, assumption)+
qed

section \<open>Writing the elements\<close>

lemma write_items_read_items:
  "write_items h as = map_option (map ChildElement) (read_items h as)"
  by (induction as) (auto split: option.splits obj.splits)

lemma SedListOf_write_read_items:
  "read_items h (mItems l) = Some es \<Longrightarrow>
   SedListOf_write name h l stream =
     Some (stream @ StartElement name # map ChildElement es @ [EndElement name])"
  by (simp add: SedListOf_write_def write_items_read_items)

lemma read_items_length: "read_items h as = Some es \<Longrightarrow> length es = length as"
  by (induction as arbitrary: es) (auto split: option.splits obj.splits)

lemma read_items_Nil_iff: "read_items h as = Some es \<Longrightarrow> (es = []) = (as = [])"
  using read_items_length [of h as es] by auto

lemma SedComputeChange_writeElements_structure:
  assumes "SedComputeChange_structure h this = Some (b, vs, ps, m)"
  shows "SedComputeChange_writeElements h this stream =
     Returns (stream @ [SuperclassElements b]
       @ (if vs = [] then []
          else StartElement ''listOfVariables'' # map ChildElement vs @ [EndElement ''listOfVariables''])
       @ (if ps = [] then []
          else StartElement ''listOfParameters'' # map ChildElement ps @ [EndElement ''listOfParameters''])
       @ (case m of None \<Rightarrow> [] | Some t \<Rightarrow> [MathML t]))"
proof -
  from assms obtain c where c: "heap_lookup h this = Some (ComputeChange c)"
    and b: "SedChange_part c = b"
    and vs: "read_items h (mItems (mVariable c)) = Some vs"
    and ps: "read_items h (mItems (mParameter c)) = Some ps"
    and m: "read_math h (mMath c) = Some m"
    by (auto simp add: SedComputeChange_structure_def split: option.splits obj.splits)
  have wm: "writeMathML h (mMath c) s = Some (s @ (case m of None \<Rightarrow> [] | Some t \<Rightarrow> [MathML t]))" for s
    using m by (auto simp add: writeMathML_def read_math_def split: option.splits obj.splits)
  have mn: "(mMath c = None) = (m = None)"
    using m by (auto simp add: read_math_def split: option.splits obj.splits)
  show ?thesis
    using c b read_items_Nil_iff [OF vs] read_items_Nil_iff [OF ps] mn
    by (auto simp add: SedComputeChange_writeElements_def Let_def SedListOf_size_def
          SedListOf_write_read_items [OF vs] SedListOf_write_read_items [OF ps] wm)
qed

lemma SedPlot2D_writeElements_structure:
  assumes "SedPlot2D_structure h this = Some (b, cs)"
  shows "SedPlot2D_writeElements h this stream =
     Returns (stream @ [SuperclassElements b]
       @ (if cs = [] then []
          else StartElement ''listOfCurves'' # map ChildElement cs @ [EndElement ''listOfCurves'']))"
proof -
  from assms obtain p where p: "heap_lookup h this = Some (Plot2D p)"
    and b: "SedOutput_part p = b"
    and cs: "read_items h (mItems (mCurve p)) = Some cs"
    by (auto simp add: SedPlot2D_structure_def split: option.splits obj.splits)
  show ?thesis
    using p b read_items_Nil_iff [OF cs]
    by (auto simp add: SedPlot2D_writeElements_def Let_def SedListOf_size_def
          SedListOf_write_read_items [OF cs])
qed

text \<open>
  C4. For a well-formed SedComputeChange, \<open>writeElements\<close> appends to the stream: what
  the superclass writes; then the wrapper \<open>listOfVariables\<close> with the variables in
  order, if there is at least one variable, and nothing otherwise; then the wrapper
  \<open>listOfParameters\<close> likewise; then, last, the expression if it is set. For a
  well-formed SedPlot2D it appends what the superclass writes and then the wrapper
  \<open>listOfCurves\<close> with the curves, if there is at least one. With zero children of a
  kind, no start or end tag of that wrapper is among what was written.
\<close>

theorem writeElements_order:
  "(SedComputeChange_structure h this = Some (b, vs, ps, m) \<longrightarrow>
      (\<exists>out. SedComputeChange_writeElements h this stream = Returns (stream @ out)
         \<and> out = [SuperclassElements b]
             @ (if vs = [] then []
                else StartElement ''listOfVariables'' # map ChildElement vs
                     @ [EndElement ''listOfVariables''])
             @ (if ps = [] then []
                else StartElement ''listOfParameters'' # map ChildElement ps
                     @ [EndElement ''listOfParameters''])
             @ (case m of None \<Rightarrow> [] | Some t \<Rightarrow> [MathML t])
         \<and> (vs = [] \<longrightarrow> StartElement ''listOfVariables'' \<notin> set out
                          \<and> EndElement ''listOfVariables'' \<notin> set out)
         \<and> (ps = [] \<longrightarrow> StartElement ''listOfParameters'' \<notin> set out
                          \<and> EndElement ''listOfParameters'' \<notin> set out)))
   \<and> (SedPlot2D_structure h this = Some (b, cs) \<longrightarrow>
      (\<exists>out. SedPlot2D_writeElements h this stream = Returns (stream @ out)
         \<and> out = [SuperclassElements b]
             @ (if cs = [] then []
                else StartElement ''listOfCurves'' # map ChildElement cs
                     @ [EndElement ''listOfCurves''])
         \<and> (cs = [] \<longrightarrow> StartElement ''listOfCurves'' \<notin> set out
                          \<and> EndElement ''listOfCurves'' \<notin> set out)))"
proof (intro conjI impI)
  assume s: "SedComputeChange_structure h this = Some (b, vs, ps, m)"
  let ?out = "[SuperclassElements b]
             @ (if vs = [] then []
                else StartElement ''listOfVariables'' # map ChildElement vs
                     @ [EndElement ''listOfVariables''])
             @ (if ps = [] then []
                else StartElement ''listOfParameters'' # map ChildElement ps
                     @ [EndElement ''listOfParameters''])
             @ (case m of None \<Rightarrow> [] | Some t \<Rightarrow> [MathML t])"
  have 1: "SedComputeChange_writeElements h this stream = Returns (stream @ ?out)"
    using SedComputeChange_writeElements_structure [OF s, of stream] by simp
  have 2: "vs = [] \<longrightarrow> StartElement ''listOfVariables'' \<notin> set ?out
                          \<and> EndElement ''listOfVariables'' \<notin> set ?out"
    by (auto split: option.splits)
  have 3: "ps = [] \<longrightarrow> StartElement ''listOfParameters'' \<notin> set ?out
                          \<and> EndElement ''listOfParameters'' \<notin> set ?out"
    by (auto split: option.splits)
  from 1 2 3 show "\<exists>out. SedComputeChange_writeElements h this stream = Returns (stream @ out)
         \<and> out = ?out
         \<and> (vs = [] \<longrightarrow> StartElement ''listOfVariables'' \<notin> set out
                          \<and> EndElement ''listOfVariables'' \<notin> set out)
         \<and> (ps = [] \<longrightarrow> StartElement ''listOfParameters'' \<notin> set out
                          \<and> EndElement ''listOfParameters'' \<notin> set out)"
    by blast
next
  assume s: "SedPlot2D_structure h this = Some (b, cs)"
  let ?out = "[SuperclassElements b]
             @ (if cs = [] then []
                else StartElement ''listOfCurves'' # map ChildElement cs
                     @ [EndElement ''listOfCurves''])"
  have 1: "SedPlot2D_writeElements h this stream = Returns (stream @ ?out)"
    using SedPlot2D_writeElements_structure [OF s, of stream] by simp
  have 2: "cs = [] \<longrightarrow> StartElement ''listOfCurves'' \<notin> set ?out
                          \<and> EndElement ''listOfCurves'' \<notin> set ?out"
    by auto
  from 1 2 show "\<exists>out. SedPlot2D_writeElements h this stream = Returns (stream @ out)
         \<and> out = ?out
         \<and> (cs = [] \<longrightarrow> StartElement ''listOfCurves'' \<notin> set out
                          \<and> EndElement ''listOfCurves'' \<notin> set out)"
    by blast
qed


lemma example_structure:
  "SedComputeChange_structure example_heap 0 =
     Some (example_base, [example_variable], [example_parameter], Some example_math)"
  "SedPlot2D_structure example_heap 4 = Some (example_base, [example_curve])"
  by (simp_all add: SedComputeChange_structure_def SedPlot2D_structure_def heap_lookup_def
        example_heap_def example_change_def example_plot_def read_math_def)

theorem writeElements_order_witness:
  "SedComputeChange_writeElements example_heap 0 [] =
     Returns [SuperclassElements example_base,
       StartElement ''listOfVariables'', ChildElement example_variable,
       EndElement ''listOfVariables'',
       StartElement ''listOfParameters'', ChildElement example_parameter,
       EndElement ''listOfParameters'',
       MathML example_math]
   \<and> SedPlot2D_writeElements example_heap 4 [] =
     Returns [SuperclassElements example_base,
       StartElement ''listOfCurves'', ChildElement example_curve, EndElement ''listOfCurves'']"
proof -
  note T = writeElements_order [of example_heap 0 example_base "[example_variable]"
      "[example_parameter]" "Some example_math" "[]" "[example_curve]"]
  from T [THEN conjunct1, THEN mp, OF example_structure(1)]
  have 1: "SedComputeChange_writeElements example_heap 0 [] =
     Returns [SuperclassElements example_base,
       StartElement ''listOfVariables'', ChildElement example_variable,
       EndElement ''listOfVariables'',
       StartElement ''listOfParameters'', ChildElement example_parameter,
       EndElement ''listOfParameters'',
       MathML example_math]"
    by auto
  note T' = writeElements_order [of example_heap 4 example_base "[example_variable]"
      "[example_parameter]" "Some example_math" "[]" "[example_curve]"]
  from T' [THEN conjunct2, THEN mp, OF example_structure(2)]
  have 2: "SedPlot2D_writeElements example_heap 4 [] =
     Returns [SuperclassElements example_base,
       StartElement ''listOfCurves'', ChildElement example_curve, EndElement ''listOfCurves'']"
    by auto
  from 1 2 show ?thesis by (intro conjI)
qed

section \<open>Reading the expression\<close>

text \<open>
  C7. On a live SedComputeChange, \<open>readOtherXML\<close> returns, and its result is true
  exactly when the next tag is \<open>math\<close> or the superclass's \<open>readOtherXML\<close> returns
  true. The superclass's function is applied in both cases, to the stream as the local
  step left it (after \<open>readMathML\<close> when the tag is \<open>math\<close>, untouched otherwise): the
  stream and the superclass part afterwards are the ones it returns. When the tag is
  \<open>math\<close> the expression stored afterwards is the one \<open>readMathML\<close> returned; otherwise
  the stored pointer is as before.
\<close>

theorem readOtherXML_or_combined:
  "heap_lookup h this = Some (ComputeChange c) \<longrightarrow>
     (\<exists>h' c'.
        SedComputeChange_readOtherXML checkMathMLNamespace readMathML SedChange_readOtherXML
            h this stream =
          (Returns
             (tokenName (peek stream) = ''math''
                \<or> fst (SedChange_readOtherXML (SedChange_part c)
                      (if tokenName (peek stream) = ''math''
                       then snd (readMathML stream (checkMathMLNamespace (peek stream)))
                       else stream)),
              snd (snd (SedChange_readOtherXML (SedChange_part c)
                      (if tokenName (peek stream) = ''math''
                       then snd (readMathML stream (checkMathMLNamespace (peek stream)))
                       else stream)))),
           h')
        \<and> heap_lookup h' this = Some (ComputeChange c')
        \<and> SedChange_part c' =
            fst (snd (SedChange_readOtherXML (SedChange_part c)
                      (if tokenName (peek stream) = ''math''
                       then snd (readMathML stream (checkMathMLNamespace (peek stream)))
                       else stream)))
        \<and> (tokenName (peek stream) = ''math'' \<longrightarrow>
              read_math h' (mMath c') =
                Some (fst (readMathML stream (checkMathMLNamespace (peek stream)))))
        \<and> (tokenName (peek stream) \<noteq> ''math'' \<longrightarrow> mMath c' = mMath c))"
proof
  assume t: "heap_lookup h this = Some (ComputeChange c)"
  then have lt: "this < length h" by (rule heap_lookup_lt)
  show "\<exists>h' c'.
        SedComputeChange_readOtherXML checkMathMLNamespace readMathML SedChange_readOtherXML
            h this stream =
          (Returns
             (tokenName (peek stream) = ''math''
                \<or> fst (SedChange_readOtherXML (SedChange_part c)
                      (if tokenName (peek stream) = ''math''
                       then snd (readMathML stream (checkMathMLNamespace (peek stream)))
                       else stream)),
              snd (snd (SedChange_readOtherXML (SedChange_part c)
                      (if tokenName (peek stream) = ''math''
                       then snd (readMathML stream (checkMathMLNamespace (peek stream)))
                       else stream)))),
           h')
        \<and> heap_lookup h' this = Some (ComputeChange c')
        \<and> SedChange_part c' =
            fst (snd (SedChange_readOtherXML (SedChange_part c)
                      (if tokenName (peek stream) = ''math''
                       then snd (readMathML stream (checkMathMLNamespace (peek stream)))
                       else stream)))
        \<and> (tokenName (peek stream) = ''math'' \<longrightarrow>
              read_math h' (mMath c') =
                Some (fst (readMathML stream (checkMathMLNamespace (peek stream)))))
        \<and> (tokenName (peek stream) \<noteq> ''math'' \<longrightarrow> mMath c' = mMath c)"
  proof (cases "tokenName (peek stream) = ''math''")
    case False
    obtain r b s where sup: "SedChange_readOtherXML (SedChange_part c) stream = (r, b, s)"
      by (cases "SedChange_readOtherXML (SedChange_part c) stream") auto
    show ?thesis
      using False t lt sup
      by (simp add: SedComputeChange_readOtherXML_def Let_def heap_lookup_store_same)
  next
    case True
    obtain tr s1 where rd: "readMathML stream (checkMathMLNamespace (peek stream)) = (tr, s1)"
      by (cases "readMathML stream (checkMathMLNamespace (peek stream))") auto
    obtain r b s where sup: "SedChange_readOtherXML (SedChange_part c) s1 = (r, b, s)"
      by (cases "SedChange_readOtherXML (SedChange_part c) s1") auto
    have len: "length (heap_delete h p) = length h" for p
      by (simp add: heap_delete_def split: option.splits)
    show ?thesis
    proof (cases tr)
      case None
      show ?thesis
        using True t lt sup rd None len
        by (simp add: SedComputeChange_readOtherXML_def Let_def heap_lookup_store_same
              read_math_def)
    next
      case (Some tree)
      have ne: "this \<noteq> length h" using lt by simp
      have new: "heap_lookup (heap_delete h p @ [x]) (length h) = x" for p x
        using heap_lookup_new [of "heap_delete h p" x] by (simp add: len)
      show ?thesis
        using True t lt ne sup rd Some len new
        by (simp add: SedComputeChange_readOtherXML_def Let_def heap_lookup_store_same
              heap_lookup_store_other read_math_def heap_alloc_def)
    qed
  qed
qed


theorem readOtherXML_or_combined_witness:
  "\<exists>h' c'. SedComputeChange_readOtherXML tokenPrefix example_readMathML
              example_super_readOtherXML example_heap 0 example_stream =
            (Returns (True, []), h')
      \<and> heap_lookup h' 0 = Some (ComputeChange c')
      \<and> read_math h' (mMath c') = Some (Some example_math)"
proof -
  have t: "heap_lookup example_heap 0 = Some (ComputeChange example_change)"
    by (simp add: heap_lookup_def example_heap_def)
  have m: "tokenName (peek example_stream) = ''math''"
    by (simp add: peek_def example_stream_def)
  have ev: "example_readMathML example_stream (tokenPrefix (peek example_stream)) =
      (Some example_math, [\<lparr>tokenName = ''annotation'', tokenPrefix = []\<rparr>])"
    "example_super_readOtherXML b [\<lparr>tokenName = ''annotation'', tokenPrefix = []\<rparr>] = (True, b, [])" for b
    by (simp_all add: example_readMathML_def example_super_readOtherXML_def example_stream_def
          peek_def)
  from readOtherXML_or_combined [of example_heap 0 example_change tokenPrefix
      example_readMathML example_super_readOtherXML example_stream, THEN mp, OF t]
  show ?thesis
    unfolding m ev(1) by (auto simp add: ev(2))
qed

section \<open>Reading through pointers\<close>

lemma read_items_cong:
  "(\<And>a. a \<in> set as \<Longrightarrow> heap_lookup h2 a = heap_lookup h a) \<Longrightarrow>
   read_items h2 as = read_items h as"
  by (induction as) (auto split: option.splits obj.splits)

lemma read_math_cong:
  "(\<And>a. p = Some a \<Longrightarrow> heap_lookup h2 a = heap_lookup h a) \<Longrightarrow>
   read_math h2 p = read_math h p"
  by (cases p) (auto simp add: read_math_def)

lemma read_items_live:
  "read_items h as = Some es \<Longrightarrow> a \<in> set as \<Longrightarrow> \<exists>e. heap_lookup h a = Some (Child e)"
  by (induction as arbitrary: es) (auto split: option.splits obj.splits)

lemma read_math_live:
  "read_math h (Some a) = Some m \<Longrightarrow> \<exists>t. heap_lookup h a = Some (Math t)"
  by (auto simp add: read_math_def split: option.splits obj.splits)

lemma read_items_append:
  "read_items h as = Some es \<Longrightarrow> read_items (h @ xs) as = Some es"
  using read_items_cong [of as "h @ xs" h] read_items_live [of h as es]
  by (metis heap_lookup_append_Some)

lemma read_math_append:
  "read_math h p = Some m \<Longrightarrow> read_math (h @ xs) p = Some m"
  using read_math_cong [of p "h @ xs" h] read_math_live [of h _ m]
  by (metis heap_lookup_append_Some)

lemma upt_from_length:
  "[n ..< n + Suc k] = n # [Suc n ..< Suc n + k]"
  using upt_conv_Cons [of n "n + Suc k"] by (simp del: upt_Suc)

lemma read_items_fresh:
  "read_items (h @ map (\<lambda>e. Some (Child e)) es @ ys) [length h ..< length h + length es] = Some es"
proof (induction es arbitrary: h)
  case Nil
  show ?case by simp
next
  case (Cons e es)
  have l: "heap_lookup (h @ Some (Child e) # map (\<lambda>e. Some (Child e)) es @ ys) (length h) =
      Some (Child e)"
    by (simp add: heap_lookup_def)
  from Cons.IH [of "h @ [Some (Child e)]"]
  have r: "read_items (h @ Some (Child e) # map (\<lambda>e. Some (Child e)) es @ ys)
      [Suc (length h) ..< Suc (length h) + length es] = Some es"
    by simp
  have "read_items (h @ map (\<lambda>e. Some (Child e)) (e # es) @ ys)
      (length h # [Suc (length h) ..< Suc (length h) + length es]) = Some (e # es)"
    using l r by simp
  then show ?case
    using upt_from_length [of "length h" "length es"] by simp
qed

section \<open>Copying a collection and an expression\<close>

lemma clone_items_read:
  "read_items h as = Some es \<Longrightarrow>
   clone_items h as = Some ([length h ..< length h + length es], h @ map (\<lambda>e. Some (Child e)) es)"
proof (induction as arbitrary: h es)
  case Nil
  then show ?case by simp
next
  case (Cons a as)
  from Cons.prems obtain e es' where a: "heap_lookup h a = Some (Child e)"
    and r: "read_items h as = Some es'" and es: "es = e # es'"
    by (auto split: option.splits obj.splits)
  have "read_items (h @ [Some (Child e)]) as = Some es'"
    using r by (rule read_items_append)
  from Cons.IH [OF this]
  have "clone_items (h @ [Some (Child e)]) as =
      Some ([Suc (length h) ..< Suc (length h) + length es'],
            h @ Some (Child e) # map (\<lambda>e. Some (Child e)) es')"
    by simp
  then have "clone_items h (a # as) =
      Some (length h # [Suc (length h) ..< Suc (length h) + length es'],
            h @ map (\<lambda>e. Some (Child e)) (e # es'))"
    using a by (simp add: SedChild_clone_def heap_alloc_def)
  then show ?case
    using es upt_from_length [of "length h" "length es'"] by simp
qed

lemma SedListOf_assign_read:
  "read_items h (mItems rhs) = Some es \<Longrightarrow>
   SedListOf_assign h lhs rhs =
     Some (\<lparr>mItems = [length h ..< length h + length es],
            mParentSedObject = mParentSedObject rhs\<rparr>,
           h @ map (\<lambda>e. Some (Child e)) es)"
  by (simp add: SedListOf_assign_def clone_items_read)

lemma deepCopy_or_NULL_read:
  "read_math h p = Some m \<Longrightarrow>
   deepCopy_or_NULL h p =
     Some (case m of None \<Rightarrow> None | Some t \<Rightarrow> Some (length h),
           h @ (case m of None \<Rightarrow> [] | Some t \<Rightarrow> [Some (Math t)]))"
  by (auto simp add: deepCopy_or_NULL_def ASTNode_deepCopy_def read_math_def heap_alloc_def
        split: option.splits obj.splits)


section \<open>The structure of an element depends on its own cells only\<close>

lemma heap_lookup_update_other: "a \<noteq> b \<Longrightarrow> heap_lookup (h[a := x]) b = heap_lookup h b"
  by (simp add: heap_lookup_def)

lemma SedComputeChange_structure_frame:
  assumes s: "SedComputeChange_structure h e = Some v"
    and f: "\<And>a. a \<in> set (e # owned h e) \<Longrightarrow> heap_lookup h2 a = heap_lookup h a"
  shows "SedComputeChange_structure h2 e = Some v"
proof -
  from s obtain c vs ps m where c: "heap_lookup h e = Some (ComputeChange c)"
    and vs: "read_items h (mItems (mVariable c)) = Some vs"
    and ps: "read_items h (mItems (mParameter c)) = Some ps"
    and m: "read_math h (mMath c) = Some m"
    and v: "v = (SedChange_part c, vs, ps, m)"
    by (auto simp add: SedComputeChange_structure_def split: option.splits obj.splits)
  have o: "owned h e = mItems (mVariable c) @ mItems (mParameter c)
      @ (case mMath c of None \<Rightarrow> [] | Some m \<Rightarrow> [m])"
    using c by (simp add: owned_def)
  have c2: "heap_lookup h2 e = Some (ComputeChange c)"
    using f [of e] c by simp
  have 1: "read_items h2 (mItems (mVariable c)) = Some vs"
    using read_items_cong [of "mItems (mVariable c)" h2 h] vs by (simp add: f o)
  have 2: "read_items h2 (mItems (mParameter c)) = Some ps"
    using read_items_cong [of "mItems (mParameter c)" h2 h] ps by (simp add: f o)
  have 3: "read_math h2 (mMath c) = Some m"
    using read_math_cong [of "mMath c" h2 h] m by (simp add: f o)
  show ?thesis
    using c2 1 2 3 v by (simp add: SedComputeChange_structure_def)
qed

lemma SedComputeChange_structure_live:
  assumes s: "SedComputeChange_structure h e = Some v" and a: "a \<in> set (e # owned h e)"
  shows "a < length h"
proof -
  from s obtain c vs ps m where c: "heap_lookup h e = Some (ComputeChange c)"
    and vs: "read_items h (mItems (mVariable c)) = Some vs"
    and ps: "read_items h (mItems (mParameter c)) = Some ps"
    and m: "read_math h (mMath c) = Some m"
    by (auto simp add: SedComputeChange_structure_def split: option.splits obj.splits)
  have o: "owned h e = mItems (mVariable c) @ mItems (mParameter c)
      @ (case mMath c of None \<Rightarrow> [] | Some m \<Rightarrow> [m])"
    using c by (simp add: owned_def)
  from a o consider "a = e" | "a \<in> set (mItems (mVariable c))"
    | "a \<in> set (mItems (mParameter c))" | "mMath c = Some a"
    by (auto split: option.splits)
  then have "\<exists>x. heap_lookup h a = Some x"
  proof cases
    case 1 then show ?thesis using c by simp
  next
    case 2 then show ?thesis using read_items_live [OF vs] by blast
  next
    case 3 then show ?thesis using read_items_live [OF ps] by blast
  next
    case 4 then show ?thesis using read_math_live [of h a m] m by auto
  qed
  then show ?thesis using heap_lookup_lt by blast
qed

lemma SedComputeChange_structure_extend:
  assumes s: "SedComputeChange_structure h e = Some v" and t: "take (length h) h2 = h"
  shows "SedComputeChange_structure h2 e = Some v"
proof (rule SedComputeChange_structure_frame [OF s])
  fix a assume "a \<in> set (e # owned h e)"
  then have lt: "a < length h" by (rule SedComputeChange_structure_live [OF s])
  have "h2 = h @ drop (length h) h2"
    using t append_take_drop_id [of "length h" h2] by simp
  then show "heap_lookup h2 a = heap_lookup h a"
    using lt heap_lookup_append [of a h "drop (length h) h2"] by simp
qed

lemma SedPlot2D_structure_frame:
  assumes s: "SedPlot2D_structure h e = Some v"
    and f: "\<And>a. a \<in> set (e # owned h e) \<Longrightarrow> heap_lookup h2 a = heap_lookup h a"
  shows "SedPlot2D_structure h2 e = Some v"
proof -
  from s obtain p cs where p: "heap_lookup h e = Some (Plot2D p)"
    and cs: "read_items h (mItems (mCurve p)) = Some cs"
    and v: "v = (SedOutput_part p, cs)"
    by (auto simp add: SedPlot2D_structure_def split: option.splits obj.splits)
  have o: "owned h e = mItems (mCurve p)"
    using p by (simp add: owned_def)
  have p2: "heap_lookup h2 e = Some (Plot2D p)"
    using f [of e] p by simp
  have 1: "read_items h2 (mItems (mCurve p)) = Some cs"
    using read_items_cong [of "mItems (mCurve p)" h2 h] cs by (simp add: f o)
  show ?thesis
    using p2 1 v by (simp add: SedPlot2D_structure_def)
qed

lemma SedPlot2D_structure_live:
  assumes s: "SedPlot2D_structure h e = Some v" and a: "a \<in> set (e # owned h e)"
  shows "a < length h"
proof -
  from s obtain p cs where p: "heap_lookup h e = Some (Plot2D p)"
    and cs: "read_items h (mItems (mCurve p)) = Some cs"
    by (auto simp add: SedPlot2D_structure_def split: option.splits obj.splits)
  have o: "owned h e = mItems (mCurve p)"
    using p by (simp add: owned_def)
  from a o consider "a = e" | "a \<in> set (mItems (mCurve p))" by auto
  then have "\<exists>x. heap_lookup h a = Some x"
  proof cases
    case 1 then show ?thesis using p by simp
  next
    case 2 then show ?thesis using read_items_live [OF cs] by blast
  qed
  then show ?thesis using heap_lookup_lt by blast
qed

lemma SedPlot2D_structure_extend:
  assumes s: "SedPlot2D_structure h e = Some v" and t: "take (length h) h2 = h"
  shows "SedPlot2D_structure h2 e = Some v"
proof (rule SedPlot2D_structure_frame [OF s])
  fix a assume "a \<in> set (e # owned h e)"
  then have lt: "a < length h" by (rule SedPlot2D_structure_live [OF s])
  have "h2 = h @ drop (length h) h2"
    using t append_take_drop_id [of "length h" h2] by simp
  then show "heap_lookup h2 a = heap_lookup h a"
    using lt heap_lookup_append [of a h "drop (length h) h2"] by simp
qed

section \<open>The copy constructors\<close>

lemma SedComputeChange_copy_result:
  assumes s: "SedComputeChange_structure h src = Some (b, vs, ps, m)"
  shows "SedComputeChange_copy h (Some src) =
    (Returns (length h),
     h @ [Some (ComputeChange
            \<lparr>SedChange_part = b,
             mVariable = \<lparr>mItems = [Suc (length h) ..< Suc (length h) + length vs],
                          mParentSedObject = Some (length h)\<rparr>,
             mParameter = \<lparr>mItems = [Suc (length h) + length vs ..<
                                      Suc (length h) + length vs + length ps],
                           mParentSedObject = Some (length h)\<rparr>,
             mMath = (case m of None \<Rightarrow> None
                      | Some t \<Rightarrow> Some (Suc (length h) + length vs + length ps))\<rparr>)]
       @ map (\<lambda>e. Some (Child e)) vs @ map (\<lambda>e. Some (Child e)) ps
       @ (case m of None \<Rightarrow> [] | Some t \<Rightarrow> [Some (Math t)]))"
proof -
  from s obtain c where c: "heap_lookup h src = Some (ComputeChange c)"
    and b: "SedChange_part c = b"
    and vs: "read_items h (mItems (mVariable c)) = Some vs"
    and ps: "read_items h (mItems (mParameter c)) = Some ps"
    and m: "read_math h (mMath c) = Some m"
    by (auto simp add: SedComputeChange_structure_def split: option.splits obj.splits)
  define h0 where "h0 = h @ [Some (ComputeChange
      \<lparr>SedChange_part = SedChange_part c, mVariable = SedListOf_new,
       mParameter = SedListOf_new, mMath = None\<rparr>)]"
  define h1 where "h1 = h0 @ map (\<lambda>e. Some (Child e)) vs"
  define h2 where "h2 = h1 @ map (\<lambda>e. Some (Child e)) ps"
  have len: "length h0 = Suc (length h)" "length h1 = Suc (length h) + length vs"
    "length h2 = Suc (length h) + length vs + length ps"
    by (simp_all add: h0_def h1_def h2_def)
  have a1: "SedListOf_assign h0 SedListOf_new (mVariable c) =
      Some (\<lparr>mItems = [Suc (length h) ..< Suc (length h) + length vs],
             mParentSedObject = mParentSedObject (mVariable c)\<rparr>, h1)"
    using SedListOf_assign_read [of h0 "mVariable c" vs SedListOf_new]
      read_items_append [OF vs, of "drop (length h) h0"]
    by (simp add: h0_def h1_def)
  have a2: "SedListOf_assign h1 SedListOf_new (mParameter c) =
      Some (\<lparr>mItems = [Suc (length h) + length vs ..< Suc (length h) + length vs + length ps],
             mParentSedObject = mParentSedObject (mParameter c)\<rparr>, h2)"
    using SedListOf_assign_read [of h1 "mParameter c" ps SedListOf_new]
      read_items_append [OF ps, of "drop (length h) h1"]
    by (simp add: h0_def h1_def h2_def)
  have a3: "deepCopy_or_NULL h2 (mMath c) =
      Some (case m of None \<Rightarrow> None | Some t \<Rightarrow> Some (Suc (length h) + length vs + length ps),
            h2 @ (case m of None \<Rightarrow> [] | Some t \<Rightarrow> [Some (Math t)]))"
    using deepCopy_or_NULL_read [of h2 "mMath c" m]
      read_math_append [OF m, of "drop (length h) h2"]
    by (cases m) (simp_all add: h0_def h1_def h2_def)
  have "SedComputeChange_copy h (Some src) =
      (Returns (length h),
       heap_store (h2 @ (case m of None \<Rightarrow> [] | Some t \<Rightarrow> [Some (Math t)])) (length h)
         (ComputeChange (SedComputeChange_connectToChild (length h)
            \<lparr>SedChange_part = SedChange_part c,
             mVariable = \<lparr>mItems = [Suc (length h) ..< Suc (length h) + length vs],
                          mParentSedObject = mParentSedObject (mVariable c)\<rparr>,
             mParameter = \<lparr>mItems = [Suc (length h) + length vs ..<
                                      Suc (length h) + length vs + length ps],
                           mParentSedObject = mParentSedObject (mParameter c)\<rparr>,
             mMath = (case m of None \<Rightarrow> None
                      | Some t \<Rightarrow> Some (Suc (length h) + length vs + length ps))\<rparr>)))"
    using c a1 a2 a3
    by (simp add: SedComputeChange_copy_def heap_alloc_def h0_def [symmetric])
  then show ?thesis
    by (simp add: b heap_store_def h0_def h1_def h2_def SedComputeChange_connectToChild_def
          SedListOf_connectToParent_def list_update_append)
qed


lemma SedComputeChange_copy_deep:
  assumes s: "SedComputeChange_structure h src = Some v"
  shows "\<exists>h'. SedComputeChange_copy h (Some src) = (Returns (length h), h')
      \<and> take (length h) h' = h
      \<and> SedComputeChange_structure h' (length h) = Some v
      \<and> SedComputeChange_structure h' src = Some v
      \<and> (\<forall>a \<in> set (owned h' (length h)). length h < a)
      \<and> parent_links_ok h' (length h)
      \<and> (\<forall>a x. length h \<le> a \<longrightarrow> SedComputeChange_structure (h'[a := x]) src = Some v)
      \<and> (\<forall>a x. a < length h \<longrightarrow> SedComputeChange_structure (h'[a := x]) (length h) = Some v)"
proof -
  obtain b vs ps m where v: "v = (b, vs, ps, m)" by (cases v) auto
  define c' where "c' =
     \<lparr>SedChange_part = b,
      mVariable = \<lparr>mItems = [Suc (length h) ..< Suc (length h) + length vs],
                   mParentSedObject = Some (length h)\<rparr>,
      mParameter = \<lparr>mItems = [Suc (length h) + length vs ..<
                               Suc (length h) + length vs + length ps],
                    mParentSedObject = Some (length h)\<rparr>,
      mMath = (case m of None \<Rightarrow> None
               | Some t \<Rightarrow> Some (Suc (length h) + length vs + length ps))\<rparr>"
  define M where "M = (case m of None \<Rightarrow> [] | Some t \<Rightarrow> [Some (Math t)])"
  define h' where "h' = h @ [Some (ComputeChange c')]
       @ map (\<lambda>e. Some (Child e)) vs @ map (\<lambda>e. Some (Child e)) ps @ M"
  have r: "SedComputeChange_copy h (Some src) = (Returns (length h), h')"
    using SedComputeChange_copy_result [OF s [unfolded v]]
    by (simp add: h'_def c'_def M_def)
  have t: "take (length h) h' = h"
    by (simp add: h'_def)
  have l: "heap_lookup h' (length h) = Some (ComputeChange c')"
    by (simp add: h'_def heap_lookup_def)
  have i1: "read_items h' (mItems (mVariable c')) = Some vs"
    using read_items_fresh [of "h @ [Some (ComputeChange c')]" vs
        "map (\<lambda>e. Some (Child e)) ps @ M"]
    by (simp add: h'_def c'_def)
  have i2: "read_items h' (mItems (mParameter c')) = Some ps"
    using read_items_fresh [of "h @ [Some (ComputeChange c')] @ map (\<lambda>e. Some (Child e)) vs" ps M]
    by (simp add: h'_def c'_def)
  have i3: "read_math h' (mMath c') = Some m"
    by (cases m) (simp_all add: read_math_def h'_def c'_def M_def heap_lookup_def nth_append)
  have new: "SedComputeChange_structure h' (length h) = Some v"
    using l i1 i2 i3 by (simp add: SedComputeChange_structure_def v c'_def)
  have old: "SedComputeChange_structure h' src = Some v"
    using s t by (rule SedComputeChange_structure_extend)
  have o: "\<forall>a \<in> set (owned h' (length h)). length h < a"
    using l by (auto simp add: owned_def c'_def split: option.splits)
  have p: "parent_links_ok h' (length h)"
    using l by (simp add: parent_links_ok_def c'_def)
  have f1: "\<forall>a x. length h \<le> a \<longrightarrow> SedComputeChange_structure (h'[a := x]) src = Some v"
    using SedComputeChange_structure_extend [OF s] t by simp
  have f2: "\<forall>a x. a < length h \<longrightarrow> SedComputeChange_structure (h'[a := x]) (length h) = Some v"
  proof (intro allI impI)
    fix a x assume a: "a < length h"
    show "SedComputeChange_structure (h'[a := x]) (length h) = Some v"
    proof (rule SedComputeChange_structure_frame [OF new])
      fix k assume "k \<in> set (length h # owned h' (length h))"
      then have "a \<noteq> k" using o a by auto
      then show "heap_lookup (h'[a := x]) k = heap_lookup h' k"
        by (rule heap_lookup_update_other)
    qed
  qed
  from r t new old o p f1 f2 show ?thesis by blast
qed


lemma SedPlot2D_copy_result:
  assumes s: "SedPlot2D_structure h src = Some (b, cs)"
  shows "SedPlot2D_copy h (Some src) =
    (Returns (length h),
     h @ [Some (Plot2D
            \<lparr>SedOutput_part = b,
             mCurve = \<lparr>mItems = [Suc (length h) ..< Suc (length h) + length cs],
                       mParentSedObject = Some (length h)\<rparr>\<rparr>)]
       @ map (\<lambda>e. Some (Child e)) cs)"
proof -
  from s obtain p where p: "heap_lookup h src = Some (Plot2D p)"
    and b: "SedOutput_part p = b"
    and cs: "read_items h (mItems (mCurve p)) = Some cs"
    by (auto simp add: SedPlot2D_structure_def split: option.splits obj.splits)
  define h0 where "h0 = h @ [Some (Plot2D
      \<lparr>SedOutput_part = SedOutput_part p, mCurve = SedListOf_new\<rparr>)]"
  have a1: "SedListOf_assign h0 SedListOf_new (mCurve p) =
      Some (\<lparr>mItems = [Suc (length h) ..< Suc (length h) + length cs],
             mParentSedObject = mParentSedObject (mCurve p)\<rparr>,
            h0 @ map (\<lambda>e. Some (Child e)) cs)"
    using SedListOf_assign_read [of h0 "mCurve p" cs SedListOf_new]
      read_items_append [OF cs, of "drop (length h) h0"]
    by (simp add: h0_def)
  have "SedPlot2D_copy h (Some src) =
      (Returns (length h),
       heap_store (h0 @ map (\<lambda>e. Some (Child e)) cs) (length h)
         (Plot2D (SedPlot2D_connectToChild (length h)
            \<lparr>SedOutput_part = SedOutput_part p,
             mCurve = \<lparr>mItems = [Suc (length h) ..< Suc (length h) + length cs],
                       mParentSedObject = mParentSedObject (mCurve p)\<rparr>\<rparr>)))"
    using p a1
    by (simp add: SedPlot2D_copy_def heap_alloc_def h0_def [symmetric])
  then show ?thesis
    by (simp add: b heap_store_def h0_def SedPlot2D_connectToChild_def
          SedListOf_connectToParent_def list_update_append)
qed

lemma SedPlot2D_copy_deep:
  assumes s: "SedPlot2D_structure h src = Some v"
  shows "\<exists>h'. SedPlot2D_copy h (Some src) = (Returns (length h), h')
      \<and> take (length h) h' = h
      \<and> SedPlot2D_structure h' (length h) = Some v
      \<and> SedPlot2D_structure h' src = Some v
      \<and> (\<forall>a \<in> set (owned h' (length h)). length h < a)
      \<and> parent_links_ok h' (length h)
      \<and> (\<forall>a x. length h \<le> a \<longrightarrow> SedPlot2D_structure (h'[a := x]) src = Some v)
      \<and> (\<forall>a x. a < length h \<longrightarrow> SedPlot2D_structure (h'[a := x]) (length h) = Some v)"
proof -
  obtain b cs where v: "v = (b, cs)" by (cases v) auto
  define p' where "p' =
     \<lparr>SedOutput_part = b,
      mCurve = \<lparr>mItems = [Suc (length h) ..< Suc (length h) + length cs],
                mParentSedObject = Some (length h)\<rparr>\<rparr>"
  define h' where "h' = h @ [Some (Plot2D p')] @ map (\<lambda>e. Some (Child e)) cs"
  have r: "SedPlot2D_copy h (Some src) = (Returns (length h), h')"
    using SedPlot2D_copy_result [OF s [unfolded v]]
    by (simp add: h'_def p'_def)
  have t: "take (length h) h' = h"
    by (simp add: h'_def)
  have l: "heap_lookup h' (length h) = Some (Plot2D p')"
    by (simp add: h'_def heap_lookup_def)
  have i1: "read_items h' (mItems (mCurve p')) = Some cs"
    using read_items_fresh [of "h @ [Some (Plot2D p')]" cs "[]"]
    by (simp add: h'_def p'_def)
  have new: "SedPlot2D_structure h' (length h) = Some v"
    using l i1 by (simp add: SedPlot2D_structure_def v p'_def)
  have old: "SedPlot2D_structure h' src = Some v"
    using s t by (rule SedPlot2D_structure_extend)
  have o: "\<forall>a \<in> set (owned h' (length h)). length h < a"
    using l by (auto simp add: owned_def p'_def)
  have p: "parent_links_ok h' (length h)"
    using l by (simp add: parent_links_ok_def p'_def)
  have f1: "\<forall>a x. length h \<le> a \<longrightarrow> SedPlot2D_structure (h'[a := x]) src = Some v"
    using SedPlot2D_structure_extend [OF s] t by simp
  have f2: "\<forall>a x. a < length h \<longrightarrow> SedPlot2D_structure (h'[a := x]) (length h) = Some v"
  proof (intro allI impI)
    fix a x assume a: "a < length h"
    show "SedPlot2D_structure (h'[a := x]) (length h) = Some v"
    proof (rule SedPlot2D_structure_frame [OF new])
      fix k assume "k \<in> set (length h # owned h' (length h))"
      then have "a \<noteq> k" using o a by auto
      then show "heap_lookup (h'[a := x]) k = heap_lookup h' k"
        by (rule heap_lookup_update_other)
    qed
  qed
  from r t new old o p f1 f2 show ?thesis by blast
qed

section \<open>The assignment operators\<close>

lemma owned_not_element:
  assumes "SedComputeChange_structure h e = Some v \<or> SedPlot2D_structure h e = Some w"
    and "a \<in> set (owned h e)"
  shows "(\<exists>x. heap_lookup h a = Some (Child x)) \<or> (\<exists>t. heap_lookup h a = Some (Math t))"
  using assms read_items_live [of h _ _ a] read_math_live [of h a]
  by (auto simp add: SedComputeChange_structure_def SedPlot2D_structure_def owned_def
        split: option.splits obj.splits)

lemma SedComputeChange_assign_result:
  assumes s: "SedComputeChange_structure h src = Some (b, vs, ps, m)"
    and t: "heap_lookup h this = Some (ComputeChange tc)" and ne: "src \<noteq> this"
  shows "SedComputeChange_assign h this (Some src) =
    (Returns this,
     h[this := Some (ComputeChange
            \<lparr>SedChange_part = b,
             mVariable = \<lparr>mItems = [length h ..< length h + length vs],
                          mParentSedObject = Some this\<rparr>,
             mParameter = \<lparr>mItems = [length h + length vs ..< length h + length vs + length ps],
                           mParentSedObject = Some this\<rparr>,
             mMath = (case m of None \<Rightarrow> None
                      | Some t \<Rightarrow> Some (length h + length vs + length ps))\<rparr>)]
       @ map (\<lambda>e. Some (Child e)) vs @ map (\<lambda>e. Some (Child e)) ps
       @ (case m of None \<Rightarrow> [] | Some t \<Rightarrow> [Some (Math t)]))"
proof -
  from s obtain c where c: "heap_lookup h src = Some (ComputeChange c)"
    and b: "SedChange_part c = b"
    and vs: "read_items h (mItems (mVariable c)) = Some vs"
    and ps: "read_items h (mItems (mParameter c)) = Some ps"
    and m: "read_math h (mMath c) = Some m"
    by (auto simp add: SedComputeChange_structure_def split: option.splits obj.splits)
  have lt: "this < length h" using t by (rule heap_lookup_lt)
  define h1 where "h1 = h @ map (\<lambda>e. Some (Child e)) vs"
  define h2 where "h2 = h1 @ map (\<lambda>e. Some (Child e)) ps"
  have a1: "SedListOf_assign h (mVariable tc) (mVariable c) =
      Some (\<lparr>mItems = [length h ..< length h + length vs],
             mParentSedObject = mParentSedObject (mVariable c)\<rparr>, h1)"
    using SedListOf_assign_read [OF vs] by (simp add: h1_def)
  have a2: "SedListOf_assign h1 (mParameter tc) (mParameter c) =
      Some (\<lparr>mItems = [length h + length vs ..< length h + length vs + length ps],
             mParentSedObject = mParentSedObject (mParameter c)\<rparr>, h2)"
    using SedListOf_assign_read [of h1 "mParameter c" ps "mParameter tc"]
      read_items_append [OF ps, of "drop (length h) h1"]
    by (simp add: h1_def h2_def)
  have a3: "deepCopy_or_NULL h2 (mMath c) =
      Some (case m of None \<Rightarrow> None | Some t \<Rightarrow> Some (length h + length vs + length ps),
            h2 @ (case m of None \<Rightarrow> [] | Some t \<Rightarrow> [Some (Math t)]))"
    using deepCopy_or_NULL_read [of h2 "mMath c" m]
      read_math_append [OF m, of "drop (length h) h2"]
    by (cases m) (simp_all add: h1_def h2_def)
  have "SedComputeChange_assign h this (Some src) =
      (Returns this,
       heap_store (h2 @ (case m of None \<Rightarrow> [] | Some t \<Rightarrow> [Some (Math t)])) this
         (ComputeChange (SedComputeChange_connectToChild this
            \<lparr>SedChange_part = SedChange_part c,
             mVariable = \<lparr>mItems = [length h ..< length h + length vs],
                          mParentSedObject = mParentSedObject (mVariable c)\<rparr>,
             mParameter = \<lparr>mItems = [length h + length vs ..< length h + length vs + length ps],
                           mParentSedObject = mParentSedObject (mParameter c)\<rparr>,
             mMath = (case m of None \<Rightarrow> None
                      | Some t \<Rightarrow> Some (length h + length vs + length ps))\<rparr>)))"
    using c t ne a1 a2 a3
    by (simp add: SedComputeChange_assign_def)
  then show ?thesis
    using lt
    by (simp add: b heap_store_def h1_def h2_def SedComputeChange_connectToChild_def
          SedListOf_connectToParent_def list_update_append)
qed

lemma SedComputeChange_assign_deep:
  assumes s: "SedComputeChange_structure h src = Some v"
    and t: "heap_lookup h this = Some (ComputeChange tc)" and ne: "src \<noteq> this"
  shows "\<exists>h'. SedComputeChange_assign h this (Some src) = (Returns this, h')
      \<and> SedComputeChange_structure h' this = Some v
      \<and> SedComputeChange_structure h' src = Some v
      \<and> (\<forall>a \<in> set (owned h' this). length h \<le> a)
      \<and> parent_links_ok h' this
      \<and> (\<forall>a. a < length h \<and> a \<noteq> this \<longrightarrow> heap_lookup h' a = heap_lookup h a)
      \<and> (\<forall>a x. a = this \<or> length h \<le> a \<longrightarrow>
            SedComputeChange_structure (h'[a := x]) src = Some v)"
proof -
  obtain b vs ps m where v: "v = (b, vs, ps, m)" by (cases v) auto
  have lt: "this < length h" using t by (rule heap_lookup_lt)
  define c' where "c' =
     \<lparr>SedChange_part = b,
      mVariable = \<lparr>mItems = [length h ..< length h + length vs],
                   mParentSedObject = Some this\<rparr>,
      mParameter = \<lparr>mItems = [length h + length vs ..< length h + length vs + length ps],
                    mParentSedObject = Some this\<rparr>,
      mMath = (case m of None \<Rightarrow> None
               | Some t \<Rightarrow> Some (length h + length vs + length ps))\<rparr>"
  define M where "M = (case m of None \<Rightarrow> [] | Some t \<Rightarrow> [Some (Math t)])"
  define g where "g = h[this := Some (ComputeChange c')]"
  define h' where "h' = g @ map (\<lambda>e. Some (Child e)) vs @ map (\<lambda>e. Some (Child e)) ps @ M"
  have lg: "length g = length h" by (simp add: g_def)
  have r: "SedComputeChange_assign h this (Some src) = (Returns this, h')"
    using SedComputeChange_assign_result [OF s [unfolded v] t ne]
    by (simp add: h'_def g_def c'_def M_def)
  have l: "heap_lookup h' this = Some (ComputeChange c')"
    using lt by (simp add: h'_def g_def heap_lookup_def nth_append)
  have i1: "read_items h' (mItems (mVariable c')) = Some vs"
    using read_items_fresh [of g vs "map (\<lambda>e. Some (Child e)) ps @ M"]
    by (simp add: h'_def c'_def lg)
  have i2: "read_items h' (mItems (mParameter c')) = Some ps"
    using read_items_fresh [of "g @ map (\<lambda>e. Some (Child e)) vs" ps M]
    by (simp add: h'_def c'_def lg)
  have i3: "read_math h' (mMath c') = Some m"
    by (cases m) (simp_all add: read_math_def h'_def c'_def M_def heap_lookup_def nth_append lg)
  have new: "SedComputeChange_structure h' this = Some v"
    using l i1 i2 i3 by (simp add: SedComputeChange_structure_def v c'_def)
  have fr: "\<forall>a. a < length h \<and> a \<noteq> this \<longrightarrow> heap_lookup h' a = heap_lookup h a"
    by (simp add: h'_def g_def heap_lookup_def nth_append)
  have cells: "k \<in> set (src # owned h src) \<Longrightarrow> k < length h \<and> k \<noteq> this" for k
    using SedComputeChange_structure_live [OF s, of k] owned_not_element [of h src v _ k] s t ne
    by auto
  have old: "SedComputeChange_structure h' src = Some v"
    using fr cells by (intro SedComputeChange_structure_frame [OF s]) blast
  have o: "\<forall>a \<in> set (owned h' this). length h \<le> a"
    using l by (auto simp add: owned_def c'_def split: option.splits)
  have p: "parent_links_ok h' this"
    using l by (simp add: parent_links_ok_def c'_def)
  have f1: "\<forall>a x. a = this \<or> length h \<le> a \<longrightarrow>
      SedComputeChange_structure (h'[a := x]) src = Some v"
  proof (intro allI impI)
    fix a x assume a: "a = this \<or> length h \<le> a"
    show "SedComputeChange_structure (h'[a := x]) src = Some v"
    proof (rule SedComputeChange_structure_frame [OF s])
      fix k assume k: "k \<in> set (src # owned h src)"
      then have "a \<noteq> k" using cells [OF k] a by auto
      then have "heap_lookup (h'[a := x]) k = heap_lookup h' k"
        by (rule heap_lookup_update_other)
      then show "heap_lookup (h'[a := x]) k = heap_lookup h k"
        using fr cells [OF k] by simp
    qed
  qed
  from r new old o p fr f1 show ?thesis by blast
qed


lemma SedPlot2D_assign_result:
  assumes s: "SedPlot2D_structure h src = Some (b, cs)"
    and t: "heap_lookup h this = Some (Plot2D tp)" and ne: "src \<noteq> this"
  shows "SedPlot2D_assign h this (Some src) =
    (Returns this,
     h[this := Some (Plot2D
            \<lparr>SedOutput_part = b,
             mCurve = \<lparr>mItems = [length h ..< length h + length cs],
                       mParentSedObject = Some this\<rparr>\<rparr>)]
       @ map (\<lambda>e. Some (Child e)) cs)"
proof -
  from s obtain p where p: "heap_lookup h src = Some (Plot2D p)"
    and b: "SedOutput_part p = b"
    and cs: "read_items h (mItems (mCurve p)) = Some cs"
    by (auto simp add: SedPlot2D_structure_def split: option.splits obj.splits)
  have lt: "this < length h" using t by (rule heap_lookup_lt)
  have a1: "SedListOf_assign h (mCurve tp) (mCurve p) =
      Some (\<lparr>mItems = [length h ..< length h + length cs],
             mParentSedObject = mParentSedObject (mCurve p)\<rparr>,
            h @ map (\<lambda>e. Some (Child e)) cs)"
    using SedListOf_assign_read [OF cs] by simp
  have "SedPlot2D_assign h this (Some src) =
      (Returns this,
       heap_store (h @ map (\<lambda>e. Some (Child e)) cs) this
         (Plot2D (SedPlot2D_connectToChild this
            \<lparr>SedOutput_part = SedOutput_part p,
             mCurve = \<lparr>mItems = [length h ..< length h + length cs],
                       mParentSedObject = mParentSedObject (mCurve p)\<rparr>\<rparr>)))"
    using p t ne a1
    by (simp add: SedPlot2D_assign_def)
  then show ?thesis
    using lt
    by (simp add: b heap_store_def SedPlot2D_connectToChild_def
          SedListOf_connectToParent_def list_update_append)
qed

lemma SedPlot2D_assign_deep:
  assumes s: "SedPlot2D_structure h src = Some v"
    and t: "heap_lookup h this = Some (Plot2D tp)" and ne: "src \<noteq> this"
  shows "\<exists>h'. SedPlot2D_assign h this (Some src) = (Returns this, h')
      \<and> SedPlot2D_structure h' this = Some v
      \<and> SedPlot2D_structure h' src = Some v
      \<and> (\<forall>a \<in> set (owned h' this). length h \<le> a)
      \<and> parent_links_ok h' this
      \<and> (\<forall>a. a < length h \<and> a \<noteq> this \<longrightarrow> heap_lookup h' a = heap_lookup h a)
      \<and> (\<forall>a x. a = this \<or> length h \<le> a \<longrightarrow>
            SedPlot2D_structure (h'[a := x]) src = Some v)"
proof -
  obtain b cs where v: "v = (b, cs)" by (cases v) auto
  have lt: "this < length h" using t by (rule heap_lookup_lt)
  define p' where "p' =
     \<lparr>SedOutput_part = b,
      mCurve = \<lparr>mItems = [length h ..< length h + length cs],
                mParentSedObject = Some this\<rparr>\<rparr>"
  define g where "g = h[this := Some (Plot2D p')]"
  define h' where "h' = g @ map (\<lambda>e. Some (Child e)) cs"
  have lg: "length g = length h" by (simp add: g_def)
  have r: "SedPlot2D_assign h this (Some src) = (Returns this, h')"
    using SedPlot2D_assign_result [OF s [unfolded v] t ne]
    by (simp add: h'_def g_def p'_def)
  have l: "heap_lookup h' this = Some (Plot2D p')"
    using lt by (simp add: h'_def g_def heap_lookup_def nth_append)
  have i1: "read_items h' (mItems (mCurve p')) = Some cs"
    using read_items_fresh [of g cs "[]"]
    by (simp add: h'_def p'_def lg)
  have new: "SedPlot2D_structure h' this = Some v"
    using l i1 by (simp add: SedPlot2D_structure_def v p'_def)
  have fr: "\<forall>a. a < length h \<and> a \<noteq> this \<longrightarrow> heap_lookup h' a = heap_lookup h a"
    by (simp add: h'_def g_def heap_lookup_def nth_append)
  have cells: "k \<in> set (src # owned h src) \<Longrightarrow> k < length h \<and> k \<noteq> this" for k
    using SedPlot2D_structure_live [OF s, of k] owned_not_element [of h src _ v k] s t ne
    by auto
  have old: "SedPlot2D_structure h' src = Some v"
    using fr cells by (intro SedPlot2D_structure_frame [OF s]) blast
  have o: "\<forall>a \<in> set (owned h' this). length h \<le> a"
    using l by (auto simp add: owned_def p'_def)
  have p: "parent_links_ok h' this"
    using l by (simp add: parent_links_ok_def p'_def)
  have f1: "\<forall>a x. a = this \<or> length h \<le> a \<longrightarrow>
      SedPlot2D_structure (h'[a := x]) src = Some v"
  proof (intro allI impI)
    fix a x assume a: "a = this \<or> length h \<le> a"
    show "SedPlot2D_structure (h'[a := x]) src = Some v"
    proof (rule SedPlot2D_structure_frame [OF s])
      fix k assume k: "k \<in> set (src # owned h src)"
      then have "a \<noteq> k" using cells [OF k] a by auto
      then have "heap_lookup (h'[a := x]) k = heap_lookup h' k"
        by (rule heap_lookup_update_other)
      then show "heap_lookup (h'[a := x]) k = heap_lookup h k"
        using fr cells [OF k] by simp
    qed
  qed
  from r new old o p fr f1 show ?thesis by blast
qed

section \<open>The parent links after construction, copy and assignment\<close>

lemma clone_items_length:
  "clone_items h as = Some (bs, h') \<Longrightarrow> length h \<le> length h'"
proof (induction as arbitrary: h bs h')
  case Nil
  then show ?case by simp
next
  case (Cons a as)
  from Cons.prems obtain e bs' where a: "heap_lookup h a = Some (Child e)"
    and r: "clone_items (h @ [Some (Child e)]) as = Some (bs', h')"
    by (auto simp add: SedChild_clone_def heap_alloc_def split: option.splits obj.splits)
  from Cons.IH [OF r] show ?case by simp
qed

lemma SedListOf_assign_length:
  "SedListOf_assign h lhs rhs = Some (l, h') \<Longrightarrow> length h \<le> length h'"
  using clone_items_length [of h "mItems rhs"]
  by (auto simp add: SedListOf_assign_def split: option.splits)

lemma deepCopy_or_NULL_length:
  "deepCopy_or_NULL h p = Some (q, h') \<Longrightarrow> length h \<le> length h'"
  by (auto simp add: deepCopy_or_NULL_def ASTNode_deepCopy_def heap_alloc_def
        split: option.splits obj.splits)

lemma SedComputeChange_connected:
  "this < length h \<Longrightarrow>
   parent_links_ok (heap_store h this (ComputeChange (SedComputeChange_connectToChild this c))) this"
  by (simp add: parent_links_ok_def heap_lookup_store_same SedComputeChange_connectToChild_def
        SedListOf_connectToParent_def)

lemma SedPlot2D_connected:
  "this < length h \<Longrightarrow>
   parent_links_ok (heap_store h this (Plot2D (SedPlot2D_connectToChild this p))) this"
  by (simp add: parent_links_ok_def heap_lookup_store_same SedPlot2D_connectToChild_def
        SedListOf_connectToParent_def)



lemma SedComputeChange_copy_links:
  "SedComputeChange_copy h orig = (Returns this, h') \<Longrightarrow> parent_links_ok h' this"
  by (auto simp add: SedComputeChange_copy_def heap_alloc_def
        split: option.splits obj.splits prod.splits
        dest!: SedListOf_assign_length deepCopy_or_NULL_length
        intro!: SedComputeChange_connected)

lemma SedComputeChange_assign_links:
  "SedComputeChange_assign h this rhs = (Returns r, h') \<Longrightarrow> rhs \<noteq> Some this \<Longrightarrow>
   parent_links_ok h' this"
  by (auto simp add: SedComputeChange_assign_def
        split: option.splits obj.splits prod.splits if_splits
        dest!: SedListOf_assign_length deepCopy_or_NULL_length heap_lookup_lt
        intro!: SedComputeChange_connected)



lemma SedPlot2D_copy_links:
  "SedPlot2D_copy h orig = (Returns this, h') \<Longrightarrow> parent_links_ok h' this"
  by (auto simp add: SedPlot2D_copy_def heap_alloc_def
        split: option.splits obj.splits prod.splits
        dest!: SedListOf_assign_length
        intro!: SedPlot2D_connected)

lemma SedPlot2D_assign_links:
  "SedPlot2D_assign h this rhs = (Returns r, h') \<Longrightarrow> rhs \<noteq> Some this \<Longrightarrow>
   parent_links_ok h' this"
  by (auto simp add: SedPlot2D_assign_def
        split: option.splits obj.splits prod.splits if_splits
        dest!: SedListOf_assign_length heap_lookup_lt
        intro!: SedPlot2D_connected)

section \<open>Clone\<close>

lemma owned_cong: "heap_lookup h2 e = heap_lookup h e \<Longrightarrow> owned h2 e = owned h e"
  by (simp add: owned_def)

lemma heap_lookup_take:
  "take (length h) h' = h \<Longrightarrow> a < length h \<Longrightarrow> heap_lookup h' a = heap_lookup h a"
  using append_take_drop_id [of "length h" h'] heap_lookup_append [of a h "drop (length h) h'"]
  by simp

lemma SedComputeChange_clone_deep:
  assumes s: "SedComputeChange_structure h e = Some v"
  shows "\<exists>e' h'. SedComputeChange_clone h e = (Returns e', h')
      \<and> heap_lookup h e' = None
      \<and> take (length h) h' = h
      \<and> SedComputeChange_structure h' e' = Some v
      \<and> SedComputeChange_structure h' e = Some v
      \<and> (\<forall>a \<in> set (owned h' e'). heap_lookup h a = None)
      \<and> (\<forall>a \<in> set (e' # owned h' e'). a \<notin> set (e # owned h' e))
      \<and> (\<forall>a \<in> set (e' # owned h' e'). \<forall>x. SedComputeChange_structure (h'[a := x]) e = Some v)
      \<and> (\<forall>a \<in> set (e # owned h' e). \<forall>x. SedComputeChange_structure (h'[a := x]) e' = Some v)"
proof -
  from SedComputeChange_copy_deep [OF s] obtain h' where
    r: "SedComputeChange_copy h (Some e) = (Returns (length h), h')"
    and t: "take (length h) h' = h"
    and new: "SedComputeChange_structure h' (length h) = Some v"
    and old: "SedComputeChange_structure h' e = Some v"
    and o: "\<forall>a \<in> set (owned h' (length h)). length h < a"
    and f1: "\<forall>a x. length h \<le> a \<longrightarrow> SedComputeChange_structure (h'[a := x]) e = Some v"
    and f2: "\<forall>a x. a < length h \<longrightarrow> SedComputeChange_structure (h'[a := x]) (length h) = Some v"
    by blast
  have e: "e < length h"
    using SedComputeChange_structure_live [OF s, of e] by simp
  have oe: "owned h' e = owned h e"
    using heap_lookup_take [OF t e] by (rule owned_cong)
  have lo: "k \<in> set (e # owned h' e) \<Longrightarrow> k < length h" for k
    using SedComputeChange_structure_live [OF s, of k] oe by simp
  have hi: "a \<in> set (length h # owned h' (length h)) \<Longrightarrow> length h \<le> a" for a
    using o by auto
  have 1: "heap_lookup h (length h) = None"
    by (simp add: heap_lookup_beyond)
  have 2: "\<forall>a \<in> set (owned h' (length h)). heap_lookup h a = None"
    using o heap_lookup_beyond [of h] by (meson less_imp_le_nat)
  have 3: "\<forall>a \<in> set (length h # owned h' (length h)). a \<notin> set (e # owned h' e)"
    using hi lo by fastforce
  have 4: "\<forall>a \<in> set (length h # owned h' (length h)). \<forall>x.
      SedComputeChange_structure (h'[a := x]) e = Some v"
    using hi f1 by blast
  have 5: "\<forall>a \<in> set (e # owned h' e). \<forall>x.
      SedComputeChange_structure (h'[a := x]) (length h) = Some v"
    using lo f2 by blast
  from r t new old 1 2 3 4 5 show ?thesis
    unfolding SedComputeChange_clone_def by blast
qed

lemma SedPlot2D_clone_deep:
  assumes s: "SedPlot2D_structure h e = Some v"
  shows "\<exists>e' h'. SedPlot2D_clone h e = (Returns e', h')
      \<and> heap_lookup h e' = None
      \<and> take (length h) h' = h
      \<and> SedPlot2D_structure h' e' = Some v
      \<and> SedPlot2D_structure h' e = Some v
      \<and> (\<forall>a \<in> set (owned h' e'). heap_lookup h a = None)
      \<and> (\<forall>a \<in> set (e' # owned h' e'). a \<notin> set (e # owned h' e))
      \<and> (\<forall>a \<in> set (e' # owned h' e'). \<forall>x. SedPlot2D_structure (h'[a := x]) e = Some v)
      \<and> (\<forall>a \<in> set (e # owned h' e). \<forall>x. SedPlot2D_structure (h'[a := x]) e' = Some v)"
proof -
  from SedPlot2D_copy_deep [OF s] obtain h' where
    r: "SedPlot2D_copy h (Some e) = (Returns (length h), h')"
    and t: "take (length h) h' = h"
    and new: "SedPlot2D_structure h' (length h) = Some v"
    and old: "SedPlot2D_structure h' e = Some v"
    and o: "\<forall>a \<in> set (owned h' (length h)). length h < a"
    and f1: "\<forall>a x. length h \<le> a \<longrightarrow> SedPlot2D_structure (h'[a := x]) e = Some v"
    and f2: "\<forall>a x. a < length h \<longrightarrow> SedPlot2D_structure (h'[a := x]) (length h) = Some v"
    by blast
  have e: "e < length h"
    using SedPlot2D_structure_live [OF s, of e] by simp
  have oe: "owned h' e = owned h e"
    using heap_lookup_take [OF t e] by (rule owned_cong)
  have lo: "k \<in> set (e # owned h' e) \<Longrightarrow> k < length h" for k
    using SedPlot2D_structure_live [OF s, of k] oe by simp
  have hi: "a \<in> set (length h # owned h' (length h)) \<Longrightarrow> length h \<le> a" for a
    using o by auto
  have 1: "heap_lookup h (length h) = None"
    by (simp add: heap_lookup_beyond)
  have 2: "\<forall>a \<in> set (owned h' (length h)). heap_lookup h a = None"
    using o heap_lookup_beyond [of h] by (meson less_imp_le_nat)
  have 3: "\<forall>a \<in> set (length h # owned h' (length h)). a \<notin> set (e # owned h' e)"
    using hi lo by fastforce
  have 4: "\<forall>a \<in> set (length h # owned h' (length h)). \<forall>x.
      SedPlot2D_structure (h'[a := x]) e = Some v"
    using hi f1 by blast
  have 5: "\<forall>a \<in> set (e # owned h' e). \<forall>x.
      SedPlot2D_structure (h'[a := x]) (length h) = Some v"
    using lo f2 by blast
  from r t new old 1 2 3 4 5 show ?thesis
    unfolding SedPlot2D_clone_def by blast
qed

text \<open>
  C1. For a well-formed SedComputeChange or SedPlot2D \<open>e\<close>, \<open>clone\<close> returns the address
  \<open>e'\<close> of an object that did not exist before; nothing that existed is modified; \<open>e'\<close>
  has the structure of \<open>e\<close> (the same superclass part, the same children in the same
  order in each collection, an equal expression or none in both); every child and the
  expression of \<open>e'\<close> are in cells that were not in use before, and no cell of \<open>e'\<close> is a
  cell of \<open>e\<close>; whatever is written to (or deleted from) a cell of \<open>e'\<close>, \<open>e\<close> keeps its
  structure, and the other way round.
\<close>

theorem clone_deep_copy:
  "(SedComputeChange_structure h e = Some v \<longrightarrow>
      (\<exists>e' h'. SedComputeChange_clone h e = (Returns e', h')
        \<and> heap_lookup h e' = None
        \<and> take (length h) h' = h
        \<and> SedComputeChange_structure h' e' = Some v
        \<and> SedComputeChange_structure h' e = Some v
        \<and> (\<forall>a \<in> set (owned h' e'). heap_lookup h a = None)
        \<and> (\<forall>a \<in> set (e' # owned h' e'). a \<notin> set (e # owned h' e))
        \<and> (\<forall>a \<in> set (e' # owned h' e'). \<forall>x. SedComputeChange_structure (h'[a := x]) e = Some v)
        \<and> (\<forall>a \<in> set (e # owned h' e). \<forall>x. SedComputeChange_structure (h'[a := x]) e' = Some v)))
   \<and> (SedPlot2D_structure h e = Some w \<longrightarrow>
      (\<exists>e' h'. SedPlot2D_clone h e = (Returns e', h')
        \<and> heap_lookup h e' = None
        \<and> take (length h) h' = h
        \<and> SedPlot2D_structure h' e' = Some w
        \<and> SedPlot2D_structure h' e = Some w
        \<and> (\<forall>a \<in> set (owned h' e'). heap_lookup h a = None)
        \<and> (\<forall>a \<in> set (e' # owned h' e'). a \<notin> set (e # owned h' e))
        \<and> (\<forall>a \<in> set (e' # owned h' e'). \<forall>x. SedPlot2D_structure (h'[a := x]) e = Some w)
        \<and> (\<forall>a \<in> set (e # owned h' e). \<forall>x. SedPlot2D_structure (h'[a := x]) e' = Some w)))"
proof (intro conjI impI)
  assume "SedComputeChange_structure h e = Some v"
  then show "\<exists>e' h'. SedComputeChange_clone h e = (Returns e', h')
        \<and> heap_lookup h e' = None
        \<and> take (length h) h' = h
        \<and> SedComputeChange_structure h' e' = Some v
        \<and> SedComputeChange_structure h' e = Some v
        \<and> (\<forall>a \<in> set (owned h' e'). heap_lookup h a = None)
        \<and> (\<forall>a \<in> set (e' # owned h' e'). a \<notin> set (e # owned h' e))
        \<and> (\<forall>a \<in> set (e' # owned h' e'). \<forall>x. SedComputeChange_structure (h'[a := x]) e = Some v)
        \<and> (\<forall>a \<in> set (e # owned h' e). \<forall>x. SedComputeChange_structure (h'[a := x]) e' = Some v)"
    by (rule SedComputeChange_clone_deep)
next
  assume "SedPlot2D_structure h e = Some w"
  then show "\<exists>e' h'. SedPlot2D_clone h e = (Returns e', h')
        \<and> heap_lookup h e' = None
        \<and> take (length h) h' = h
        \<and> SedPlot2D_structure h' e' = Some w
        \<and> SedPlot2D_structure h' e = Some w
        \<and> (\<forall>a \<in> set (owned h' e'). heap_lookup h a = None)
        \<and> (\<forall>a \<in> set (e' # owned h' e'). a \<notin> set (e # owned h' e))
        \<and> (\<forall>a \<in> set (e' # owned h' e'). \<forall>x. SedPlot2D_structure (h'[a := x]) e = Some w)
        \<and> (\<forall>a \<in> set (e # owned h' e). \<forall>x. SedPlot2D_structure (h'[a := x]) e' = Some w)"
    by (rule SedPlot2D_clone_deep)
qed

theorem clone_deep_copy_witness:
  "(\<exists>e' h'. SedComputeChange_clone example_heap 0 = (Returns e', h')
      \<and> heap_lookup example_heap e' = None
      \<and> SedComputeChange_structure h' e' =
          Some (example_base, [example_variable], [example_parameter], Some example_math)
      \<and> SedComputeChange_structure h' 0 =
          Some (example_base, [example_variable], [example_parameter], Some example_math)
      \<and> SedComputeChange_structure (heap_delete h' (Some e')) 0 =
          Some (example_base, [example_variable], [example_parameter], Some example_math))
   \<and> (\<exists>e' h'. SedPlot2D_clone example_heap 4 = (Returns e', h')
      \<and> heap_lookup example_heap e' = None
      \<and> SedPlot2D_structure h' e' = Some (example_base, [example_curve])
      \<and> SedPlot2D_structure h' 4 = Some (example_base, [example_curve])
      \<and> SedPlot2D_structure (heap_delete h' (Some e')) 4 = Some (example_base, [example_curve]))"
proof -
  note A = clone_deep_copy [of example_heap 0
      "(example_base, [example_variable], [example_parameter], Some example_math)" _,
      THEN conjunct1, THEN mp, OF example_structure(1)]
  note B = clone_deep_copy [of example_heap 4 _ "(example_base, [example_curve])",
      THEN conjunct2, THEN mp, OF example_structure(2)]
  from A have 1: "\<exists>e' h'. SedComputeChange_clone example_heap 0 = (Returns e', h')
      \<and> heap_lookup example_heap e' = None
      \<and> SedComputeChange_structure h' e' =
          Some (example_base, [example_variable], [example_parameter], Some example_math)
      \<and> SedComputeChange_structure h' 0 =
          Some (example_base, [example_variable], [example_parameter], Some example_math)
      \<and> SedComputeChange_structure (heap_delete h' (Some e')) 0 =
          Some (example_base, [example_variable], [example_parameter], Some example_math)"
    unfolding heap_delete_def by (simp del: One_nat_def) blast
  from B have 2: "\<exists>e' h'. SedPlot2D_clone example_heap 4 = (Returns e', h')
      \<and> heap_lookup example_heap e' = None
      \<and> SedPlot2D_structure h' e' = Some (example_base, [example_curve])
      \<and> SedPlot2D_structure h' 4 = Some (example_base, [example_curve])
      \<and> SedPlot2D_structure (heap_delete h' (Some e')) 4 = Some (example_base, [example_curve])"
    unfolding heap_delete_def by (simp del: One_nat_def) blast
  from 1 2 show ?thesis by (intro conjI)
qed

section \<open>Copy construction and assignment\<close>

lemma fresh_cells:
  "\<forall>a \<in> set as. length h \<le> a \<Longrightarrow> list_all (\<lambda>a. heap_lookup h a = None) as"
  by (simp add: list_all_iff heap_lookup_beyond)

lemma SedComputeChange_copy_deep_copied:
  assumes s: "SedComputeChange_structure h src = Some v"
  shows "\<exists>new h'. SedComputeChange_copy h (Some src) = (Returns new, h')
      \<and> heap_lookup h new = None \<and> SedComputeChange_deep_copied h src h' new"
proof -
  from SedComputeChange_copy_deep [OF s] obtain h' where
    r: "SedComputeChange_copy h (Some src) = (Returns (length h), h')"
    and new: "SedComputeChange_structure h' (length h) = Some v"
    and old: "SedComputeChange_structure h' src = Some v"
    and o: "\<forall>a \<in> set (owned h' (length h)). length h < a"
    by blast
  have "list_all (\<lambda>a. heap_lookup h a = None) (owned h' (length h))"
    using o by (intro fresh_cells) auto
  then have "SedComputeChange_deep_copied h src h' (length h)"
    using s new old by (simp add: SedComputeChange_deep_copied_def)
  then show ?thesis
    using r heap_lookup_beyond [of h "length h"] by auto
qed

lemma SedComputeChange_assign_deep_copied:
  assumes s: "SedComputeChange_structure h src = Some v"
    and t: "heap_lookup h this = Some (ComputeChange tc)" and ne: "src \<noteq> this"
  shows "\<exists>h'. SedComputeChange_assign h this (Some src) = (Returns this, h')
      \<and> SedComputeChange_deep_copied h src h' this"
proof -
  from SedComputeChange_assign_deep [OF s t ne] obtain h' where
    r: "SedComputeChange_assign h this (Some src) = (Returns this, h')"
    and new: "SedComputeChange_structure h' this = Some v"
    and old: "SedComputeChange_structure h' src = Some v"
    and o: "\<forall>a \<in> set (owned h' this). length h \<le> a"
    by blast
  have "list_all (\<lambda>a. heap_lookup h a = None) (owned h' this)"
    using o by (rule fresh_cells)
  then have "SedComputeChange_deep_copied h src h' this"
    using s new old by (simp add: SedComputeChange_deep_copied_def)
  then show ?thesis
    using r by auto
qed

lemma SedPlot2D_copy_deep_copied:
  assumes s: "SedPlot2D_structure h src = Some v"
  shows "\<exists>new h'. SedPlot2D_copy h (Some src) = (Returns new, h')
      \<and> heap_lookup h new = None \<and> SedPlot2D_deep_copied h src h' new"
proof -
  from SedPlot2D_copy_deep [OF s] obtain h' where
    r: "SedPlot2D_copy h (Some src) = (Returns (length h), h')"
    and new: "SedPlot2D_structure h' (length h) = Some v"
    and old: "SedPlot2D_structure h' src = Some v"
    and o: "\<forall>a \<in> set (owned h' (length h)). length h < a"
    by blast
  have "list_all (\<lambda>a. heap_lookup h a = None) (owned h' (length h))"
    using o by (intro fresh_cells) auto
  then have "SedPlot2D_deep_copied h src h' (length h)"
    using s new old by (simp add: SedPlot2D_deep_copied_def)
  then show ?thesis
    using r heap_lookup_beyond [of h "length h"] by auto
qed

lemma SedPlot2D_assign_deep_copied:
  assumes s: "SedPlot2D_structure h src = Some v"
    and t: "heap_lookup h this = Some (Plot2D tp)" and ne: "src \<noteq> this"
  shows "\<exists>h'. SedPlot2D_assign h this (Some src) = (Returns this, h')
      \<and> SedPlot2D_deep_copied h src h' this"
proof -
  from SedPlot2D_assign_deep [OF s t ne] obtain h' where
    r: "SedPlot2D_assign h this (Some src) = (Returns this, h')"
    and new: "SedPlot2D_structure h' this = Some v"
    and old: "SedPlot2D_structure h' src = Some v"
    and o: "\<forall>a \<in> set (owned h' this). length h \<le> a"
    by blast
  have "list_all (\<lambda>a. heap_lookup h a = None) (owned h' this)"
    using o by (rule fresh_cells)
  then have "SedPlot2D_deep_copied h src h' this"
    using s new old by (simp add: SedPlot2D_deep_copied_def)
  then show ?thesis
    using r by auto
qed

lemma self_assignment:
  "SedComputeChange_assign h this (Some this) = (Returns this, h)"
  "SedPlot2D_assign h this (Some this) = (Returns this, h)"
  by (simp_all add: SedComputeChange_assign_def SedPlot2D_assign_def)

text \<open>
  C6, as the claim states it, fails: assigning a SedComputeChange with children to itself
  returns without copying anything, so the children it holds afterwards are the cells
  they were, not copies.
\<close>

theorem self_assignment_counterexample:
  "SedComputeChange_structure example_heap 0 \<noteq> None
   \<and> SedComputeChange_assign example_heap 0 (Some 0) = (Returns 0, example_heap)
   \<and> owned (snd (SedComputeChange_assign example_heap 0 (Some 0))) 0 = [1, 2, 3]
   \<and> heap_lookup example_heap 1 = Some (Child example_variable)
   \<and> \<not> SedComputeChange_deep_copied example_heap 0
         (snd (SedComputeChange_assign example_heap 0 (Some 0))) 0"
proof -
  have o: "owned example_heap 0 = [1, 2, 3]"
    by (simp add: owned_def heap_lookup_def example_heap_def example_change_def)
  have l: "heap_lookup example_heap 1 = Some (Child example_variable)"
    by (simp add: heap_lookup_def example_heap_def)
  show ?thesis
    using example_structure(1) o l
    by (simp add: self_assignment SedComputeChange_deep_copied_def del: One_nat_def)
qed

text \<open>
  C6, amended. The copy constructor of SedComputeChange and of SedPlot2D, given a
  well-formed source, returns a new object that is a deep copy of it: the child
  collections and, for SedComputeChange, the expression tree are copied into cells that
  were not in use. The assignment operator, given a well-formed source other than the
  object assigned to, makes that object a deep copy of the source. Assigning an object to
  itself returns and changes nothing. Nothing is stated for a source that is no object:
  the sources' test for it compares the address of a reference.
\<close>

theorem copy_and_assignment_contract:
  "(SedComputeChange_structure h src = Some v \<longrightarrow>
        (\<exists>new h'. SedComputeChange_copy h (Some src) = (Returns new, h')
           \<and> heap_lookup h new = None \<and> SedComputeChange_deep_copied h src h' new))
   \<and> (SedComputeChange_structure h src = Some v
        \<and> heap_lookup h this = Some (ComputeChange tc) \<and> src \<noteq> this \<longrightarrow>
        (\<exists>h'. SedComputeChange_assign h this (Some src) = (Returns this, h')
           \<and> SedComputeChange_deep_copied h src h' this))
   \<and> SedComputeChange_assign h this (Some this) = (Returns this, h)
   \<and> (SedPlot2D_structure h src = Some w \<longrightarrow>
        (\<exists>new h'. SedPlot2D_copy h (Some src) = (Returns new, h')
           \<and> heap_lookup h new = None \<and> SedPlot2D_deep_copied h src h' new))
   \<and> (SedPlot2D_structure h src = Some w
        \<and> heap_lookup h this = Some (Plot2D tp) \<and> src \<noteq> this \<longrightarrow>
        (\<exists>h'. SedPlot2D_assign h this (Some src) = (Returns this, h')
           \<and> SedPlot2D_deep_copied h src h' this))
   \<and> SedPlot2D_assign h this (Some this) = (Returns this, h)"
  by (intro conjI impI self_assignment)
    (auto intro: SedComputeChange_copy_deep_copied SedComputeChange_assign_deep_copied
       SedPlot2D_copy_deep_copied SedPlot2D_assign_deep_copied)


lemma example_structure2:
  "SedComputeChange_structure example_heap2 0 =
     Some (example_base, [example_variable], [example_parameter], Some example_math)"
  "SedPlot2D_structure example_heap2 4 = Some (example_base, [example_curve])"
  "heap_lookup example_heap2 8 = Some (ComputeChange example_empty_change)"
  "heap_lookup example_heap2 9 = Some (Plot2D example_empty_plot)"
  by (simp_all add: SedComputeChange_structure_def SedPlot2D_structure_def heap_lookup_def
        example_heap2_def example_heap_def example_change_def example_plot_def read_math_def)

theorem copy_and_assignment_contract_witness:
  "(\<exists>new h'. SedComputeChange_copy example_heap2 (Some 0) = (Returns new, h')
       \<and> heap_lookup example_heap2 new = None
       \<and> SedComputeChange_deep_copied example_heap2 0 h' new)
   \<and> (\<exists>h'. SedComputeChange_assign example_heap2 8 (Some 0) = (Returns 8, h')
       \<and> SedComputeChange_deep_copied example_heap2 0 h' 8)
   \<and> (\<exists>new h'. SedPlot2D_copy example_heap2 (Some 4) = (Returns new, h')
       \<and> heap_lookup example_heap2 new = None
       \<and> SedPlot2D_deep_copied example_heap2 4 h' new)
   \<and> (\<exists>h'. SedPlot2D_assign example_heap2 9 (Some 4) = (Returns 9, h')
       \<and> SedPlot2D_deep_copied example_heap2 4 h' 9)"
proof -
  have a: "SedComputeChange_structure example_heap2 0 =
        Some (example_base, [example_variable], [example_parameter], Some example_math)
      \<and> heap_lookup example_heap2 8 = Some (ComputeChange example_empty_change)
      \<and> (0::nat) \<noteq> 8"
    and b: "SedPlot2D_structure example_heap2 4 = Some (example_base, [example_curve])
      \<and> heap_lookup example_heap2 9 = Some (Plot2D example_empty_plot) \<and> (4::nat) \<noteq> 9"
    by (simp_all add: example_structure2)
  note T = copy_and_assignment_contract [of example_heap2 0
      "(example_base, [example_variable], [example_parameter], Some example_math)"
      8 example_empty_change _ _]
  note U = copy_and_assignment_contract [of example_heap2 4 _ 9 _
      "(example_base, [example_curve])" example_empty_plot]
  note 1 = T [THEN conjunct1, THEN mp, OF example_structure2(1)]
  note 2 = T [THEN conjunct2, THEN conjunct1, THEN mp, OF a]
  note 3 = U [THEN conjunct2, THEN conjunct2, THEN conjunct2, THEN conjunct1, THEN mp,
      OF example_structure2(2)]
  note 4 = U [THEN conjunct2, THEN conjunct2, THEN conjunct2, THEN conjunct2, THEN conjunct1,
      THEN mp, OF b]
  from 1 2 3 4 show ?thesis by (intro conjI)
qed

section \<open>The parent links in the stores that arise\<close>

lemma cell_ok_plain [simp]:
  "cell_ok a None" "cell_ok a (Some (Child e))" "cell_ok a (Some (Math t))"
  by (simp_all add: cell_ok_def)





lemma heap_lookup_snoc:
  "heap_lookup (h @ [x]) a = (if a = length h then x else heap_lookup h a)"
  by (simp add: heap_lookup_def nth_append)

lemma heap_lookup_update:
  "heap_lookup (h[b := x]) a = (if a = b \<and> b < length h then x else heap_lookup h a)"
  by (simp add: heap_lookup_def)

lemma links_except_append:
  "links_except b h \<Longrightarrow> length h = b \<or> cell_ok (length h) x \<Longrightarrow> links_except b (h @ [x])"
  by (auto simp add: links_except_def heap_lookup_snoc)

lemma links_except_update:
  "links_except b h \<Longrightarrow> a = b \<or> cell_ok a x \<Longrightarrow> links_except b (h[a := x])"
  by (auto simp add: links_except_def heap_lookup_update)

lemma links_except_delete: "links_except b h \<Longrightarrow> links_except b (heap_delete h p)"
  by (cases p) (simp_all add: heap_delete_def links_except_update)

lemma links_except_delete_items: "links_except b h \<Longrightarrow> links_except b (delete_items h as)"
  by (induction as arbitrary: h) (simp_all add: links_except_delete)

lemma links_except_clone:
  "SedChild_clone h a = Some (c, h') \<Longrightarrow> links_except b h \<Longrightarrow> links_except b h'"
  by (auto simp add: SedChild_clone_def heap_alloc_def split: option.splits obj.splits
        intro: links_except_append)



lemma links_except_append_item:
  "SedListOf_append h l item = Some (l', h') \<Longrightarrow> links_except b h \<Longrightarrow> links_except b h'"
  by (auto simp add: SedListOf_append_def split: option.splits intro: links_except_clone)




lemma cell_ok_same_parents:
  "cell_ok a (Some (ComputeChange c)) \<Longrightarrow>
   mParentSedObject (mVariable c') = mParentSedObject (mVariable c) \<Longrightarrow>
   mParentSedObject (mParameter c') = mParentSedObject (mParameter c) \<Longrightarrow>
   cell_ok a (Some (ComputeChange c'))"
  "cell_ok a (Some (Plot2D p)) \<Longrightarrow>
   mParentSedObject (mCurve p') = mParentSedObject (mCurve p) \<Longrightarrow>
   cell_ok a (Some (Plot2D p'))"
  by (simp_all add: cell_ok_def)








































section \<open>The parent links\<close>












end
